theory Spec2Isabelle
  imports Complex_Main "HOL-Library.Log_Nat"
begin

section \<open>Data model of selfdrive/controls/controlsd.py\<close>

text \<open>
  Python floats are modelled by the reals (exact arithmetic, no rounding) wherever the
  source only adds, multiplies and compares finite speeds.  Where the source itself
  tests for NaN or infinity (the curve-speed NaN check, the actuator finiteness guard)
  the value is a \<open>pyfloat\<close>: a real or one of the three IEEE special values.  The
  low-pass filter of \<open>update_max_speed\<close> feeds its own result back on every call, so
  there each operation is rounded to a double (\<open>fl\<close> below).
\<close>

datatype pyfloat = Fin real | PInf | NInf | NaN

fun isfinite :: "pyfloat \<Rightarrow> bool" where
  "isfinite (Fin _) = True"
| "isfinite _ = False"

fun isnan :: "pyfloat \<Rightarrow> bool" where
  "isnan NaN = True"
| "isnan _ = False"

text \<open>Comparison \<open>a < b\<close> of floats: false as soon as one side is NaN.\<close>

fun f_lt :: "pyfloat \<Rightarrow> pyfloat \<Rightarrow> bool" where
  "f_lt NaN _ = False"
| "f_lt _ NaN = False"
| "f_lt (Fin a) (Fin b) = (a < b)"
| "f_lt NInf NInf = False"
| "f_lt NInf _ = True"
| "f_lt _ NInf = False"
| "f_lt PInf _ = False"
| "f_lt _ PInf = True"

definition f_gt :: "pyfloat \<Rightarrow> pyfloat \<Rightarrow> bool" where
  "f_gt a b = f_lt b a"

text \<open>Python's builtin \<open>max(a, b)\<close>: \<open>b\<close> when \<open>b > a\<close>, else \<open>a\<close>;
  \<open>min(a, b)\<close>: \<open>b\<close> when \<open>b < a\<close>, else \<open>a\<close>.\<close>

definition py_max :: "pyfloat \<Rightarrow> pyfloat \<Rightarrow> pyfloat" where
  "py_max a b = (if f_gt b a then b else a)"

definition py_min :: "pyfloat \<Rightarrow> pyfloat \<Rightarrow> pyfloat" where
  "py_min a b = (if f_lt b a then b else a)"

text \<open>Python's \<open>int(x)\<close> on a finite float truncates toward zero.\<close>

definition py_int :: "real \<Rightarrow> int" where
  "py_int x = (if 0 \<le> x then \<lfloor>x\<rfloor> else \<lceil>x\<rceil>)"

subsection \<open>Rounding to a double\<close>

text \<open>
  A double is \<open>n * 2^e\<close> with \<open>|n| < 2^53\<close> and \<open>e \<ge> -1074\<close>.  \<open>rhe\<close> rounds to the
  nearest integer, a tie going to the even one; \<open>binade r\<close> is the \<open>k\<close> with
  \<open>2^k \<le> |r| < 2^(k+1)\<close>; \<open>fl r\<close> is the result of an operation whose exact value is
  \<open>r\<close>, rounded to nearest with ties to even, subnormal numbers included.  Overflow to
  infinity (from \<open>2^1024\<close> on) is not represented; \<open>is_double\<close> excludes such values.
\<close>

definition rhe :: "real \<Rightarrow> int" where
  "rhe q = (let f = \<lfloor>q\<rfloor>; d = q - of_int f
            in if d < 1 / 2 then f else if 1 / 2 < d then f + 1
               else if even f then f else f + 1)"

definition binade :: "real \<Rightarrow> int" where
  "binade r = (if 1 \<le> \<bar>r\<bar> then bitlen \<lfloor>\<bar>r\<bar>\<rfloor> - 1
               else - int (ceillog2 (nat \<lceil>1 / \<bar>r\<bar>\<rceil>)))"

definition ulp_exp :: "real \<Rightarrow> int" where
  "ulp_exp r = max (binade r - 52) (- 1074)"

definition fl :: "real \<Rightarrow> real" where
  "fl r = (if r = 0 then 0
           else of_int (rhe (r / 2 powi ulp_exp r)) * 2 powi ulp_exp r)"

definition is_double :: "real \<Rightarrow> bool" where
  "is_double x \<longleftrightarrow> fl x = x \<and> \<bar>x\<bar> < 2 ^ 1024"

subsection \<open>Enumerations\<close>

datatype State = State_disabled | State_preEnabled | State_enabled | State_softDisabling

datatype ET = ENABLE | PRE_ENABLE | NO_ENTRY | WARNING | USER_DISABLE | SOFT_DISABLE
  | IMMEDIATE_DISABLE | PERMANENT

text \<open>Event names are the field names of the capnp enum \<open>car.CarEvent.EventName\<close>.\<close>

type_synonym EventName = string

datatype SafetyModel = SafetyModel_silent | SafetyModel_noOutput | SafetyModel_other nat

definition IGNORED_SAFETY_MODES :: "SafetyModel list" where
  "IGNORED_SAFETY_MODES = [SafetyModel_silent, SafetyModel_noOutput]"

datatype PandaType = PandaType_unknown | PandaType_whitePanda | PandaType_greyPanda
  | PandaType_blackPanda | PandaType_pedal | PandaType_uno | PandaType_dos

datatype ThermalStatus = ThermalStatus_green | ThermalStatus_yellow | ThermalStatus_red
  | ThermalStatus_danger

fun ThermalStatus_raw :: "ThermalStatus \<Rightarrow> nat" where
  "ThermalStatus_raw ThermalStatus_green = 0"
| "ThermalStatus_raw ThermalStatus_yellow = 1"
| "ThermalStatus_raw ThermalStatus_red = 2"
| "ThermalStatus_raw ThermalStatus_danger = 3"

datatype Calibration = UNCALIBRATED | CALIBRATED | INVALID

datatype LaneChangeState = LaneChangeState_off | LaneChangeState_preLaneChange
  | LaneChangeState_laneChangeStarting | LaneChangeState_laneChangeFinishing

datatype LaneChangeDirection = LaneChangeDirection_none | LaneChangeDirection_left
  | LaneChangeDirection_right

datatype ButtonType = ButtonType_unknown | ButtonType_accelCruise | ButtonType_decelCruise
  | ButtonType_cancel | ButtonType_other nat

datatype error = AttributeError | IndexError

subsection \<open>Messages read on a tick\<close>

record ButtonEvent =
  pressed :: bool
  button_type :: ButtonType

record CarState =
  vEgo :: real
  aEgo :: real
  adaptiveCruise :: bool
  regenPressed :: bool
  cruiseState_enabled :: bool
  canValid :: bool
  CS_events :: "EventName list"
  buttonEvents :: "ButtonEvent list"
  leftBlinker :: bool
  rightBlinker :: bool
  leftBlindspot :: bool
  rightBlindspot :: bool
  brakePressed :: bool
  steerWarning :: bool
  steerError :: bool
  steeringPressed :: bool
  steeringAngleDeg :: real

record Lead =
  status :: bool
  dRel :: real
  vRel :: real

record RadarState =
  leadOne :: Lead
  radarErrors :: "nat list"

record PandaState =
  safetyModel :: SafetyModel
  safetyParam :: int
  controlsAllowed :: bool
  fault_relayMalfunction :: bool

record SafetyConfig =
  cfg_safetyModel :: SafetyModel
  cfg_safetyParam :: int

record DeviceState =
  batteryPercent :: int
  chargingError :: bool
  thermalStatus :: ThermalStatus
  freeSpacePercent :: real
  memoryUsagePercent :: int
  fanSpeedPercentDesired :: int

record PeripheralState =
  pandaType :: PandaType
  fanSpeedRpm :: int

record LateralPlan =
  laneChangeState :: LaneChangeState
  laneChangeDirection :: LaneChangeDirection
  mpcSolutionValid :: bool
  dPathPoints :: "real list"
  rProb :: real
  lProb :: real

record ModelV2 =
  position_x :: "real list"
  position_y :: "real list"
  hardBrakePredicted :: bool
  desirePrediction :: "real list"
  frameDropPerc :: real
  laneLines_y :: "real list list"

record LongitudinalPlan =
  fcw :: bool
  hasLead :: bool
  speeds :: "real list"

record LiveLocationKalman =
  sensorsOK :: bool
  posenetOK :: bool
  deviceStable :: bool
  excessiveResets :: bool
  orientationNED_value :: "real list"

record TestJoystick =
  axes :: "pyfloat list"
  buttons :: "bool list"

text \<open>
  One snapshot of the \<open>SubMaster\<close>: the messages \<open>sm['name']\<close>, the frame counter and
  the results of its liveness queries (\<open>all_alive_and_valid()\<close>, \<open>all_alive(camera_packets)\<close>,
  \<open>valid['pandaStates']\<close>, \<open>rcv_frame[...]\<close>), which the messaging library computes.
\<close>

record SubMaster =
  frame :: int
  all_alive_and_valid :: bool
  all_alive_cameras :: bool
  valid_pandaStates :: bool
  rcv_frame_managerState :: int
  rcv_frame_testJoystick :: int
  deviceState :: DeviceState
  peripheralState :: PeripheralState
  pandaStates :: "PandaState list"
  liveCalibration_calStatus :: Calibration
  lateralPlan :: LateralPlan
  radarState :: RadarState
  modelV2 :: ModelV2
  longitudinalPlan :: LongitudinalPlan
  liveLocationKalman :: LiveLocationKalman
  liveParameters_valid :: bool
  driverMonitoringState_events :: "EventName list"
  managerState_not_running :: "string list"
  testJoystick :: TestJoystick


subsection \<open>Messages written on a tick\<close>

text \<open>
  A capnp field as \<open>getattr\<close> reads it back: a float, or an enum (which is not a
  \<open>Number\<close>).  The \<open>Actuators\<close> message is the map from its schema's field names to
  their values; the schema itself (the list \<open>ACTUATOR_FIELDS\<close>) comes from the cereal
  package.
\<close>

datatype capnp_value = Float pyfloat | Enum string

type_synonym Actuators = "string \<Rightarrow> capnp_value"

fun isinstance_Number :: "capnp_value \<Rightarrow> bool" where
  "isinstance_Number (Float _) = True"
| "isinstance_Number (Enum _) = False"

record CarControl =
  CC_enabled :: bool
  CC_active :: bool
  CC_actuators :: Actuators
  CC_roll :: real
  CC_pitch :: real
  cruiseControl_cancel :: bool
  hud_setSpeed :: real
  hud_speedVisible :: bool
  hud_lanesVisible :: bool
  hud_leadVisible :: bool
  hud_leftLaneDepart :: bool
  hud_rightLaneDepart :: bool

subsection \<open>Constants and functions of other modules\<close>

record CarParams =
  carName :: string
  dashcamOnly :: bool
  communityFeature :: bool
  fingerprintSource_can :: bool
  carFw_len :: nat
  pcmCruise :: bool
  openpilotLongitudinalControl :: bool
  steerControlType_angle :: bool
  minSteerSpeed :: real
  safetyConfigs :: "SafetyConfig list"

text \<open>
  What controlsd.py imports: the unit conversions of \<open>selfdrive.config\<close>, the cruise
  limits of \<open>drive_helpers\<close>, \<open>TRAJECTORY_SIZE\<close>, the curve constants of
  \<open>selfdrive.car.gm.values\<close>, the tuning values read through \<open>ntune\<close>, the hardware and
  environment flags, the alert types of every event (the table \<open>EVENTS\<close> of
  \<open>selfdrive.controls.lib.events\<close>), and the functions of numpy and \<open>drive_helpers\<close>
  it calls.  They are parameters of the model.
\<close>

record Env =
  KPH_TO_MS :: real
  MS_TO_KPH :: real
  MS_TO_MPH :: real
  MPH_TO_MS :: real
  V_CRUISE_MIN :: real
  V_CRUISE_MAX :: real
  TRAJECTORY_SIZE :: int
  MIN_CURVE_SPEED :: real
  SLOW_ON_CURVES :: bool
  sccCurvatureFactor :: real
  cameraOffset :: real
  ACTUATOR_FIELDS :: "string list"
  IGNORE_PROCESSES :: "string list"
  EON :: bool
  TICI :: bool
  REPLAY :: bool
  SIMULATION :: bool
  NOSENSOR :: bool
  EVENTS :: "EventName \<Rightarrow> ET list"
  np_curv :: "real list \<Rightarrow> real list \<Rightarrow> pyfloat list"
  np_mean_speed :: "real \<Rightarrow> pyfloat list \<Rightarrow> pyfloat"
  interp :: "real \<Rightarrow> real list \<Rightarrow> real list \<Rightarrow> real"
  update_v_cruise :: "real \<Rightarrow> ButtonEvent list \<Rightarrow> (ButtonType \<Rightarrow> int option) \<Rightarrow> bool \<Rightarrow> bool \<Rightarrow> real"
  update_v_cruise_regen :: "real \<Rightarrow> real \<Rightarrow> bool \<Rightarrow> bool \<Rightarrow> real"
  initialize_v_cruise :: "real \<Rightarrow> ButtonEvent list \<Rightarrow> real \<Rightarrow> real"
  get_startup_event :: "bool \<Rightarrow> bool \<Rightarrow> bool \<Rightarrow> EventName"
  Desire_laneChangeLeft :: int
  Desire_laneChangeRight :: int

text \<open>Modelled from the spec: \<open>DT_CTRL = 0.01 s\<close> (common.realtime), the period of a tick.\<close>

definition DT_CTRL :: real where
  "DT_CTRL = 1 / 100"

definition SOFT_DISABLE_TIME :: real where
  "SOFT_DISABLE_TIME = 3"

definition STEER_ANGLE_SATURATION_TIMEOUT :: real where
  "STEER_ANGLE_SATURATION_TIMEOUT = 1 / DT_CTRL"

definition STEER_ANGLE_SATURATION_THRESHOLD :: real where
  "STEER_ANGLE_SATURATION_THRESHOLD = 5 / 2"

definition LANE_DEPARTURE_THRESHOLD :: real where
  "LANE_DEPARTURE_THRESHOLD = 1 / 10"

definition LDW_MIN_SPEED :: "Env \<Rightarrow> real" where
  "LDW_MIN_SPEED E = 31 * MPH_TO_MS E"

subsection \<open>The attributes of a \<open>Controls\<close> object\<close>

record Controls =
  CP :: CarParams
  is_metric :: bool
  is_ldw_enabled :: bool
  joystick_mode :: bool
  read_only :: bool
  initialized :: bool
  state :: State
  enabled :: bool
  active :: bool
  can_rcv_error :: bool
  soft_disable_timer :: int
  v_cruise_kph :: real
  v_cruise_kph_last :: real
  max_speed_clu :: real
  curve_speed_ms :: real
  min_set_speed_clu :: int
  limited_lead :: bool
  speed_conv_to_clu :: real
  slowing_down :: bool
  slowing_down_alert :: bool
  slowing_down_sound_alert :: bool
  mismatch_counter :: int
  cruise_mismatch_counter :: int
  can_error_counter :: int
  last_blinker_frame :: int
  saturated_count :: int
  distance_traveled :: real
  last_functional_fan_frame :: int
  events :: "EventName list"
  static_events :: "EventName list"
  startup_event :: "EventName option"
  current_alert_types :: "ET list"
  logged_comm_issue :: bool
  button_timers :: "ButtonType \<Rightarrow> int option"
  cloudlog :: "string list"
  CC :: CarControl

section \<open>Cruise speed arbitration\<close>

definition kph_to_clu :: "Env \<Rightarrow> Controls \<Rightarrow> real \<Rightarrow> int" where
  "kph_to_clu E s kph =
     (let speed_conv = (if is_metric s then MS_TO_KPH E else MS_TO_MPH E)
      in py_int (kph * KPH_TO_MS E * speed_conv))"

definition get_lead :: "SubMaster \<Rightarrow> Lead option" where
  "get_lead sm =
     (let radar = radarState sm
      in if status (leadOne radar) then Some (leadOne radar) else None)"

definition get_long_lead_safe_speed :: "Controls \<Rightarrow> real \<Rightarrow> SubMaster \<Rightarrow> CarState \<Rightarrow> real" where
  "get_long_lead_safe_speed s vEgo' sm cs =
     (if adaptiveCruise cs then
        (case get_lead sm of
           None \<Rightarrow> 0
         | Some lead \<Rightarrow>
            (let d = dRel lead - 5 in
             if 0 < d \<and> d < - vRel lead * (9 + 3) * 2 \<and> vRel lead < - 1 then
               (let t = d / vRel lead;
                    accel = - (vRel lead / t) * speed_conv_to_clu s;
                    accel = accel * (1 / 1000)
                in if accel < 0
                   then (let target_speed = vEgo' + accel
                         in max target_speed (real_of_int (min_set_speed_clu s)))
                   else 0)
             else 0))
      else 0)"

text \<open>
  \<open>max_speed\<close> is a Python int: the first branch stores it as it is.  In the second branch
  the literal \<open>0.01\<close> is the double nearest to 1/100, the int is converted to a double
  (exactly, up to \<open>2^53\<close> in absolute value) and the subtraction, the product and the sum
  are each rounded.
\<close>

definition update_max_speed :: "int \<Rightarrow> CarState \<Rightarrow> Controls \<Rightarrow> Controls" where
  "update_max_speed max_speed cs s =
     (if \<not> adaptiveCruise cs \<or> max_speed_clu s \<le> 0 then
        s\<lparr>max_speed_clu := real_of_int max_speed\<rparr>
      else
        (let kp = fl (1 / 100);
             error = fl (fl (real_of_int max_speed) - max_speed_clu s)
         in s\<lparr>max_speed_clu := fl (max_speed_clu s + fl (error * kp))\<rparr>))"


text \<open>Multiplying a float by a finite constant, and reading a finite float.\<close>

fun f_scale :: "pyfloat \<Rightarrow> real \<Rightarrow> pyfloat" where
  "f_scale (Fin a) c = Fin (a * c)"
| "f_scale NaN c = NaN"
| "f_scale PInf c = (if 0 < c then PInf else if c < 0 then NInf else NaN)"
| "f_scale NInf c = (if 0 < c then NInf else if c < 0 then PInf else NaN)"

fun the_Fin :: "pyfloat \<Rightarrow> real" where
  "the_Fin (Fin r) = r"

text \<open>The slice \<open>xs[a:b]\<close>: a negative bound counts from the end, and bounds are clipped.\<close>

definition py_slice :: "'a list \<Rightarrow> int \<Rightarrow> int \<Rightarrow> 'a list" where
  "py_slice xs a b =
     (let n = int (length xs);
          a' = (if a < 0 then max (n + a) 0 else min a n);
          b' = (if b < 0 then max (n + b) 0 else min b n)
      in take (nat (b' - a')) (drop (nat a') xs))"

text \<open>
  The class body defines \<open>cal_curve_speed\<close> twice.  \<open>cal_curve_speed_278\<close> is the
  definition at line 278 and \<open>cal_curve_speed_608\<close> the one at line 608.  A Python class
  body is executed top to bottom and a later \<open>def\<close> rebinds the name, so the method that
  \<open>self.cal_curve_speed\<close> calls is the one of line 608.

  \<open>np_curv E x y\<close> stands for the array \<open>d2y / (1 + dy ** 2) ** 1.5\<close> with
  \<open>dy = np.gradient(y, x)\<close> and \<open>d2y = np.gradient(dy, x)\<close>, and \<open>np_mean_speed E a w\<close> for
  \<open>np.mean(np.sqrt(a / np.clip(np.abs(w), 1e-4, None)))\<close>.  \<open>v_ego\<close> is a finite float.
\<close>

definition cal_curve_speed_278 :: "Env \<Rightarrow> SubMaster \<Rightarrow> real \<Rightarrow> int \<Rightarrow> Controls \<Rightarrow> Controls" where
  "cal_curve_speed_278 E sm v_ego frame' s =
     (if frame' mod 20 = 0 then
        (let md = modelV2 sm in
         if int (length (position_x md)) = TRAJECTORY_SIZE E
            \<and> int (length (position_y md)) = TRAJECTORY_SIZE E then
           (let x = position_x md;
                y = position_y md;
                curv = np_curv E x y;
                start = py_int (interp E v_ego [10, 27] [10, real_of_int (TRAJECTORY_SIZE E - 10)]);
                curv = py_slice curv start (min (start + 10) (TRAJECTORY_SIZE E));
                a_y_max = 2975 / 1000 - v_ego * (375 / 10000);
                model_speed = f_scale (f_scale (np_mean_speed E a_y_max curv) (85 / 100))
                                (sccCurvatureFactor E);
                c = (if f_lt model_speed (Fin v_ego)
                     then py_max model_speed (Fin (MIN_CURVE_SPEED E))
                     else Fin 255);
                c = (if isnan c then Fin 255 else c)
            in s\<lparr>curve_speed_ms := the_Fin c\<rparr>)
         else s\<lparr>curve_speed_ms := 255\<rparr>)
      else s)"

definition cal_curve_speed_608 :: "Env \<Rightarrow> SubMaster \<Rightarrow> real \<Rightarrow> int \<Rightarrow> Controls \<Rightarrow> Controls" where
  "cal_curve_speed_608 E sm v_ego frame' s =
     (if frame' mod 10 = 0 then
        (let md = modelV2 sm in
         if int (length (position_x md)) = TRAJECTORY_SIZE E
            \<and> int (length (position_y md)) = TRAJECTORY_SIZE E then
           (let x = position_x md;
                y = position_y md;
                curv = np_curv E x y;
                curv = py_slice curv 5 (TRAJECTORY_SIZE E - 10);
                a_y_max = 2975 / 1000 - v_ego * (375 / 10000);
                model_speed = f_scale (np_mean_speed E a_y_max curv) (70 / 100);
                c = (if f_lt model_speed (Fin v_ego)
                     then py_max model_speed (Fin (32 * KPH_TO_MS E))
                     else Fin 255);
                c = (if isnan c then Fin 255 else c)
            in s\<lparr>curve_speed_ms := the_Fin c\<rparr>)
         else s\<lparr>curve_speed_ms := 255\<rparr>)
      else s)"

definition cal_curve_speed :: "Env \<Rightarrow> SubMaster \<Rightarrow> real \<Rightarrow> int \<Rightarrow> Controls \<Rightarrow> Controls" where
  "cal_curve_speed = cal_curve_speed_608"

text \<open>
  The result of \<open>road_speed_limiter_get_max_speed(vEgo, is_metric)\<close> on a tick.
\<close>

record RoadLimit =
  apply_limit_speed :: real
  road_limit_speed :: real
  left_dist :: real
  first_started :: bool
  max_speed_log :: string

text \<open>\<open>cal_max_speed\<close>, lines 321 to 324: the candidate from the cruise and curve speeds.\<close>

definition curve_candidate :: "Env \<Rightarrow> Controls \<Rightarrow> real" where
  "curve_candidate E s =
     (if SLOW_ON_CURVES E \<and> MIN_CURVE_SPEED E \<le> curve_speed_ms s
      then min (v_cruise_kph s * KPH_TO_MS E) (curve_speed_ms s) * speed_conv_to_clu s
      else real_of_int (kph_to_clu E s (v_cruise_kph s)))"

text \<open>\<open>cal_max_speed\<close>, lines 332 to 354: the clamp to the road speed limit.\<close>

definition road_limit_clamp :: "Env \<Rightarrow> RoadLimit \<Rightarrow> real \<Rightarrow> Controls \<Rightarrow> real \<times> Controls" where
  "road_limit_clamp E rl max_speed_clu' s =
     (if real_of_int (kph_to_clu E s 30) \<le> apply_limit_speed rl then
        (let s = (if first_started rl then s\<lparr>max_speed_clu := v_cruise_kph s\<rparr> else s);
             max_speed_clu' = min max_speed_clu' (apply_limit_speed rl)
         in if apply_limit_speed rl < v_cruise_kph s then
              (let s = (if \<not> slowing_down_alert s \<and> \<not> slowing_down s
                        then s\<lparr>slowing_down_sound_alert := True, slowing_down := True\<rparr>
                        else s)
               in (max_speed_clu', s\<lparr>slowing_down_alert := True\<rparr>))
            else (max_speed_clu', s\<lparr>slowing_down_alert := False\<rparr>))
      else (max_speed_clu', s\<lparr>slowing_down_alert := False, slowing_down := False\<rparr>))"

text \<open>\<open>cal_max_speed\<close>, lines 356 to 365: the clamp to the lead-safe speed.\<close>

definition lead_clamp :: "real \<Rightarrow> real \<Rightarrow> real \<Rightarrow> Controls \<Rightarrow> real \<times> Controls" where
  "lead_clamp lead_speed vEgo' max_speed_clu' s =
     (if real_of_int (min_set_speed_clu s) \<le> lead_speed then
        (if lead_speed < max_speed_clu' then
           (let max_speed_clu' = min max_speed_clu' lead_speed
            in if \<not> limited_lead s
               then (max_speed_clu', s\<lparr>max_speed_clu := vEgo' + 3, limited_lead := True\<rparr>)
               else (max_speed_clu', s))
         else (max_speed_clu', s))
      else (max_speed_clu', s\<lparr>limited_lead := False\<rparr>))"

text \<open>\<open>cal_max_speed\<close>, lines 309 to 354: everything before the lead clamp.\<close>

definition cms_before_lead ::
  "Env \<Rightarrow> RoadLimit \<Rightarrow> int \<Rightarrow> real \<Rightarrow> SubMaster \<Rightarrow> Controls \<Rightarrow> real \<times> Controls" where
  "cms_before_lead E rl frame' vEgo' sm s =
     (let s = cal_curve_speed E sm vEgo' frame' s;
          max_speed_clu' = curve_candidate E s
      in road_limit_clamp E rl max_speed_clu' s)"

definition cal_max_speed ::
  "Env \<Rightarrow> RoadLimit \<Rightarrow> int \<Rightarrow> real \<Rightarrow> SubMaster \<Rightarrow> CarState \<Rightarrow> Controls
     \<Rightarrow> (real \<times> real \<times> string) \<times> Controls" where
  "cal_max_speed E rl frame' vEgo' sm cs s =
     (let (max_speed_clu', s) = cms_before_lead E rl frame' vEgo' sm s;
          max_speed_log' = [];
          lead_speed = get_long_lead_safe_speed s vEgo' sm cs;
          (max_speed_clu', s) = lead_clamp lead_speed vEgo' max_speed_clu' s;
          s = update_max_speed (py_int (max_speed_clu' + 1 / 2)) cs s
      in ((road_limit_speed rl, left_dist rl, max_speed_log'), s))"

section \<open>One tick of the control loop\<close>

text \<open>
  What a tick reads from outside: whether the CAN socket delivered frames, the
  \<open>CarState\<close> built by the car interface, the \<open>SubMaster\<close> snapshot, the Android log
  messages drained on TICI (for each message the error markers it contains and the
  token after \<open>CSID:\<close>) and the answer of the road speed limiter.
\<close>

record AndroidLog =
  msg_errors :: "string list"
  msg_csid :: string

record LacLog =
  lac_active :: bool
  lac_steeringAngleDeg :: real
  lac_output :: pyfloat
  lac_saturated :: bool

text \<open>
  The values returned on a tick by the longitudinal and lateral controllers
  (\<open>LoC.update\<close>, \<open>LaC.update\<close>), as the message fields they are stored in read them
  back; the controllers themselves are other modules.
\<close>

record Controllers =
  LoC_long_control_state :: string
  LoC_accel :: pyfloat
  LaC_steer :: pyfloat
  LaC_steeringAngleDeg :: pyfloat
  LaC_log :: LacLog

record Tick =
  can_strs_received :: bool
  tick_CS :: CarState
  tick_sm :: SubMaster
  tick_androidLog :: "AndroidLog list"
  tick_road_limit :: RoadLimit
  tick_controllers :: Controllers

text \<open>An \<open>if c: ...\<close> statement on the object's state.\<close>

definition when_do :: "bool \<Rightarrow> (Controls \<Rightarrow> Controls) \<Rightarrow> Controls \<Rightarrow> Controls" where
  "when_do c f s = (if c then f s else s)"

subsection \<open>The event set\<close>

text \<open>
  Modelled from the spec: the class \<open>Events\<close> of selfdrive.controls.lib.events, which is
  not part of the given source.  The spec's EventSet is the collection of active events
  with \<open>clear()\<close>, \<open>add(kind)\<close>, \<open>add_from_msg(list)\<close> and \<open>any(alertType)\<close>, where
  \<open>any\<close> scans the events for one whose attached alert types contain the given type.
  Events added with \<open>static=True\<close> in \<open>__init__\<close> are kept in \<open>static_events\<close> and are
  what \<open>clear()\<close> starts the next tick's collection from.
\<close>

definition events_clear :: "Controls \<Rightarrow> Controls" where
  "events_clear s = s\<lparr>events := static_events s\<rparr>"

definition events_add :: "EventName \<Rightarrow> Controls \<Rightarrow> Controls" where
  "events_add e s = s\<lparr>events := events s @ [e]\<rparr>"

definition events_add_from_msg :: "EventName list \<Rightarrow> Controls \<Rightarrow> Controls" where
  "events_add_from_msg es s = s\<lparr>events := events s @ es\<rparr>"

definition events_any :: "Env \<Rightarrow> Controls \<Rightarrow> ET \<Rightarrow> bool" where
  "events_any E s et = (\<exists>e \<in> set (events s). et \<in> set (EVENTS E e))"

subsection \<open>\<open>data_sample\<close>\<close>

definition data_sample :: "Env \<Rightarrow> Tick \<Rightarrow> Controls \<Rightarrow> CarState \<times> Controls" where
  "data_sample E t s =
     (let cs = tick_CS t;
          sm = tick_sm t;
          all_valid = (canValid cs \<and> all_alive_and_valid sm);
          s = when_do (\<not> initialized s
                       \<and> (all_valid \<or> 35 / 10 < real_of_int (frame sm) * DT_CTRL \<or> SIMULATION E))
                (\<lambda>s. s\<lparr>initialized := True\<rparr>) s;
          s = (if \<not> can_strs_received t
               then s\<lparr>can_error_counter := can_error_counter s + 1, can_rcv_error := True\<rparr>
               else s\<lparr>can_rcv_error := False\<rparr>);
          s = when_do (\<not> enabled s) (\<lambda>s. s\<lparr>mismatch_counter := 0\<rparr>) s;
          s = when_do (\<exists>ps \<in> set (filter (\<lambda>ps. safetyModel ps \<notin> set IGNORED_SAFETY_MODES)
                                      (pandaStates sm)).
                         \<not> controlsAllowed ps \<and> enabled s)
                (\<lambda>s. s\<lparr>mismatch_counter := mismatch_counter s + 1\<rparr>) s;
          s = s\<lparr>distance_traveled := distance_traveled s + vEgo cs * DT_CTRL\<rparr>
      in (cs, s))"

subsection \<open>\<open>update_events\<close>\<close>

text \<open>Lines 391 to 398: the events of the messages and the one-shot startup event.\<close>

definition ue_messages :: "CarState \<Rightarrow> SubMaster \<Rightarrow> Controls \<Rightarrow> Controls" where
  "ue_messages cs sm s =
     (let s = events_clear s;
          s = events_add_from_msg (CS_events cs) s;
          s = events_add_from_msg (driverMonitoringState_events sm) s
      in case startup_event s of
           Some e \<Rightarrow> (events_add e s)\<lparr>startup_event := None\<rparr>
         | None \<Rightarrow> s)"

text \<open>Lines 405 to 417: battery, temperature, disk space and memory.\<close>

definition ue_hardware :: "Env \<Rightarrow> SubMaster \<Rightarrow> Controls \<Rightarrow> Controls" where
  "ue_hardware E sm s =
     (let s = when_do (EON E \<and> pandaType (peripheralState sm) \<noteq> PandaType_uno
                       \<and> batteryPercent (deviceState sm) < 1 \<and> chargingError (deviceState sm))
                (events_add ''lowBattery'') s;
          s = when_do (ThermalStatus_raw ThermalStatus_red
                         \<le> ThermalStatus_raw (thermalStatus (deviceState sm)))
                (events_add ''overheat'') s;
          s = when_do (freeSpacePercent (deviceState sm) < 7 \<and> \<not> SIMULATION E)
                (events_add ''outOfSpace'') s;
          s = when_do ((if TICI E then 90 else 65) < memoryUsagePercent (deviceState sm)
                       \<and> \<not> SIMULATION E)
                (events_add ''lowMemory'') s
      in s)"

text \<open>Lines 424 to 430: the fan.\<close>

definition ue_fan :: "SubMaster \<Rightarrow> Controls \<Rightarrow> Controls" where
  "ue_fan sm s =
     (if pandaType (peripheralState sm) \<in> set [PandaType_uno, PandaType_dos] then
        (if fanSpeedRpm (peripheralState sm) = 0 \<and> 50 < fanSpeedPercentDesired (deviceState sm)
         then when_do (5 < real_of_int (frame sm - last_functional_fan_frame s) * DT_CTRL)
                (events_add ''fanMalfunction'') s
         else s\<lparr>last_functional_fan_frame := frame sm\<rparr>)
      else s)"

text \<open>Lines 432 to 438: calibration.\<close>

definition ue_calibration :: "SubMaster \<Rightarrow> Controls \<Rightarrow> Controls" where
  "ue_calibration sm s =
     (let cal_status = liveCalibration_calStatus sm in
      if cal_status \<noteq> CALIBRATED then
        (if cal_status = UNCALIBRATED
         then events_add ''calibrationIncomplete'' s
         else events_add ''calibrationInvalid'' s)
      else s)"

text \<open>Lines 440 to 453: lane change.\<close>

definition ue_lane_change :: "CarState \<Rightarrow> SubMaster \<Rightarrow> Controls \<Rightarrow> Controls" where
  "ue_lane_change cs sm s =
     (if laneChangeState (lateralPlan sm) = LaneChangeState_preLaneChange then
        (let direction = laneChangeDirection (lateralPlan sm) in
         if (leftBlindspot cs \<and> direction = LaneChangeDirection_left)
            \<or> (rightBlindspot cs \<and> direction = LaneChangeDirection_right)
         then events_add ''laneChangeBlocked'' s
         else if direction = LaneChangeDirection_left
              then events_add ''preLaneChangeLeft'' s
              else events_add ''preLaneChangeRight'' s)
      else if laneChangeState (lateralPlan sm)
                \<in> set [LaneChangeState_laneChangeStarting, LaneChangeState_laneChangeFinishing]
           then events_add ''laneChange'' s
           else s)"

text \<open>Lines 455 to 456: CAN.\<close>

definition ue_can :: "CarState \<Rightarrow> Controls \<Rightarrow> Controls" where
  "ue_can cs s = when_do (can_rcv_error s \<or> \<not> canValid cs) (events_add ''canError'') s"

text \<open>
  Lines 458 to 468: the loop \<open>for i, pandaState in enumerate(self.sm['pandaStates'])\<close>;
  \<open>ue_panda i ps\<close> is its body.
\<close>

definition safety_mismatch :: "Controls \<Rightarrow> nat \<Rightarrow> PandaState \<Rightarrow> bool" where
  "safety_mismatch s i ps =
     (if i < length (safetyConfigs (CP s))
      then safetyModel ps \<noteq> cfg_safetyModel (safetyConfigs (CP s) ! i)
           \<or> safetyParam ps \<noteq> cfg_safetyParam (safetyConfigs (CP s) ! i)
      else safetyModel ps \<notin> set IGNORED_SAFETY_MODES)"

definition ue_panda :: "nat \<Rightarrow> PandaState \<Rightarrow> Controls \<Rightarrow> Controls" where
  "ue_panda i ps s =
     (let s = when_do (safety_mismatch s i ps \<or> 200 \<le> mismatch_counter s)
                (events_add ''controlsMismatch'') s;
          s = when_do (fault_relayMalfunction ps) (events_add ''relayMalfunction'') s
      in s)"

fun ue_pandas :: "nat \<Rightarrow> PandaState list \<Rightarrow> Controls \<Rightarrow> Controls" where
  "ue_pandas i [] s = s"
| "ue_pandas i (ps # rest) s = ue_pandas (Suc i) rest (ue_panda i ps s)"

text \<open>Lines 470 to 483: hardware and system issues.\<close>

definition ue_system :: "SubMaster \<Rightarrow> Controls \<Rightarrow> Controls" where
  "ue_system sm s =
     (if radarErrors (radarState sm) \<noteq> [] then events_add ''radarFault'' s
      else if \<not> valid_pandaStates sm then events_add ''usbError'' s
      else if \<not> all_alive_and_valid sm then
        (let s = events_add ''commIssue'' s
         in when_do (\<not> logged_comm_issue s)
              (\<lambda>s. s\<lparr>cloudlog := cloudlog s @ [''commIssue''], logged_comm_issue := True\<rparr>) s)
      else s\<lparr>logged_comm_issue := False\<rparr>)"

text \<open>Lines 485 to 498: validity of the plans and of the localizer, and the relay again.\<close>

definition ue_validity :: "Env \<Rightarrow> SubMaster \<Rightarrow> Controls \<Rightarrow> Controls" where
  "ue_validity E sm s =
     (let s = when_do (\<not> liveParameters_valid sm) (events_add ''vehicleModelInvalid'') s;
          s = when_do (\<not> mpcSolutionValid (lateralPlan sm)) (events_add ''plannerError'') s;
          s = when_do (\<not> sensorsOK (liveLocationKalman sm) \<and> \<not> NOSENSOR E
                       \<and> 5 / DT_CTRL < real_of_int (frame sm))
                (events_add ''sensorDataInvalid'') s;
          s = when_do (\<not> posenetOK (liveLocationKalman sm)) (events_add ''posenetInvalid'') s;
          s = when_do (\<not> deviceStable (liveLocationKalman sm)) (events_add ''deviceFalling'') s
      in fold (\<lambda>ps. when_do (fault_relayMalfunction ps) (events_add ''relayMalfunction''))
           (pandaStates sm) s)"

text \<open>Lines 500 to 505: mismatch between openpilot and the car's PCM.\<close>

definition ue_cruise_mismatch :: "Env \<Rightarrow> CarState \<Rightarrow> Controls \<Rightarrow> Controls" where
  "ue_cruise_mismatch E cs s =
     (if \<not> REPLAY E then
        (let cruise_mismatch = (cruiseState_enabled cs \<and> (\<not> enabled s \<or> \<not> pcmCruise (CP s)));
             s = s\<lparr>cruise_mismatch_counter :=
                     (if cruise_mismatch then cruise_mismatch_counter s + 1 else 0)\<rparr>
         in when_do (py_int (3 / DT_CTRL) < cruise_mismatch_counter s)
              (events_add ''cruiseMismatch'') s)
      else s)"

text \<open>Lines 507 to 512: forward collision warning.\<close>

definition ue_fcw :: "CarState \<Rightarrow> SubMaster \<Rightarrow> Controls \<Rightarrow> Controls" where
  "ue_fcw cs sm s =
     (let stock_long_is_braking =
            (enabled s \<and> \<not> openpilotLongitudinalControl (CP s) \<and> aEgo cs < - (15 / 10));
          model_fcw = (hardBrakePredicted (modelV2 sm) \<and> \<not> brakePressed cs
                       \<and> \<not> stock_long_is_braking);
          planner_fcw = (fcw (longitudinalPlan sm) \<and> enabled s)
      in when_do (planner_fcw \<or> model_fcw) (events_add ''fcw'') s)"

text \<open>Lines 514 to 519: the speed-limit advisory.\<close>

definition ue_slowing_down :: "Controls \<Rightarrow> Controls" where
  "ue_slowing_down s =
     (if slowing_down_sound_alert s
      then events_add ''slowingDownSpeedSound'' (s\<lparr>slowing_down_sound_alert := False\<rparr>)
      else if slowing_down_alert s then events_add ''slowingDownSpeed'' s
      else s)"

text \<open>Lines 521 to 539: camera errors found in the Android log, on TICI.\<close>

definition camera_event :: "string \<Rightarrow> EventName option" where
  "camera_event csid =
     (if csid = ''0'' then Some ''roadCameraError''
      else if csid = ''1'' then Some ''wideRoadCameraError''
      else if csid = ''2'' then Some ''driverCameraError''
      else None)"

definition ue_android_log :: "Env \<Rightarrow> AndroidLog list \<Rightarrow> Controls \<Rightarrow> Controls" where
  "ue_android_log E msgs s =
     (if TICI E then
        fold (\<lambda>err. fold (\<lambda>m s.
                if err \<notin> set (msg_errors m) then s
                else (case camera_event (msg_csid m) of
                        Some evt \<Rightarrow> events_add evt s
                      | None \<Rightarrow> s)) msgs)
          [''ERROR_CRC'', ''ERROR_ECC'', ''ERROR_STREAM_UNDERFLOW'', ''APPLY FAILED''] s
      else s)"

text \<open>Lines 541 to 557: cameras, model, localizer and managed processes.\<close>

definition ue_processes :: "Env \<Rightarrow> SubMaster \<Rightarrow> Controls \<Rightarrow> Controls" where
  "ue_processes E sm s =
     (if \<not> SIMULATION E then
        (let s = when_do (\<not> all_alive_cameras sm) (events_add ''cameraMalfunction'') s;
             s = when_do (20 < frameDropPerc (modelV2 sm)) (events_add ''modeldLagging'') s;
             s = when_do (excessiveResets (liveLocationKalman sm))
                   (events_add ''localizerMalfunction'') s;
             s = when_do (rcv_frame_managerState sm \<noteq> 0
                          \<and> (\<exists>p \<in> set (managerState_not_running sm). p \<notin> set (IGNORE_PROCESSES E)))
                   (events_add ''processNotRunning'') s
         in s)
      else s)"

text \<open>
  The whole method.  Its last lines (559 to 564) compute \<open>v_future\<close>, which nothing reads.
\<close>

definition update_events :: "Env \<Rightarrow> Tick \<Rightarrow> CarState \<Rightarrow> Controls \<Rightarrow> Controls" where
  "update_events E t cs s =
     (let sm = tick_sm t;
          s = ue_messages cs sm s
      in if \<not> initialized s then events_add ''controlsInitializing'' s
         else
           (let s = ue_hardware E sm s;
                s = ue_fan sm s;
                s = ue_calibration sm s;
                s = ue_lane_change cs sm s;
                s = ue_can cs s;
                s = ue_pandas 0 (pandaStates sm) s;
                s = ue_system sm s;
                s = ue_validity E sm s;
                s = ue_cruise_mismatch E cs s;
                s = ue_fcw cs sm s;
                s = ue_slowing_down s;
                s = ue_android_log E (tick_androidLog t) s;
                s = ue_processes E sm s
            in s))"


subsection \<open>\<open>state_transition\<close>\<close>

definition append_alert_type :: "ET \<Rightarrow> Controls \<Rightarrow> Controls" where
  "append_alert_type et s = s\<lparr>current_alert_types := current_alert_types s @ [et]\<rparr>"

text \<open>Lines 640 to 646: the cruise set speed.\<close>

definition st_cruise :: "Env \<Rightarrow> CarState \<Rightarrow> Controls \<Rightarrow> Controls" where
  "st_cruise E cs s =
     (if adaptiveCruise cs then
        (let s = s\<lparr>v_cruise_kph := update_v_cruise E (v_cruise_kph s) (buttonEvents cs)
                                     (button_timers s) (enabled s) (is_metric s)\<rparr>
         in when_do (regenPressed cs)
              (\<lambda>s. s\<lparr>v_cruise_kph := update_v_cruise_regen E (vEgo cs) (v_cruise_kph s)
                                        (regenPressed cs) (enabled s)\<rparr>) s)
      else if \<not> adaptiveCruise cs \<and> cruiseState_enabled cs then s\<lparr>v_cruise_kph := 30\<rparr>
      else s)"

text \<open>Lines 654 to 704: the transitions of the engagement state.\<close>

definition st_engagement :: "Env \<Rightarrow> CarState \<Rightarrow> Controls \<Rightarrow> Controls" where
  "st_engagement E cs s =
     (if state s \<noteq> State_disabled then
        (if events_any E s USER_DISABLE then
           append_alert_type USER_DISABLE (s\<lparr>state := State_disabled\<rparr>)
         else if events_any E s IMMEDIATE_DISABLE then
           append_alert_type IMMEDIATE_DISABLE (s\<lparr>state := State_disabled\<rparr>)
         else if state s = State_enabled then
           (if events_any E s SOFT_DISABLE then
              append_alert_type SOFT_DISABLE
                (s\<lparr>state := State_softDisabling,
                    soft_disable_timer := py_int (SOFT_DISABLE_TIME / DT_CTRL)\<rparr>)
            else s)
         else if state s = State_softDisabling then
           (if \<not> events_any E s SOFT_DISABLE then s\<lparr>state := State_enabled\<rparr>
            else if events_any E s SOFT_DISABLE \<and> 0 < soft_disable_timer s then
              append_alert_type SOFT_DISABLE s
            else if soft_disable_timer s \<le> 0 then s\<lparr>state := State_disabled\<rparr>
            else s)
         else if state s = State_preEnabled then
           (if \<not> events_any E s PRE_ENABLE then s\<lparr>state := State_enabled\<rparr>
            else append_alert_type PRE_ENABLE s)
         else s)
      else if state s = State_disabled then
        (if events_any E s ENABLE then
           (if events_any E s NO_ENTRY then append_alert_type NO_ENTRY s
            else
              (let s = (if events_any E s PRE_ENABLE
                        then s\<lparr>state := State_preEnabled\<rparr>
                        else s\<lparr>state := State_enabled\<rparr>);
                   s = append_alert_type ENABLE s
               in s\<lparr>v_cruise_kph := initialize_v_cruise E (vEgo cs) (buttonEvents cs)
                                        (v_cruise_kph_last s)\<rparr>))
         else s)
      else s)"

definition state_transition :: "Env \<Rightarrow> CarState \<Rightarrow> Controls \<Rightarrow> Controls" where
  "state_transition E cs s =
     (let s = s\<lparr>v_cruise_kph_last := v_cruise_kph s\<rparr>;
          s = st_cruise E cs s;
          s = s\<lparr>soft_disable_timer := max 0 (soft_disable_timer s - 1)\<rparr>;
          s = s\<lparr>current_alert_types := [PERMANENT]\<rparr>;
          s = st_engagement E cs s;
          s = s\<lparr>active := (state s = State_enabled \<or> state s = State_softDisabling)\<rparr>;
          s = when_do (active s) (append_alert_type WARNING) s;
          s = s\<lparr>enabled := (active s \<or> state s = State_preEnabled)\<rparr>
      in s)"

subsection \<open>\<open>state_control\<close>\<close>

text \<open>Float operations used on actuator values: difference with a finite float, absolute value.\<close>

fun f_sub :: "pyfloat \<Rightarrow> real \<Rightarrow> pyfloat" where
  "f_sub (Fin a) b = Fin (a - b)"
| "f_sub x b = x"

fun f_abs :: "pyfloat \<Rightarrow> pyfloat" where
  "f_abs (Fin a) = Fin \<bar>a\<bar>"
| "f_abs NInf = PInf"
| "f_abs x = x"

definition f_ge :: "pyfloat \<Rightarrow> pyfloat \<Rightarrow> bool" where
  "f_ge a b = (f_lt b a \<or> (a = b \<and> a \<noteq> NaN))"

text \<open>
  Modelled from the spec: \<open>clip\<close> of common.numpy_fast, which is not part of the given
  source; the spec writes \<open>clip(axis, -1, 1)\<close> for the joystick axes.  It is
  \<open>max(lo, min(hi, x))\<close> with Python's builtins.
\<close>

definition clip :: "pyfloat \<Rightarrow> real \<Rightarrow> real \<Rightarrow> pyfloat" where
  "clip x lo hi = py_max (Fin lo) (py_min (Fin hi) x)"

text \<open>Indexing \<open>xs[i]\<close>: a negative index counts from the end, out of range raises.\<close>

definition py_get :: "'a list \<Rightarrow> int \<Rightarrow> error + 'a" where
  "py_get xs i =
     (if 0 \<le> i \<and> i < int (length xs) then Inr (xs ! nat i)
      else if i < 0 \<and> - int (length xs) \<le> i then Inr (xs ! nat (int (length xs) + i))
      else Inl IndexError)"

text \<open>A new \<open>Actuators\<close> message: every float is 0.0 and the enum is its first value.\<close>

definition new_Actuators :: Actuators where
  "new_Actuators = (\<lambda>p. Float (Fin 0))(''longControlState'' := Enum ''off'')"

definition the_Float :: "capnp_value \<Rightarrow> pyfloat" where
  "the_Float v = (case v of Float x \<Rightarrow> x | Enum _ \<Rightarrow> NaN)"

text \<open>Lines 744 to 769: the controllers, or the joystick.\<close>

definition sc_actuate ::
  "Tick \<Rightarrow> CarState \<Rightarrow> Controls \<Rightarrow> Actuators \<Rightarrow> error + (Actuators \<times> LacLog)" where
  "sc_actuate t cs s actuators =
     (let sm = tick_sm t; ctl = tick_controllers t in
      if \<not> joystick_mode s then
        Inr (actuators(''accel'' := Float (LoC_accel ctl),
                       ''steer'' := Float (LaC_steer ctl),
                       ''steeringAngleDeg'' := Float (LaC_steeringAngleDeg ctl)),
             LaC_log ctl)
      else
        (let lac_log = \<lparr>lac_active = False, lac_steeringAngleDeg = 0, lac_output = Fin 0,
                          lac_saturated = False\<rparr> in
         if 0 < rcv_frame_testJoystick sm \<and> active s then
           (case py_get (axes (testJoystick sm)) 0 of
              Inl e \<Rightarrow> Inl e
            | Inr axis0 \<Rightarrow>
               (case py_get (axes (testJoystick sm)) 1 of
                  Inl e \<Rightarrow> Inl e
                | Inr axis1 \<Rightarrow>
                   (let steer = clip axis1 (- 1) 1
                    in Inr (actuators(''accel'' := Float (f_scale (clip axis0 (- 1) 1) 4),
                                      ''steer'' := Float steer,
                                      ''steeringAngleDeg'' := Float (f_scale steer 45)),
                            \<lparr>lac_active = True, lac_steeringAngleDeg = steeringAngleDeg cs,
                             lac_output = steer,
                             lac_saturated = f_ge (f_abs steer) (Fin (9 / 10))\<rparr>))))
         else Inr (actuators, lac_log)))"

text \<open>Lines 771 to 790: steering saturation.\<close>

definition sc_saturation :: "CarState \<Rightarrow> SubMaster \<Rightarrow> Actuators \<Rightarrow> LacLog \<Rightarrow> Controls \<Rightarrow> Controls" where
  "sc_saturation cs sm actuators lac_log s =
     (let lat_plan = lateralPlan sm;
          angle_control_saturated =
            (steerControlType_angle (CP s)
             \<and> f_gt (f_abs (f_sub (the_Float (actuators ''steeringAngleDeg'')) (steeringAngleDeg cs)))
                    (Fin STEER_ANGLE_SATURATION_THRESHOLD));
          s = (if angle_control_saturated \<and> \<not> steeringPressed cs \<and> active s
               then s\<lparr>saturated_count := saturated_count s + 1\<rparr>
               else s\<lparr>saturated_count := 0\<rparr>)
      in if (lac_saturated lac_log \<and> \<not> steeringPressed cs)
            \<or> STEER_ANGLE_SATURATION_TIMEOUT < real_of_int (saturated_count s) then
           (if dPathPoints lat_plan \<noteq> [] then
              (let left_deviation = (f_gt (the_Float (actuators ''steer'')) (Fin 0)
                                     \<and> hd (dPathPoints lat_plan) < - (115 / 1000));
                   right_deviation = (f_lt (the_Float (actuators ''steer'')) (Fin 0)
                                      \<and> 115 / 1000 < hd (dPathPoints lat_plan))
               in when_do (left_deviation \<or> right_deviation) (events_add ''steerSaturated'') s)
            else s)
         else s)"

text \<open>
  Lines 792 to 800: the loop \<open>for p in ACTUATOR_FIELDS\<close> that ensures no NaNs/Infs.  It
  carries the message and the lines written to the error log.
\<close>

fun sc_finite :: "string list \<Rightarrow> Actuators \<times> string list \<Rightarrow> Actuators \<times> string list" where
  "sc_finite [] (actuators, logged) = (actuators, logged)"
| "sc_finite (p # ps) (actuators, logged) =
     (let attr = actuators p in
      if \<not> isinstance_Number attr then sc_finite ps (actuators, logged)
      else if \<not> isfinite (the_Float attr) then
        sc_finite ps (actuators(p := Float (Fin 0)),
                      logged @ [''actuators.'' @ p @ '' not finite''])
      else sc_finite ps (actuators, logged))"

definition state_control ::
  "Env \<Rightarrow> Tick \<Rightarrow> CarState \<Rightarrow> Controls \<Rightarrow> error + ((Actuators \<times> LacLog) \<times> Controls)" where
  "state_control E t cs s =
     (let sm = tick_sm t;
          actuators = new_Actuators(''longControlState'' :=
                                      Enum (LoC_long_control_state (tick_controllers t)));
          s = when_do (leftBlinker cs \<or> rightBlinker cs) (\<lambda>s. s\<lparr>last_blinker_frame := frame sm\<rparr>) s
      in case sc_actuate t cs s actuators of
           Inl e \<Rightarrow> Inl e
         | Inr (actuators, lac_log) \<Rightarrow>
            (let s = sc_saturation cs sm actuators lac_log s;
                 (actuators, logged) = sc_finite (ACTUATOR_FIELDS E) (actuators, cloudlog s)
             in Inr ((actuators, lac_log), s\<lparr>cloudlog := logged\<rparr>)))"


subsection \<open>\<open>publish_logs\<close>\<close>

definition new_CarControl :: CarControl where
  "new_CarControl =
     \<lparr>CC_enabled = False, CC_active = False, CC_actuators = new_Actuators,
      CC_roll = 0, CC_pitch = 0, cruiseControl_cancel = False, hud_setSpeed = 0,
      hud_speedVisible = False, hud_lanesVisible = False, hud_leadVisible = False,
      hud_leftLaneDepart = False, hud_rightLaneDepart = False\<rparr>"

text \<open>Lines 826 to 828: the request to cancel the car's own cruise control.\<close>

definition pl_cancel :: "CarState \<Rightarrow> SubMaster \<Rightarrow> Controls \<Rightarrow> CarControl \<Rightarrow> error + CarControl" where
  "pl_cancel cs sm s cc =
     (let cc = cc\<lparr>cruiseControl_cancel :=
                    (cruiseState_enabled cs \<and> (\<not> enabled s \<or> \<not> pcmCruise (CP s)))\<rparr>
      in if joystick_mode s \<and> 0 < rcv_frame_testJoystick sm then
           (case py_get (buttons (testJoystick sm)) 0 of
              Inl e \<Rightarrow> Inl e
            | Inr b \<Rightarrow> Inr (if b then cc\<lparr>cruiseControl_cancel := True\<rparr> else cc))
         else Inr cc)"

text \<open>
  Lines 838 to 853: lane departure warning.  Line 848 reads \<open>self.wide_camera\<close>, an
  attribute that no method of the class assigns, so the branch raises once the two
  \<open>desirePrediction\<close> reads before it have succeeded, and never sets a departure flag.
\<close>

definition pl_ldw :: "Env \<Rightarrow> CarState \<Rightarrow> SubMaster \<Rightarrow> Controls \<Rightarrow> CarControl \<Rightarrow> error + CarControl" where
  "pl_ldw E cs sm s cc =
     (let recent_blinker = (real_of_int (frame sm - last_blinker_frame s) * DT_CTRL < 5);
          ldw_allowed = (is_ldw_enabled s \<and> LDW_MIN_SPEED E < vEgo cs \<and> \<not> recent_blinker
                         \<and> \<not> active s \<and> liveCalibration_calStatus sm = CALIBRATED);
          meta = desirePrediction (modelV2 sm)
      in if meta \<noteq> [] \<and> ldw_allowed then
           (case py_get meta (Desire_laneChangeLeft E - 1) of
              Inl e \<Rightarrow> Inl e
            | Inr l_lane_change_prob \<Rightarrow>
               (case py_get meta (Desire_laneChangeRight E - 1) of
                  Inl e \<Rightarrow> Inl e
                | Inr r_lane_change_prob \<Rightarrow> Inl AttributeError))
         else Inr cc)"

text \<open>
  The method, as far as it writes the \<open>CarControl\<close> message and the object's attributes.
  The alert manager, the bus adapter and the packing of the \<open>controlsState\<close>, \<open>carState\<close>,
  \<open>carEvents\<close> and \<open>carParams\<close> messages are other modules; they are given the values
  computed here and write none of them.
\<close>

definition publish_logs ::
  "Env \<Rightarrow> Tick \<Rightarrow> CarState \<Rightarrow> Actuators \<Rightarrow> LacLog \<Rightarrow> Controls \<Rightarrow> error + Controls" where
  "publish_logs E t cs actuators lac_log s =
     (let sm = tick_sm t;
          cc = new_CarControl\<lparr>CC_enabled := enabled s, CC_active := active s,
                               CC_actuators := actuators\<rparr>;
          ned = orientationNED_value (liveLocationKalman sm);
          cc = (if 2 < length ned then cc\<lparr>CC_roll := ned ! 0, CC_pitch := ned ! 1\<rparr> else cc)
      in case pl_cancel cs sm s cc of
           Inl e \<Rightarrow> Inl e
         | Inr cc \<Rightarrow>
            (let cc = cc\<lparr>hud_setSpeed := v_cruise_kph s * KPH_TO_MS E,
                          hud_speedVisible := enabled s,
                          hud_lanesVisible := enabled s,
                          hud_leadVisible := hasLead (longitudinalPlan sm)\<rparr>
             in case pl_ldw E cs sm s cc of
                  Inl e \<Rightarrow> Inl e
                | Inr cc \<Rightarrow>
                   (let s = when_do (hud_rightLaneDepart cc \<or> hud_leftLaneDepart cc)
                              (events_add ''ldw'') s;
                        (r, s) = cal_max_speed E (tick_road_limit t) (frame sm) (vEgo cs) sm cs s
                    in Inr (s\<lparr>CC := cc\<rparr>))))"

subsection \<open>\<open>update_button_timers\<close>, \<open>step\<close> and the loop\<close>

definition update_button_timers :: "ButtonEvent list \<Rightarrow> Controls \<Rightarrow> Controls" where
  "update_button_timers bs s =
     (let timers = (\<lambda>k. case button_timers s k of
                          Some n \<Rightarrow> Some (if 0 < n then n + 1 else n)
                        | None \<Rightarrow> None);
          timers = fold (\<lambda>b tm. if tm (button_type b) \<noteq> None
                                 then tm(button_type b \<mapsto> (if pressed b then 1 else 0))
                                 else tm) bs timers
      in s\<lparr>button_timers := timers\<rparr>)"

definition step :: "Env \<Rightarrow> Tick \<Rightarrow> Controls \<Rightarrow> error + Controls" where
  "step E t s =
     (let (cs, s) = data_sample E t s;
          s = update_events E t cs s;
          s = when_do (\<not> read_only s \<and> initialized s) (state_transition E cs) s
      in case state_control E t cs s of
           Inl e \<Rightarrow> Inl e
         | Inr ((actuators, lac_log), s) \<Rightarrow>
            (case publish_logs E t cs actuators lac_log s of
               Inl e \<Rightarrow> Inl e
             | Inr s \<Rightarrow> Inr (update_button_timers (buttonEvents cs) s)))"

text \<open>
  \<open>controlsd_thread\<close> calls \<open>step\<close> forever; \<open>run_ticks\<close> is that loop on the first ticks
  of its input.  An exception ends the process.
\<close>

fun run_ticks :: "Env \<Rightarrow> Tick list \<Rightarrow> Controls \<Rightarrow> error + Controls" where
  "run_ticks E [] s = Inr s"
| "run_ticks E (t # ts) s =
     (case step E t s of Inl e \<Rightarrow> Inl e | Inr s' \<Rightarrow> run_ticks E ts s')"

subsection \<open>\<open>__init__\<close>\<close>

text \<open>
  What the constructor reads: the \<open>CarParams\<close> returned by \<open>get_car\<close>, whether the car
  interface has a controller (\<open>CI.CC is not None\<close>), and the persistent parameters.
\<close>

record Boot =
  boot_CP :: CarParams
  CI_CC_present :: bool
  JoystickDebugMode :: bool
  IsMetric :: bool
  IsLdwEnabled :: bool
  CommunityFeaturesToggle :: bool
  OpenpilotEnabledToggle :: bool
  Passive :: bool

definition Controls_init :: "Env \<Rightarrow> Boot \<Rightarrow> Controls" where
  "Controls_init E b =
     (let cp = boot_CP b;
          passive = (Passive b \<or> \<not> OpenpilotEnabledToggle b);
          car_recognized = (carName cp \<noteq> ''mock'');
          controller_available = (CI_CC_present b \<and> \<not> passive \<and> \<not> dashcamOnly cp);
          community_feature = (communityFeature cp \<or> fingerprintSource_can cp);
          community_feature_disallowed = (community_feature \<and> \<not> CommunityFeaturesToggle b);
          read_only' = (\<not> car_recognized \<or> \<not> controller_available \<or> dashcamOnly cp
                        \<or> community_feature_disallowed);
          cp = (if read_only'
                then cp\<lparr>safetyConfigs := [\<lparr>cfg_safetyModel = SafetyModel_noOutput,
                                             cfg_safetyParam = 0\<rparr>]\<rparr>
                else cp);
          static1 = (if community_feature_disallowed \<and> car_recognized \<and> \<not> dashcamOnly cp
                     then [''communityFeatureDisallowed''] else []);
          static2 = (if \<not> car_recognized then [''carUnrecognized'']
                     else if read_only' then [''dashcamMode'']
                     else if JoystickDebugMode b then [''joystickDebug'']
                     else []);
          startup = (if car_recognized \<and> \<not> read_only' \<and> JoystickDebugMode b then None
                     else Some (get_startup_event E car_recognized controller_available
                                  (0 < carFw_len cp)));
          s = \<lparr>CP = cp, is_metric = IsMetric b, is_ldw_enabled = IsLdwEnabled b,
               joystick_mode = JoystickDebugMode b, read_only = read_only',
               initialized = False, state = State_disabled, enabled = False, active = False,
               can_rcv_error = False, soft_disable_timer = 0, v_cruise_kph = 255,
               v_cruise_kph_last = 0, max_speed_clu = 0, curve_speed_ms = 0,
               min_set_speed_clu = 0, limited_lead = False,
               speed_conv_to_clu = (if IsMetric b then MS_TO_KPH E else MS_TO_MPH E),
               slowing_down = False, slowing_down_alert = False,
               slowing_down_sound_alert = False, mismatch_counter = 0,
               cruise_mismatch_counter = 0, can_error_counter = 0, last_blinker_frame = 0,
               saturated_count = 0, distance_traveled = 0, last_functional_fan_frame = 0,
               events = static1 @ static2, static_events = static1 @ static2,
               startup_event = startup, current_alert_types = [PERMANENT],
               logged_comm_issue = False,
               button_timers = [ButtonType_decelCruise \<mapsto> 0, ButtonType_accelCruise \<mapsto> 0],
               cloudlog = [], CC = new_CarControl\<rparr>
      in s\<lparr>min_set_speed_clu := kph_to_clu E s (V_CRUISE_MIN E)\<rparr>)"


section \<open>Event collection as seen by the state machine\<close>

text \<open>The object after the first two phases of a tick: the events this tick collected.\<close>

definition collected :: "Env \<Rightarrow> Tick \<Rightarrow> Controls \<Rightarrow> Controls" where
  "collected E t s = (let (cs, s) = data_sample E t s in update_events E t cs s)"

text \<open>
  A tick whose events carry a SOFT_DISABLE alert type and neither USER_DISABLE nor
  IMMEDIATE_DISABLE, and a run of such ticks that all complete.
\<close>

definition soft_disable_only :: "Env \<Rightarrow> Controls \<Rightarrow> bool" where
  "soft_disable_only E s =
     (events_any E s SOFT_DISABLE \<and> \<not> events_any E s USER_DISABLE
      \<and> \<not> events_any E s IMMEDIATE_DISABLE)"

fun soft_disable_ticks :: "Env \<Rightarrow> Tick list \<Rightarrow> Controls \<Rightarrow> bool" where
  "soft_disable_ticks E [] s = True"
| "soft_disable_ticks E (t # ts) s =
     (soft_disable_only E (collected E t s)
      \<and> (case step E t s of Inl e \<Rightarrow> False | Inr s' \<Rightarrow> soft_disable_ticks E ts s'))"


section \<open>The attributes the engagement logic depends on\<close>

text \<open>
  The engagement state, its two flags, the soft-disable timer, the attributes fixed by
  the constructor or the initialization gate, the one-shot startup event and the
  mismatch counter.  Only \<open>data_sample\<close> (the gate and the counter), the head of
  \<open>update_events\<close> (the startup event) and \<open>state_transition\<close> write any of them.
\<close>

definition eng ::
  "Controls \<Rightarrow> State \<times> bool \<times> bool \<times> int \<times> bool \<times> bool \<times> bool \<times> CarParams
     \<times> EventName list \<times> EventName option \<times> int \<times> bool" where
  "eng s = (state s, enabled s, active s, soft_disable_timer s, initialized s, read_only s,
            joystick_mode s, CP s, static_events s, startup_event s, mismatch_counter s,
            is_ldw_enabled s)"


section \<open>The engagement invariant\<close>

definition flags_ok :: "Controls \<Rightarrow> bool" where
  "flags_ok s =
     ((enabled s \<longleftrightarrow> state s \<in> {State_preEnabled, State_enabled, State_softDisabling})
      \<and> (active s \<longleftrightarrow> state s \<in> {State_enabled, State_softDisabling}))"

section \<open>An example configuration\<close>

text \<open>
  A concrete environment, car and tick, on which the theorems below are instantiated:
  a recognized metric car with one panda, the alert types of a few events as the event
  table gives them, sample values for the constants of modules outside this file
  (\<open>MIN_CURVE_SPEED\<close>, \<open>V_CRUISE_MIN\<close>, \<open>V_CRUISE_MAX\<close>), the numpy operations in exact
  arithmetic, and stand-ins for the \<open>drive_helpers\<close> functions.
\<close>

definition example_EVENTS :: "EventName \<Rightarrow> ET list" where
  "example_EVENTS e =
     (if e = ''buttonEnable'' then [ENABLE]
      else if e = ''buttonCancel'' then [USER_DISABLE]
      else if e = ''commIssue'' then [SOFT_DISABLE, NO_ENTRY]
      else if e = ''controlsMismatch'' then [IMMEDIATE_DISABLE, NO_ENTRY]
      else if e = ''controlsInitializing'' then [NO_ENTRY]
      else if e = ''startup'' then [PERMANENT]
      else [])"

text \<open>
  The numpy calls of \<open>cal_curve_speed\<close>, in exact arithmetic.  \<open>np.gradient(f, x)\<close> takes
  one-sided differences at the two ends and, at an inner sample with spacings \<open>dx1\<close> to
  the left and \<open>dx2\<close> to the right, the second-order difference
  \<open>a * f[i-1] + b * f[i] + c * f[i+1]\<close> for uneven spacing, which for even spacing is the
  central difference.  numpy raises ValueError on fewer than two samples or on lists of
  different lengths; \<open>cal_curve_speed\<close> calls it on two lists of \<open>TRAJECTORY_SIZE\<close> samples,
  and outside that domain \<open>np_gradient\<close> is the empty list.  The abscissas are taken to be
  distinct: a repeated abscissa divides by zero, which exact arithmetic does not
  represent.  \<open>numpy_mean_speed a w\<close> is
  \<open>np.mean(np.sqrt(a / np.clip(np.abs(w), 1e-4, None)))\<close>: the square root of a negative
  number is NaN, a quotient by infinity is zero, and the mean of no sample or of a list
  holding a NaN is NaN.
\<close>

definition np_gradient :: "real list \<Rightarrow> real list \<Rightarrow> real list" where
  "np_gradient f x =
     (let n = length f in
      if n < 2 \<or> length x \<noteq> n then []
      else map (\<lambda>i.
             if i = 0 then (f ! 1 - f ! 0) / (x ! 1 - x ! 0)
             else if i = n - 1 then (f ! (n - 1) - f ! (n - 2)) / (x ! (n - 1) - x ! (n - 2))
             else (let dx1 = x ! i - x ! (i - 1);
                       dx2 = x ! (i + 1) - x ! i;
                       a = - dx2 / (dx1 * (dx1 + dx2));
                       b = (dx2 - dx1) / (dx1 * dx2);
                       c = dx1 / (dx2 * (dx1 + dx2))
                   in a * f ! (i - 1) + b * f ! i + c * f ! (i + 1)))
             [0..<n])"

definition numpy_curv :: "real list \<Rightarrow> real list \<Rightarrow> pyfloat list" where
  "numpy_curv x y =
     (let dy = np_gradient y x;
          d2y = np_gradient dy x
      in map2 (\<lambda>d2 d1. Fin (d2 / (1 + d1 ^ 2) powr (3 / 2))) d2y dy)"

fun numpy_speed :: "real \<Rightarrow> pyfloat \<Rightarrow> pyfloat" where
  "numpy_speed a (Fin c) = (if a < 0 then NaN else Fin (sqrt (a / max \<bar>c\<bar> (1 / 10000))))"
| "numpy_speed a NaN = NaN"
| "numpy_speed a PInf = Fin 0"
| "numpy_speed a NInf = Fin 0"

definition numpy_mean_speed :: "real \<Rightarrow> pyfloat list \<Rightarrow> pyfloat" where
  "numpy_mean_speed a w =
     (let v = map (numpy_speed a) w
      in if v = [] \<or> NaN \<in> set v then NaN
         else Fin (sum_list (map the_Fin v) / real (length v)))"

definition example_interp :: "real \<Rightarrow> real list \<Rightarrow> real list \<Rightarrow> real" where
  "example_interp v xp fp =
     (if v \<le> xp ! 0 then fp ! 0
      else if xp ! 1 \<le> v then fp ! 1
      else fp ! 0 + (v - xp ! 0) * (fp ! 1 - fp ! 0) / (xp ! 1 - xp ! 0))"

definition example_Env :: Env where
  "example_Env =
     \<lparr>KPH_TO_MS = 5 / 18, MS_TO_KPH = 18 / 5, MS_TO_MPH = 3600000 / 1609344,
      MPH_TO_MS = 1609344 / 3600000, V_CRUISE_MIN = 8, V_CRUISE_MAX = 135,
      TRAJECTORY_SIZE = 33, MIN_CURVE_SPEED = 20, SLOW_ON_CURVES = True,
      sccCurvatureFactor = 98 / 100, cameraOffset = 6 / 100,
      ACTUATOR_FIELDS = [''gas'', ''brake'', ''steer'', ''steeringAngleDeg'', ''accel'',
                         ''longControlState''],
      IGNORE_PROCESSES = [''rtshield'', ''uploader'', ''deleter'', ''loggerd'',
                          ''logmessaged'', ''tombstoned'', ''logcatd'', ''proclogd'',
                          ''clocksd'', ''updated'', ''timezoned'', ''manage_athenad''],
      EON = False, TICI = False, REPLAY = False, SIMULATION = False, NOSENSOR = False,
      EVENTS = example_EVENTS,
      np_curv = numpy_curv,
      np_mean_speed = numpy_mean_speed,
      interp = example_interp,
      update_v_cruise = (\<lambda>v bs tm en metric. v),
      update_v_cruise_regen = (\<lambda>v_ego v regen en. v),
      initialize_v_cruise = (\<lambda>v_ego bs v_last. max (v_ego * (18 / 5)) 40),
      get_startup_event = (\<lambda>recognized available fw. ''startup''),
      Desire_laneChangeLeft = 3, Desire_laneChangeRight = 4\<rparr>"

definition example_CP :: CarParams where
  "example_CP =
     \<lparr>carName = ''gm'', dashcamOnly = False, communityFeature = False,
      fingerprintSource_can = False, carFw_len = 1, pcmCruise = True,
      openpilotLongitudinalControl = False, steerControlType_angle = False,
      minSteerSpeed = 0,
      safetyConfigs = [\<lparr>cfg_safetyModel = SafetyModel_other 4, cfg_safetyParam = 0\<rparr>]\<rparr>"

definition example_Boot :: Boot where
  "example_Boot =
     \<lparr>boot_CP = example_CP, CI_CC_present = True, JoystickDebugMode = False,
      IsMetric = True, IsLdwEnabled = False, CommunityFeaturesToggle = True,
      OpenpilotEnabledToggle = True, Passive = False\<rparr>"

definition example_CS :: CarState where
  "example_CS =
     \<lparr>vEgo = 20, aEgo = 0, adaptiveCruise = True, regenPressed = False,
      cruiseState_enabled = False, canValid = True, CS_events = [], buttonEvents = [],
      leftBlinker = False, rightBlinker = False, leftBlindspot = False,
      rightBlindspot = False, brakePressed = False, steerWarning = False,
      steerError = False, steeringPressed = False, steeringAngleDeg = 0\<rparr>"

definition example_sm :: SubMaster where
  "example_sm =
     \<lparr>frame = 1, all_alive_and_valid = True, all_alive_cameras = True,
      valid_pandaStates = True, rcv_frame_managerState = 1, rcv_frame_testJoystick = 0,
      deviceState = \<lparr>batteryPercent = 80, chargingError = False,
                      thermalStatus = ThermalStatus_green, freeSpacePercent = 50,
                      memoryUsagePercent = 30, fanSpeedPercentDesired = 0\<rparr>,
      peripheralState = \<lparr>pandaType = PandaType_uno, fanSpeedRpm = 1000\<rparr>,
      pandaStates = [\<lparr>safetyModel = SafetyModel_other 4, safetyParam = 0,
                       controlsAllowed = True, fault_relayMalfunction = False\<rparr>],
      liveCalibration_calStatus = CALIBRATED,
      lateralPlan = \<lparr>laneChangeState = LaneChangeState_off,
                      laneChangeDirection = LaneChangeDirection_none,
                      mpcSolutionValid = True, dPathPoints = [], rProb = 1, lProb = 1\<rparr>,
      radarState = \<lparr>leadOne = \<lparr>status = False, dRel = 0, vRel = 0\<rparr>, radarErrors = []\<rparr>,
      modelV2 = \<lparr>position_x = [], position_y = [], hardBrakePredicted = False,
                  desirePrediction = [], frameDropPerc = 0, laneLines_y = []\<rparr>,
      longitudinalPlan = \<lparr>fcw = False, hasLead = False, speeds = []\<rparr>,
      liveLocationKalman = \<lparr>sensorsOK = True, posenetOK = True, deviceStable = True,
                             excessiveResets = False, orientationNED_value = []\<rparr>,
      liveParameters_valid = True, driverMonitoringState_events = [],
      managerState_not_running = [], testJoystick = \<lparr>axes = [], buttons = []\<rparr>\<rparr>"

definition example_Tick :: Tick where
  "example_Tick =
     \<lparr>can_strs_received = True, tick_CS = example_CS, tick_sm = example_sm,
      tick_androidLog = [],
      tick_road_limit = \<lparr>apply_limit_speed = 0, road_limit_speed = 0, left_dist = 0,
                          first_started = False, max_speed_log = []\<rparr>,
      tick_controllers = \<lparr>LoC_long_control_state = ''off'', LoC_accel = Fin 0,
                           LaC_steer = Fin 0, LaC_steeringAngleDeg = Fin 0,
                           LaC_log = \<lparr>lac_active = False, lac_steeringAngleDeg = 0,
                                      lac_output = Fin 0, lac_saturated = False\<rparr>\<rparr>\<rparr>"

text \<open>The same tick with the enable button pressed, and with a stale subscription.\<close>

definition example_Tick_enable :: Tick where
  "example_Tick_enable = example_Tick\<lparr>tick_CS := example_CS\<lparr>CS_events := [''buttonEnable'']\<rparr>\<rparr>"

definition example_Tick_commIssue :: Tick where
  "example_Tick_commIssue = example_Tick\<lparr>tick_sm := example_sm\<lparr>all_alive_and_valid := False\<rparr>\<rparr>"

definition example_Tick_cancel :: Tick where
  "example_Tick_cancel = example_Tick\<lparr>tick_CS := example_CS\<lparr>CS_events := [''buttonCancel'']\<rparr>\<rparr>"


section \<open>What \<open>update_events\<close> can add\<close>

text \<open>
  The events a tick's collection starts from (static events, the events of the
  \<open>carState\<close> and \<open>driverMonitoringState\<close> messages, the startup event), and the names
  other than \<open>controlsMismatch\<close> that \<open>update_events\<close> itself adds.
\<close>

definition base_events :: "CarState \<Rightarrow> SubMaster \<Rightarrow> Controls \<Rightarrow> EventName list" where
  "base_events cs sm s =
     static_events s @ CS_events cs @ driverMonitoringState_events sm
       @ (case startup_event s of Some e \<Rightarrow> [e] | None \<Rightarrow> [])"

definition update_events_names :: "EventName list" where
  "update_events_names =
     [''controlsInitializing'', ''lowBattery'', ''overheat'', ''outOfSpace'', ''lowMemory'',
      ''fanMalfunction'', ''calibrationIncomplete'', ''calibrationInvalid'',
      ''laneChangeBlocked'', ''preLaneChangeLeft'', ''preLaneChangeRight'', ''laneChange'',
      ''canError'', ''relayMalfunction'', ''radarFault'', ''usbError'', ''commIssue'',
      ''vehicleModelInvalid'', ''plannerError'', ''sensorDataInvalid'', ''posenetInvalid'',
      ''deviceFalling'', ''cruiseMismatch'', ''fcw'', ''slowingDownSpeedSound'',
      ''slowingDownSpeed'', ''roadCameraError'', ''wideRoadCameraError'',
      ''driverCameraError'', ''cameraMalfunction'', ''modeldLagging'',
      ''localizerMalfunction'', ''processNotRunning'']"

section \<open>An engaged controller\<close>

text \<open>The object after a quiet first tick and a tick with the enable button pressed.\<close>

definition example_engaged :: Controls where
  "example_engaged =
     projr (run_ticks example_Env [example_Tick, example_Tick_enable]
              (Controls_init example_Env example_Boot))"


section \<open>The actuators before the finiteness guard\<close>

text \<open>
  What \<open>state_control\<close> has in \<open>actuators\<close> when it reaches the guard: the values the
  controllers (or the joystick) produced.  \<open>not_finite_log p\<close> is the line the guard
  writes to the error log for field \<open>p\<close>.
\<close>

definition sc_controllers :: "Tick \<Rightarrow> CarState \<Rightarrow> Controls \<Rightarrow> error + (Actuators \<times> LacLog)" where
  "sc_controllers t cs s =
     sc_actuate t cs
       (when_do (leftBlinker cs \<or> rightBlinker cs) (\<lambda>s. s\<lparr>last_blinker_frame := frame (tick_sm t)\<rparr>) s)
       (new_Actuators(''longControlState'' := Enum (LoC_long_control_state (tick_controllers t))))"

definition not_finite_log :: "string \<Rightarrow> string" where
  "not_finite_log p = ''actuators.'' @ p @ '' not finite''"

section \<open>More example inputs\<close>

text \<open>
  Ticks with a NaN from the lateral controller, with a joystick message whose first
  button is pressed, with the car's own cruise control engaged, and with a panda in
  another safety mode or no panda at all; a car booted in joystick debug mode and one
  without PCM cruise.
\<close>

definition example_Tick_nan :: Tick where
  "example_Tick_nan =
     example_Tick\<lparr>tick_controllers := (tick_controllers example_Tick)\<lparr>LaC_steer := NaN\<rparr>\<rparr>"

definition example_Tick_joystick :: Tick where
  "example_Tick_joystick =
     example_Tick\<lparr>tick_sm := example_sm\<lparr>rcv_frame_testJoystick := 1,
       testJoystick := \<lparr>axes = [Fin 0, Fin 0], buttons = [True]\<rparr>\<rparr>\<rparr>"

definition example_Tick_cruise :: Tick where
  "example_Tick_cruise = example_Tick\<lparr>tick_CS := example_CS\<lparr>cruiseState_enabled := True\<rparr>\<rparr>"

definition example_Boot_joystick :: Boot where
  "example_Boot_joystick = example_Boot\<lparr>JoystickDebugMode := True\<rparr>"

definition example_Boot_no_pcm :: Boot where
  "example_Boot_no_pcm = example_Boot\<lparr>boot_CP := example_CP\<lparr>pcmCruise := False\<rparr>\<rparr>"

definition example_Tick_wrong_safety :: Tick where
  "example_Tick_wrong_safety =
     example_Tick\<lparr>tick_sm := example_sm\<lparr>pandaStates :=
       [\<lparr>safetyModel = SafetyModel_other 5, safetyParam = 0,
         controlsAllowed = True, fault_relayMalfunction = False\<rparr>]\<rparr>\<rparr>"

definition example_Tick_no_panda :: Tick where
  "example_Tick_no_panda = example_Tick\<lparr>tick_sm := example_sm\<lparr>pandaStates := []\<rparr>\<rparr>"

text \<open>
  A lead 30 m ahead closing at 3 m/s, a controller with the set speed at 100 km/h, and
  four successive calls of \<open>cal_max_speed\<close> at 22 m/s on a frame that does not recompute
  the curve speed: with the lead, with the set speed lowered to 10 km/h, with the set
  speed back at 100 km/h, and without the lead.
\<close>

definition example_sm_lead :: SubMaster where
  "example_sm_lead =
     example_sm\<lparr>radarState := \<lparr>leadOne = \<lparr>status = True, dRel = 30, vRel = - 3\<rparr>,
                                radarErrors = []\<rparr>\<rparr>"

definition example_cruising :: Controls where
  "example_cruising = (Controls_init example_Env example_Boot)\<lparr>v_cruise_kph := 100\<rparr>"

definition example_lead_tick :: "SubMaster \<Rightarrow> Controls \<Rightarrow> Controls" where
  "example_lead_tick sm s =
     snd (cal_max_speed example_Env (tick_road_limit example_Tick) 1 22 sm example_CS s)"

definition example_tick_A :: Controls where
  "example_tick_A = example_lead_tick example_sm_lead example_cruising"

definition example_tick_B :: Controls where
  "example_tick_B = example_lead_tick example_sm_lead (example_tick_A\<lparr>v_cruise_kph := 10\<rparr>)"

definition example_tick_C :: Controls where
  "example_tick_C = example_lead_tick example_sm_lead (example_tick_B\<lparr>v_cruise_kph := 100\<rparr>)"

definition example_tick_D :: Controls where
  "example_tick_D = example_lead_tick example_sm example_tick_C"


section \<open>Verification\<close>

subsection \<open>Properties of the rounding\<close>

lemma rhe_int [simp]: "rhe (of_int n) = n"
  by (simp add: rhe_def)

lemma rhe_char:
  "(rhe q = \<lfloor>q\<rfloor> \<and> q - of_int \<lfloor>q\<rfloor> \<le> 1 / 2)
   \<or> (rhe q = \<lfloor>q\<rfloor> + 1 \<and> 1 / 2 \<le> q - of_int \<lfloor>q\<rfloor>)"
  by (simp add: rhe_def Let_def)

lemma rhe_nearest: "\<bar>of_int (rhe q) - q\<bar> \<le> \<bar>of_int n - q\<bar>"
proof -
  have f: "of_int \<lfloor>q\<rfloor> \<le> q" "q < of_int \<lfloor>q\<rfloor> + 1" by linarith+
  show ?thesis
  proof (cases "n \<le> \<lfloor>q\<rfloor>")
    case True
    then have "of_int n \<le> (of_int \<lfloor>q\<rfloor> :: real)" by simp
    then show ?thesis using rhe_char [of q] f by auto
  next
    case False
    then have "\<lfloor>q\<rfloor> + 1 \<le> n" by simp
    then have "of_int (\<lfloor>q\<rfloor> + 1) \<le> (of_int n :: real)" by (simp only: of_int_le_iff)
    then have "of_int \<lfloor>q\<rfloor> + 1 \<le> (of_int n :: real)" by simp
    then show ?thesis using rhe_char [of q] f by auto
  qed
qed

lemma rhe_abs_le:
  assumes "\<bar>q\<bar> \<le> of_int m"
  shows "\<bar>rhe q\<bar> \<le> m"
proof -
  have "\<bar>of_int (rhe q) - q\<bar> \<le> \<bar>of_int m - q\<bar>" "\<bar>of_int (rhe q) - q\<bar> \<le> \<bar>of_int (- m) - q\<bar>"
    by (rule rhe_nearest)+
  then have "real_of_int (rhe q) \<le> of_int m" "- of_int m \<le> real_of_int (rhe q)"
    using assms by auto
  then have "rhe q \<le> m" "- m \<le> rhe q"
    by (simp_all only: of_int_le_iff flip: of_int_minus)
  then show ?thesis by simp
qed

lemma binade_bounds:
  assumes "r \<noteq> 0"
  shows "2 powi binade r \<le> \<bar>r\<bar>" and "\<bar>r\<bar> < 2 powi (binade r + 1)"
proof -
  have "2 powi binade r \<le> \<bar>r\<bar> \<and> \<bar>r\<bar> < 2 powi (binade r + 1)"
  proof (cases "1 \<le> \<bar>r\<bar>")
    case True
    define n where "n = \<lfloor>\<bar>r\<bar>\<rfloor>"
    have n: "0 < n" using True by (simp add: n_def)
    have b: "binade r = bitlen n - 1" using True by (simp add: binade_def n_def)
    have b1: "1 \<le> bitlen n" using n by (simp add: bitlen_alt_def)
    from bitlen_bounds [OF n] have lo: "2 ^ nat (bitlen n - 1) \<le> n" and hi: "n < 2 ^ nat (bitlen n)"
      by simp_all
    have "(2::real) ^ nat (bitlen n - 1) \<le> of_int n"
      using lo by (metis of_int_le_iff of_int_numeral of_int_power)
    also have "\<dots> \<le> \<bar>r\<bar>" by (simp add: n_def)
    finally have l: "2 powi binade r \<le> \<bar>r\<bar>"
      using b1 by (simp add: b power_int_def)
    have "n + 1 \<le> 2 ^ nat (bitlen n)" using hi by simp
    then have "(of_int (n + 1) :: real) \<le> 2 ^ nat (bitlen n)"
      by (metis of_int_le_iff of_int_numeral of_int_power)
    moreover have "\<bar>r\<bar> < of_int (n + 1)" by (simp add: n_def)
    ultimately have "\<bar>r\<bar> < 2 ^ nat (bitlen n)" by linarith
    then have h: "\<bar>r\<bar> < 2 powi (binade r + 1)"
      using b1 by (simp add: b power_int_def)
    show ?thesis using l h ..
  next
    case False
    define m where "m = nat \<lceil>1 / \<bar>r\<bar>\<rceil>"
    define c where "c = ceillog2 m"
    have r: "0 < \<bar>r\<bar>" "\<bar>r\<bar> < 1" using assms False by simp_all
    then have q: "1 < 1 / \<bar>r\<bar>" by simp
    then have ce: "2 \<le> \<lceil>1 / \<bar>r\<bar>\<rceil>" by linarith
    then have m: "2 \<le> m" "real m = of_int \<lceil>1 / \<bar>r\<bar>\<rceil>" unfolding m_def by linarith+
    have b: "binade r = - int c" using False by (simp add: binade_def m_def c_def)
    have "m \<le> 2 ^ c" unfolding c_def by (rule le_two_power_ceillog2)
    then have "real m \<le> 2 ^ c" by (metis of_nat_le_iff of_nat_numeral of_nat_power)
    moreover have "1 / \<bar>r\<bar> \<le> real m" unfolding m by linarith
    ultimately have "1 / \<bar>r\<bar> \<le> 2 ^ c" by linarith
    then have "1 \<le> 2 ^ c * \<bar>r\<bar>" using r by (simp add: field_simps)
    then have l: "2 powi binade r \<le> \<bar>r\<bar>"
      by (simp add: b power_int_minus field_simps)
    have c1: "1 \<le> c" using m ceillog2_ge_iff [of m 1] by (simp add: c_def)
    have "2 ^ c < 2 * m" unfolding c_def using m by (intro two_power_ceillog2_gt) simp
    then have "2 * 2 ^ (c - 1) < 2 * m" using c1 by (cases c) simp_all
    then have "2 ^ (c - 1) < m" by simp
    then have "int (2 ^ (c - 1)) < \<lceil>1 / \<bar>r\<bar>\<rceil>" using m(2) by linarith
    then have "real_of_int (int (2 ^ (c - 1))) < 1 / \<bar>r\<bar>" by (simp only: less_ceiling_iff)
    then have "2 ^ (c - 1) < 1 / \<bar>r\<bar>" by simp
    then have "2 ^ (c - 1) * \<bar>r\<bar> < 1" using r by (simp add: field_simps)
    moreover have "binade r + 1 = - int (c - 1)" using c1 by (simp add: b)
    ultimately have h: "\<bar>r\<bar> < 2 powi (binade r + 1)"
      by (simp add: power_int_minus field_simps)
    show ?thesis using l h ..
  qed
  then show "2 powi binade r \<le> \<bar>r\<bar>" and "\<bar>r\<bar> < 2 powi (binade r + 1)" by simp_all
qed

lemma powi_less_imp: "(2::real) powi a < 2 powi b \<Longrightarrow> a < b"
proof (rule ccontr)
  assume l: "(2::real) powi a < 2 powi b" and "\<not> a < b"
  then have "b \<le> a" by simp
  then have "(2::real) powi b \<le> 2 powi a" by (rule power_int_increasing) simp
  with l show False by simp
qed

lemma binade_unique:
  assumes "2 powi k \<le> \<bar>r\<bar>" "\<bar>r\<bar> < 2 powi (k + 1)"
  shows "binade r = k"
proof -
  have "0 < (2::real) powi k" by simp
  with assms(1) have "0 < \<bar>r\<bar>" by linarith
  then have nz: "r \<noteq> 0" by auto
  from binade_bounds [OF nz] assms
  have a: "(2::real) powi k < 2 powi (binade r + 1)"
    and b: "(2::real) powi binade r < 2 powi (k + 1)"
    by linarith+
  have "k < binade r + 1" using a by (rule powi_less_imp)
  moreover have "binade r < k + 1" using b by (rule powi_less_imp)
  ultimately show ?thesis by simp
qed

lemma two_powi_split: "a \<le> b \<Longrightarrow> (2::real) powi b = 2 ^ nat (b - a) * 2 powi a"
proof -
  assume "a \<le> b"
  then have "(2::real) ^ nat (b - a) = 2 powi (b - a)" by (simp add: power_int_def)
  moreover have "(2::real) powi (b - a) * 2 powi a = 2 powi (b - a + a)"
    by (rule power_int_add [symmetric]) simp
  ultimately show ?thesis by simp
qed

text \<open>A multiple of the unit of its own binade is left alone.\<close>

lemma fl_grid:
  assumes "r = of_int n * 2 powi ulp_exp r"
  shows "fl r = r"
proof (cases "r = 0")
  case True
  then show ?thesis by (simp add: fl_def)
next
  case False
  have "r / 2 powi ulp_exp r = of_int n"
    by (subst assms) simp
  then show ?thesis
    using False assms by (simp add: fl_def)
qed

lemma fl_near_grid: "\<bar>fl r - r\<bar> \<le> \<bar>of_int n * 2 powi ulp_exp r - r\<bar>"
proof (cases "r = 0")
  case True
  then show ?thesis by (simp add: fl_def)
next
  case False
  define u :: real where "u = 2 powi ulp_exp r"
  have u: "0 < u" by (simp add: u_def)
  have "\<bar>of_int (rhe (r / u)) - r / u\<bar> \<le> \<bar>of_int n - r / u\<bar>" by (rule rhe_nearest)
  then have "\<bar>of_int (rhe (r / u)) - r / u\<bar> * u \<le> \<bar>of_int n - r / u\<bar> * u"
    using u by (simp add: mult_right_mono)
  moreover have "\<bar>of_int k - r / u\<bar> * u = \<bar>of_int k * u - r\<bar>" for k
  proof -
    have "\<bar>of_int k - r / u\<bar> * u = \<bar>of_int k - r / u\<bar> * \<bar>u\<bar>" using u by simp
    also have "\<dots> = \<bar>(of_int k - r / u) * u\<bar>" by (simp only: abs_mult)
    also have "(of_int k - r / u) * u = of_int k * u - r" using u by (simp add: field_simps)
    finally show ?thesis .
  qed
  ultimately have "\<bar>of_int (rhe (r / u)) * u - r\<bar> \<le> \<bar>of_int n * u - r\<bar>"
    by simp
  moreover have "fl r = of_int (rhe (r / u)) * u"
    using False by (simp add: fl_def u_def)
  ultimately show ?thesis
    by (simp add: u_def)
qed

text \<open>Every number \<open>n * 2^e\<close> with \<open>|n| \<le> 2^53\<close> and \<open>e \<ge> -1074\<close> is left alone.\<close>

lemma fl_fixed:
  assumes "- 1074 \<le> e" "\<bar>n\<bar> \<le> 2 ^ 53"
  shows "fl (of_int n * 2 powi e) = of_int n * 2 powi e"
proof (cases "n = 0")
  case True
  then show ?thesis by (simp add: fl_def)
next
  case False
  define v :: real where "v = of_int n * 2 powi e"
  have nz: "v \<noteq> 0" using False by (simp add: v_def)
  have av: "\<bar>v\<bar> = of_int \<bar>n\<bar> * 2 powi e" by (simp add: v_def abs_mult)
  have le: "binade v \<le> 53 + e"
  proof -
    have "2 powi binade v \<le> \<bar>v\<bar>" using nz by (rule binade_bounds)
    also have "\<dots> \<le> 2 ^ 53 * 2 powi e"
      unfolding av using assms(2) by (intro mult_right_mono) (simp_all flip: of_int_le_iff)
    also have "\<dots> = 2 powi (53 + e)" by (simp add: power_int_add)
    finally have "(2::real) powi binade v < 2 powi (53 + e + 1)"
      by (rule le_less_trans) (simp add: power_int_strict_increasing)
    then show ?thesis using powi_less_imp by fastforce
  qed
  show ?thesis
  proof (cases "ulp_exp v \<le> e")
    case True
    have "(2::real) powi e = 2 ^ nat (e - ulp_exp v) * 2 powi ulp_exp v"
      using True by (rule two_powi_split)
    moreover have "v = of_int n * 2 powi e" by (simp add: v_def)
    ultimately have "v = of_int (n * 2 ^ nat (e - ulp_exp v)) * 2 powi ulp_exp v"
      by simp
    then have "fl v = v" by (rule fl_grid)
    then show ?thesis by (simp add: v_def)
  next
    case False
    then have ue: "ulp_exp v = e + 1" and b: "binade v = 53 + e"
      using le assms(1) by (simp_all add: ulp_exp_def max_def split: if_splits)
    have "(2::real) powi (53 + e) \<le> \<bar>v\<bar>" using binade_bounds(1) [OF nz] by (simp add: b)
    then have "(2::real) ^ 53 * 2 powi e \<le> of_int \<bar>n\<bar> * 2 powi e"
      by (simp add: av power_int_add)
    then have "(2::real) ^ 53 \<le> of_int \<bar>n\<bar>" by simp
    then have "2 ^ 53 \<le> \<bar>n\<bar>" by (simp flip: of_int_le_iff)
    with assms(2) have n: "\<bar>n\<bar> = 2 ^ 53" by simp
    then have "n = 2 ^ 53 \<or> n = - (2 ^ 53)" by linarith
    then have "n = 2 * (n div 2)" by auto
    then have "of_int n = (2::real) * of_int (n div 2)"
      by (metis of_int_mult of_int_numeral)
    moreover have "(2::real) powi (e + 1) = 2 powi e * 2"
      by (simp add: power_int_add)
    moreover have "v = of_int n * 2 powi e" by (simp add: v_def)
    ultimately have "v = of_int (n div 2) * 2 powi ulp_exp v"
      unfolding ue by simp
    then have "fl v = v" by (rule fl_grid)
    then show ?thesis by (simp add: v_def)
  qed
qed

lemma fl_int: "\<bar>n\<bar> \<le> 2 ^ 53 \<Longrightarrow> fl (of_int n) = of_int n"
  using fl_fixed [of 0 n] by simp

lemma fl_zero [simp]: "fl 0 = 0"
  by (simp add: fl_def)


lemma fl_eval:
  assumes "2 powi k \<le> \<bar>r\<bar>" "\<bar>r\<bar> < 2 powi (k + 1)"
  shows "fl r = of_int (rhe (r / 2 powi max (k - 52) (- 1074))) * 2 powi max (k - 52) (- 1074)"
proof -
  have "0 < (2::real) powi k" by simp
  with assms(1) have "0 < \<bar>r\<bar>" by linarith
  then have "r \<noteq> 0" by auto
  then show ?thesis
    by (simp add: fl_def ulp_exp_def binade_unique [OF assms])
qed

lemma fl_idem: "fl (fl r) = fl r"
proof (cases "r = 0")
  case True
  then show ?thesis by simp
next
  case False
  define e where "e = ulp_exp r"
  define u :: real where "u = 2 powi e"
  have u: "0 < u" by (simp add: u_def)
  have e: "- 1074 \<le> e" "binade r + 1 \<le> 53 + e" by (simp_all add: e_def ulp_exp_def)
  have "\<bar>r\<bar> < 2 powi (binade r + 1)" using False by (rule binade_bounds)
  also have "\<dots> \<le> 2 powi (53 + e)" using e(2) by (rule power_int_increasing) simp
  also have "\<dots> = 2 ^ 53 * u" by (simp add: u_def power_int_add)
  finally have "\<bar>r\<bar> / u \<le> 2 ^ 53" using u by (simp add: field_simps)
  then have "\<bar>r / u\<bar> \<le> of_int (2 ^ 53)" using u by simp
  then have "\<bar>rhe (r / u)\<bar> \<le> 2 ^ 53" by (rule rhe_abs_le)
  with e(1) have "fl (of_int (rhe (r / u)) * 2 powi e) = of_int (rhe (r / u)) * 2 powi e"
    by (rule fl_fixed)
  moreover have "fl r = of_int (rhe (r / u)) * 2 powi e"
    using False by (simp add: fl_def u_def e_def)
  ultimately show ?thesis by simp
qed

text \<open>Rounding goes to a nearest double.\<close>

lemma fl_nearest:
  assumes "fl y = y"
  shows "\<bar>fl r - r\<bar> \<le> \<bar>y - r\<bar>"
proof (cases "r = 0 \<or> y = 0")
  case True
  then show ?thesis using fl_near_grid [of r 0] by auto
next
  case False
  then have r: "r \<noteq> 0" and y: "y \<noteq> 0" by simp_all
  define u :: real where "u = 2 powi ulp_exp r"
  have y_grid: "y = of_int (rhe (y / 2 powi ulp_exp y)) * 2 powi ulp_exp y"
    using assms y by (simp add: fl_def)
  show ?thesis
  proof (cases "ulp_exp r \<le> ulp_exp y")
    case True
    have "(2::real) powi ulp_exp y = 2 ^ nat (ulp_exp y - ulp_exp r) * 2 powi ulp_exp r"
      using True by (rule two_powi_split)
    with y_grid
    have "y = of_int (rhe (y / 2 powi ulp_exp y) * 2 ^ nat (ulp_exp y - ulp_exp r))
                * 2 powi ulp_exp r"
      by simp
    then obtain n where "y = of_int n * 2 powi ulp_exp r" ..
    then show ?thesis using fl_near_grid [of r n] by simp
  next
    case False
    then have b: "binade y + 1 \<le> binade r" and ur: "ulp_exp r = binade r - 52"
      by (simp_all add: ulp_exp_def max_def split: if_splits)
    have "\<bar>y\<bar> < 2 powi (binade y + 1)" using y by (rule binade_bounds)
    also have "\<dots> \<le> 2 powi binade r" using b by (rule power_int_increasing) simp
    finally have ylt: "\<bar>y\<bar> < 2 powi binade r" .
    have rge: "2 powi binade r \<le> \<bar>r\<bar>" using r by (rule binade_bounds)
    have p: "(2::real) powi binade r = 2 ^ 52 * 2 powi ulp_exp r"
      using two_powi_split [of "binade r - 52" "binade r"] by (simp add: ur)
    show ?thesis
    proof (cases "0 < r")
      case True
      have "\<bar>fl r - r\<bar> \<le> \<bar>of_int (2 ^ 52) * 2 powi ulp_exp r - r\<bar>" by (rule fl_near_grid)
      also have "\<dots> = \<bar>2 powi binade r - r\<bar>" by (simp add: p)
      finally show ?thesis using True ylt rge by linarith
    next
      case False
      have "\<bar>fl r - r\<bar> \<le> \<bar>of_int (- (2 ^ 52)) * 2 powi ulp_exp r - r\<bar>" by (rule fl_near_grid)
      also have "\<dots> = \<bar>- (2 powi binade r) - r\<bar>" by (simp add: p)
      finally show ?thesis using False ylt rge by linarith
    qed
  qed
qed

lemma fl_sign:
  shows "0 \<le> r \<Longrightarrow> 0 \<le> fl r \<and> fl r \<le> 2 * r"
    and "r \<le> 0 \<Longrightarrow> 2 * r \<le> fl r \<and> fl r \<le> 0"
  using fl_nearest [of 0 r] by auto

lemma fl_between:
  assumes "fl a = a" "fl b = b" "a \<le> z" "z \<le> b"
  shows "a \<le> fl z" "fl z \<le> b"
  using fl_nearest [OF assms(1), of z] fl_nearest [OF assms(2), of z] assms(3,4) by linarith+

lemma lowpass_fl_between:
  assumes x: "fl x = x" and t: "fl t = t" and kp: "0 \<le> kp" "kp \<le> 1 / 4"
  shows "min x t \<le> fl (x + fl (fl (t - x) * kp))"
    and "fl (x + fl (fl (t - x) * kp)) \<le> max x t"
proof -
  define d where "d = fl (t - x)"
  define e where "e = fl (d * kp)"
  have "min x t \<le> fl (x + e) \<and> fl (x + e) \<le> max x t"
  proof (cases "x \<le> t")
    case True
    then have d: "0 \<le> d" "d \<le> 2 * (t - x)" using fl_sign(1) [of "t - x"] by (simp_all add: d_def)
    have "d * kp \<le> d * (1 / 4)" using kp(2) d(1) by (rule mult_left_mono)
    moreover have "0 \<le> d * kp" using d(1) kp(1) by simp
    ultimately have "0 \<le> e" "e \<le> t - x"
      using fl_sign(1) [of "d * kp"] d(2) by (simp_all add: e_def)
    then have "x \<le> x + e" "x + e \<le> t" by simp_all
    with x t have "x \<le> fl (x + e)" "fl (x + e) \<le> t" by (rule fl_between)+
    then show ?thesis using True by simp
  next
    case False
    then have d: "d \<le> 0" "2 * (t - x) \<le> d" using fl_sign(2) [of "t - x"] by (simp_all add: d_def)
    have "(- d) * kp \<le> (- d) * (1 / 4)" using d(1) kp(2) by (intro mult_left_mono) simp_all
    moreover have "0 \<le> (- d) * kp" using d(1) kp(1) by (intro mult_nonneg_nonneg) simp_all
    ultimately have "e \<le> 0" "t - x \<le> e"
      using fl_sign(2) [of "d * kp"] d(2) by (simp_all add: e_def)
    then have "t \<le> x + e" "x + e \<le> x" by simp_all
    with t x have "t \<le> fl (x + e)" "fl (x + e) \<le> x" by (rule fl_between)+
    then show ?thesis using False by simp
  qed
  then show "min x t \<le> fl (x + fl (fl (t - x) * kp))"
    and "fl (x + fl (fl (t - x) * kp)) \<le> max x t"
    by (simp_all add: d_def e_def)
qed

lemma kp_bounds: "0 \<le> fl (1 / 100)" "fl (1 / 100) \<le> 1 / 4"
  using fl_sign(1) [of "1 / 100"] by simp_all

lemma kp_value: "fl (1 / 100) = 5764607523034235 / 2 ^ 59"
  by (subst fl_eval [of "- 7"]) (simp_all add: rhe_def)

lemma update_max_speed_value:
  "adaptiveCruise cs \<Longrightarrow> 0 < max_speed_clu s \<Longrightarrow>
   max_speed_clu (update_max_speed t cs s)
     = fl (max_speed_clu s + fl (fl (fl (real_of_int t) - max_speed_clu s) * fl (1 / 100)))"
  by (simp add: update_max_speed_def Let_def)

lemma update_max_speed_snap:
  "\<not> adaptiveCruise cs \<or> max_speed_clu s \<le> 0 \<Longrightarrow>
   max_speed_clu (update_max_speed t cs s) = real_of_int t"
  by (auto simp add: update_max_speed_def)

lemma update_max_speed_between:
  assumes "fl (max_speed_clu s) = max_speed_clu s" "\<bar>t\<bar> \<le> 2 ^ 53"
  shows "min (max_speed_clu s) (real_of_int t) \<le> max_speed_clu (update_max_speed t cs s)"
    and "max_speed_clu (update_max_speed t cs s) \<le> max (max_speed_clu s) (real_of_int t)"
proof -
  have t: "fl (real_of_int t) = real_of_int t" using assms(2) by (rule fl_int)
  have "min (max_speed_clu s) (real_of_int t) \<le> max_speed_clu (update_max_speed t cs s)
        \<and> max_speed_clu (update_max_speed t cs s) \<le> max (max_speed_clu s) (real_of_int t)"
  proof (cases "adaptiveCruise cs \<and> 0 < max_speed_clu s")
    case True
    then show ?thesis
      using lowpass_fl_between [OF assms(1) t kp_bounds]
      by (simp add: update_max_speed_value t)
  next
    case False
    then have "max_speed_clu (update_max_speed t cs s) = real_of_int t"
      by (intro update_max_speed_snap) auto
    then show ?thesis by simp
  qed
  then show "min (max_speed_clu s) (real_of_int t) \<le> max_speed_clu (update_max_speed t cs s)"
    and "max_speed_clu (update_max_speed t cs s) \<le> max (max_speed_clu s) (real_of_int t)"
    by simp_all
qed

lemma update_max_speed_double:
  assumes "fl (max_speed_clu s) = max_speed_clu s" "\<bar>t\<bar> \<le> 2 ^ 53"
  shows "fl (max_speed_clu (update_max_speed t cs s)) = max_speed_clu (update_max_speed t cs s)"
proof (cases "adaptiveCruise cs \<and> 0 < max_speed_clu s")
  case True
  then show ?thesis by (simp add: update_max_speed_value fl_idem)
next
  case False
  then have "max_speed_clu (update_max_speed t cs s) = real_of_int t"
    by (intro update_max_speed_snap) auto
  then show ?thesis using fl_int [OF assms(2)] by simp
qed

subsection \<open>Phases that leave the engagement attributes alone\<close>

lemma when_do_eng: "(\<And>s. eng (f s) = eng s) \<Longrightarrow> eng (when_do c f s) = eng s"
  by (simp add: when_do_def)

lemma events_add_eng [simp]: "eng (events_add e s) = eng s"
  by (simp add: eng_def events_add_def)

lemma events_upd_eng [simp]: "eng (s\<lparr>events := es\<rparr>) = eng s"
  by (simp add: eng_def)

lemma when_add_eng [simp]: "eng (when_do c (events_add e) s) = eng s"
  by (simp add: when_do_def)

lemma ue_messages_eng [simp]: "eng (ue_messages cs sm s) = eng (s\<lparr>startup_event := None\<rparr>)"
  by (simp add: ue_messages_def events_clear_def events_add_from_msg_def eng_def events_add_def Let_def split: option.splits)

lemma ue_hardware_eng [simp]: "eng (ue_hardware E sm s) = eng s"
  by (simp add: ue_hardware_def Let_def)

lemma ue_fan_eng [simp]: "eng (ue_fan sm s) = eng s"
  by (simp add: ue_fan_def Let_def) (simp add: eng_def)

lemma ue_calibration_eng [simp]: "eng (ue_calibration sm s) = eng s"
  by (simp add: ue_calibration_def Let_def)

lemma ue_lane_change_eng [simp]: "eng (ue_lane_change cs sm s) = eng s"
  by (simp add: ue_lane_change_def Let_def)

lemma ue_can_eng [simp]: "eng (ue_can cs s) = eng s"
  by (simp add: ue_can_def)

lemma ue_panda_eng [simp]: "eng (ue_panda i ps s) = eng s"
  by (simp add: ue_panda_def Let_def)

lemma ue_pandas_eng [simp]: "eng (ue_pandas i pss s) = eng s"
  by (induction pss arbitrary: i s) simp_all

lemma ue_system_eng [simp]: "eng (ue_system sm s) = eng s"
  by (simp add: ue_system_def Let_def when_do_def) (simp add: eng_def events_add_def)

lemma fold_relay_eng [simp]:
  "eng (fold (\<lambda>ps. when_do (fault_relayMalfunction ps) (events_add e)) pss s) = eng s"
  by (induction pss arbitrary: s) simp_all

lemma ue_validity_eng [simp]: "eng (ue_validity E sm s) = eng s"
  by (simp add: ue_validity_def Let_def)

lemma ue_cruise_mismatch_eng [simp]: "eng (ue_cruise_mismatch E cs s) = eng s"
  by (simp add: ue_cruise_mismatch_def Let_def) (simp add: eng_def)

lemma ue_fcw_eng [simp]: "eng (ue_fcw cs sm s) = eng s"
  by (simp add: ue_fcw_def Let_def)

lemma ue_slowing_down_eng [simp]: "eng (ue_slowing_down s) = eng s"
  by (simp add: ue_slowing_down_def) (simp add: eng_def)

lemma ue_android_inner_eng [simp]:
  "eng (fold (\<lambda>m s. if err \<notin> set (msg_errors m) then s
                else (case camera_event (msg_csid m) of Some evt \<Rightarrow> events_add evt s | None \<Rightarrow> s)) msgs s) = eng s"
  by (induction msgs arbitrary: s) (simp_all split: option.splits)

lemma ue_android_log_eng [simp]: "eng (ue_android_log E msgs s) = eng s"
  by (simp add: ue_android_log_def)

lemma ue_processes_eng [simp]: "eng (ue_processes E sm s) = eng s"
  by (simp add: ue_processes_def Let_def)

lemma update_events_eng [simp]:
  "eng (update_events E t cs s) = eng (s\<lparr>startup_event := None\<rparr>)"
  by (simp add: update_events_def Let_def)


lemma data_sample_eng:
  "eng (snd (data_sample E t s)) =
     eng (s\<lparr>initialized := initialized (snd (data_sample E t s)),
            mismatch_counter := mismatch_counter (snd (data_sample E t s))\<rparr>)"
  by (simp add: data_sample_def Let_def when_do_def eng_def)

lemma data_sample_initialized: "initialized s \<Longrightarrow> initialized (snd (data_sample E t s))"
  by (simp add: data_sample_def Let_def when_do_def)

lemma data_sample_mismatch_counter:
  "mismatch_counter (snd (data_sample E t s)) =
     (if \<not> enabled s then 0
      else if \<exists>ps \<in> set (pandaStates (tick_sm t)).
                safetyModel ps \<notin> set IGNORED_SAFETY_MODES \<and> \<not> controlsAllowed ps
           then mismatch_counter s + 1
           else mismatch_counter s)"
  by (auto simp add: data_sample_def Let_def when_do_def)

lemma data_sample_fst [simp]: "fst (data_sample E t s) = tick_CS t"
  by (simp add: data_sample_def Let_def)

lemma collected_eng:
  "eng (collected E t s) =
     eng (s\<lparr>initialized := initialized (collected E t s),
            mismatch_counter := mismatch_counter (collected E t s),
            startup_event := None\<rparr>)"
  using data_sample_eng [of E t s] update_events_eng [of E t "tick_CS t" "snd (data_sample E t s)"]
  by (simp add: collected_def case_prod_beta eng_def)

lemma collected_initialized: "initialized s \<Longrightarrow> initialized (collected E t s)"
  using update_events_eng [of E t "tick_CS t" "snd (data_sample E t s)"] data_sample_initialized [of s E t]
  by (simp add: collected_def case_prod_beta eng_def)

lemma collected_mismatch_counter:
  "mismatch_counter (collected E t s) = mismatch_counter (snd (data_sample E t s))"
  using update_events_eng [of E t "tick_CS t" "snd (data_sample E t s)"]
  by (simp add: collected_def case_prod_beta eng_def)

lemma cal_curve_speed_eng [simp]: "eng (cal_curve_speed E sm v f s) = eng s"
  by (simp add: cal_curve_speed_def cal_curve_speed_608_def Let_def eng_def)

lemma road_limit_clamp_eng [simp]: "eng (snd (road_limit_clamp E rl m s)) = eng s"
  by (simp add: road_limit_clamp_def Let_def eng_def)

lemma lead_clamp_eng [simp]: "eng (snd (lead_clamp l v m s)) = eng s"
  by (simp add: lead_clamp_def Let_def eng_def)

lemma update_max_speed_eng [simp]: "eng (update_max_speed m cs s) = eng s"
  by (simp add: update_max_speed_def Let_def eng_def)

lemma cms_before_lead_eng [simp]: "eng (snd (cms_before_lead E rl f v sm s)) = eng s"
  by (simp add: cms_before_lead_def Let_def)

lemma cal_max_speed_eng [simp]: "eng (snd (cal_max_speed E rl f v sm cs s)) = eng s"
  by (simp add: cal_max_speed_def Let_def case_prod_beta)

lemma sc_saturation_eng [simp]: "eng (sc_saturation cs sm a l s) = eng s"
  by (simp add: sc_saturation_def Let_def when_do_def events_add_def eng_def)

lemma eng_cloudlog [simp]: "eng (s\<lparr>cloudlog := x\<rparr>) = eng s"
  by (simp add: eng_def)

lemma eng_last_blinker_frame [simp]: "eng (s\<lparr>last_blinker_frame := x\<rparr>) = eng s"
  by (simp add: eng_def)

lemma eng_CC [simp]: "eng (s\<lparr>CC := x\<rparr>) = eng s"
  by (simp add: eng_def)

lemma state_control_eng:
  "state_control E t cs s = Inr (r, s') \<Longrightarrow> eng s' = eng s"
  by (auto simp add: state_control_def Let_def when_do_def case_prod_beta split: sum.splits)

lemma publish_logs_eng:
  "publish_logs E t cs a l s = Inr s' \<Longrightarrow> eng s' = eng s"
  by (auto simp add: publish_logs_def Let_def when_do_def case_prod_beta split: sum.splits)

lemma update_button_timers_eng [simp]: "eng (update_button_timers bs s) = eng s"
  by (simp add: update_button_timers_def Let_def eng_def)

subsection \<open>The engagement state machine\<close>

lemma eng_fields:
  assumes "eng a = eng b"
  shows "state a = state b" "enabled a = enabled b" "active a = active b"
    "soft_disable_timer a = soft_disable_timer b" "initialized a = initialized b"
    "read_only a = read_only b" "joystick_mode a = joystick_mode b" "CP a = CP b"
    "static_events a = static_events b" "startup_event a = startup_event b"
    "mismatch_counter a = mismatch_counter b" "is_ldw_enabled a = is_ldw_enabled b"
  using assms by (simp_all add: eng_def)

lemma flags_ok_eng: "eng a = eng b \<Longrightarrow> flags_ok a = flags_ok b"
  by (simp add: flags_ok_def eng_def)

lemma append_alert_type_fields [simp]:
  "state (append_alert_type et s) = state s"
  "soft_disable_timer (append_alert_type et s) = soft_disable_timer s"
  "events (append_alert_type et s) = events s"
  "read_only (append_alert_type et s) = read_only s"
  "initialized (append_alert_type et s) = initialized s"
  "joystick_mode (append_alert_type et s) = joystick_mode s"
  "CP (append_alert_type et s) = CP s"
  "static_events (append_alert_type et s) = static_events s"
  "startup_event (append_alert_type et s) = startup_event s"
  "mismatch_counter (append_alert_type et s) = mismatch_counter s"
  "is_ldw_enabled (append_alert_type et s) = is_ldw_enabled s"
  by (simp_all add: append_alert_type_def)

lemma state_transition_flags: "flags_ok (state_transition E cs s)"
  by (simp add: state_transition_def Let_def when_do_def flags_ok_def append_alert_type_def)

lemma st_cruise_fields [simp]:
  "state (st_cruise E cs s) = state s"
  "soft_disable_timer (st_cruise E cs s) = soft_disable_timer s"
  "events (st_cruise E cs s) = events s"
  "read_only (st_cruise E cs s) = read_only s"
  "initialized (st_cruise E cs s) = initialized s"
  "joystick_mode (st_cruise E cs s) = joystick_mode s"
  "CP (st_cruise E cs s) = CP s"
  "static_events (st_cruise E cs s) = static_events s"
  "startup_event (st_cruise E cs s) = startup_event s"
  "mismatch_counter (st_cruise E cs s) = mismatch_counter s"
  "is_ldw_enabled (st_cruise E cs s) = is_ldw_enabled s"
  by (simp_all add: st_cruise_def Let_def when_do_def)

lemma st_engagement_fixed [simp]:
  "read_only (st_engagement E cs s) = read_only s"
  "initialized (st_engagement E cs s) = initialized s"
  "joystick_mode (st_engagement E cs s) = joystick_mode s"
  "CP (st_engagement E cs s) = CP s"
  "static_events (st_engagement E cs s) = static_events s"
  "startup_event (st_engagement E cs s) = startup_event s"
  "mismatch_counter (st_engagement E cs s) = mismatch_counter s"
  "is_ldw_enabled (st_engagement E cs s) = is_ldw_enabled s"
  by (simp_all add: st_engagement_def Let_def)

lemma state_transition_fixed [simp]:
  "read_only (state_transition E cs s) = read_only s"
  "initialized (state_transition E cs s) = initialized s"
  "joystick_mode (state_transition E cs s) = joystick_mode s"
  "CP (state_transition E cs s) = CP s"
  "static_events (state_transition E cs s) = static_events s"
  "startup_event (state_transition E cs s) = startup_event s"
  "mismatch_counter (state_transition E cs s) = mismatch_counter s"
  "is_ldw_enabled (state_transition E cs s) = is_ldw_enabled s"
  by (simp_all add: state_transition_def Let_def when_do_def append_alert_type_def)

lemma events_any_cong: "events a = events b \<Longrightarrow> events_any E a et = events_any E b et"
  by (simp add: events_any_def)

lemma st_engagement_cong:
  assumes "state a = state b" "soft_disable_timer a = soft_disable_timer b" "events a = events b"
  shows "state (st_engagement E cs a) = state (st_engagement E cs b)"
    and "soft_disable_timer (st_engagement E cs a) = soft_disable_timer (st_engagement E cs b)"
proof -
  have ev: "events_any E a et = events_any E b et" for et
    using assms(3) by (rule events_any_cong)
  show "state (st_engagement E cs a) = state (st_engagement E cs b)"
    using assms(1,2) by (cases "state b") (simp_all add: st_engagement_def ev Let_def)
  show "soft_disable_timer (st_engagement E cs a) = soft_disable_timer (st_engagement E cs b)"
    using assms(1,2) by (cases "state b") (simp_all add: st_engagement_def ev Let_def)
qed

lemma state_transition_unfold:
  "state (state_transition E cs s) =
     state (st_engagement E cs
       ((st_cruise E cs (s\<lparr>v_cruise_kph_last := v_cruise_kph s\<rparr>))
          \<lparr>soft_disable_timer := max 0 (soft_disable_timer s - 1),
            current_alert_types := [PERMANENT]\<rparr>))"
  "soft_disable_timer (state_transition E cs s) =
     soft_disable_timer (st_engagement E cs
       ((st_cruise E cs (s\<lparr>v_cruise_kph_last := v_cruise_kph s\<rparr>))
          \<lparr>soft_disable_timer := max 0 (soft_disable_timer s - 1),
            current_alert_types := [PERMANENT]\<rparr>))"
  by (simp_all add: state_transition_def Let_def when_do_def append_alert_type_def)

lemma state_transition_state:
  "state (state_transition E cs s) =
     state (st_engagement E cs (s\<lparr>soft_disable_timer := max 0 (soft_disable_timer s - 1)\<rparr>))"
  "soft_disable_timer (state_transition E cs s) =
     soft_disable_timer (st_engagement E cs (s\<lparr>soft_disable_timer := max 0 (soft_disable_timer s - 1)\<rparr>))"
  unfolding state_transition_unfold
  by (rule st_engagement_cong; simp)+

lemma py_int_300 [simp]: "py_int (SOFT_DISABLE_TIME / DT_CTRL) = 300"
  by (simp add: py_int_def SOFT_DISABLE_TIME_def DT_CTRL_def)

lemma st_enter_soft:
  assumes "state s = State_enabled" "soft_disable_only E s"
  shows "state (state_transition E cs s) = State_softDisabling"
    and "soft_disable_timer (state_transition E cs s) = 300"
  using assms
  by (simp_all add: state_transition_state st_engagement_def soft_disable_only_def events_any_def)

lemma st_soft_count:
  assumes "state s = State_softDisabling" "soft_disable_only E s"
  shows "state (state_transition E cs s) =
           (if 1 < soft_disable_timer s then State_softDisabling else State_disabled)"
    and "soft_disable_timer (state_transition E cs s) = max 0 (soft_disable_timer s - 1)"
  using assms
  by (auto simp add: state_transition_state st_engagement_def soft_disable_only_def events_any_def)

lemma step_eng:
  assumes "step E t s = Inr s'"
  shows "eng s' = eng (when_do (\<not> read_only (collected E t s) \<and> initialized (collected E t s))
                        (state_transition E (tick_CS t)) (collected E t s))"
proof -
  define c where "c = collected E t s"
  define g where "g = when_do (\<not> read_only c \<and> initialized c) (state_transition E (tick_CS t)) c"
  have c_eq: "update_events E t (tick_CS t) (snd (data_sample E t s)) = c"
    by (simp add: c_def collected_def case_prod_beta)
  from assms obtain r s1 s2 where
    sc: "state_control E t (tick_CS t) g = Inr (r, s1)" and
    pl: "publish_logs E t (tick_CS t) (fst r) (snd r) s1 = Inr s2" and
    s': "s' = update_button_timers (buttonEvents (tick_CS t)) s2"
    unfolding step_def g_def
    by (auto simp add: case_prod_beta Let_def c_eq split: sum.splits)
  have "eng s' = eng s2" by (simp add: s')
  also have "\<dots> = eng s1" using pl by (rule publish_logs_eng)
  also have "\<dots> = eng g" using sc by (rule state_control_eng)
  finally show ?thesis by (simp add: g_def c_def)
qed

lemma step_flags:
  assumes "step E t s = Inr s'" "flags_ok s"
  shows "flags_ok s'"
proof -
  let ?c = "collected E t s"
  have c: "flags_ok ?c"
    using collected_eng [of E t s] assms(2) by (simp add: flags_ok_def eng_def)
  have "flags_ok (when_do (\<not> read_only ?c \<and> initialized ?c) (state_transition E (tick_CS t)) ?c)"
    using c by (simp add: when_do_def state_transition_flags)
  then show ?thesis
    using step_eng [OF assms(1)] flags_ok_eng by blast
qed

lemma run_ticks_flags:
  "run_ticks E ts s = Inr s' \<Longrightarrow> flags_ok s \<Longrightarrow> flags_ok s'"
proof (induction ts arbitrary: s)
  case Nil
  then show ?case by simp
next
  case (Cons t ts)
  then show ?case
    by (auto split: sum.splits dest: step_flags)
qed

lemma Controls_init_flags: "flags_ok (Controls_init E b)"
  by (simp add: Controls_init_def Let_def flags_ok_def)

subsection \<open>Which events a tick collects\<close>

lemma events_add_mem [simp]: "e \<in> set (events (events_add x s)) \<longleftrightarrow> e = x \<or> e \<in> set (events s)"
  by (auto simp add: events_add_def)

lemma when_add_mem:
  "e \<in> set (events (when_do c (events_add x) s)) \<longleftrightarrow> (c \<and> e = x) \<or> e \<in> set (events s)"
  by (auto simp add: when_do_def)

lemma ue_messages_events:
  "events (ue_messages cs sm s) =
     static_events s @ CS_events cs @ driverMonitoringState_events sm
       @ (case startup_event s of Some e \<Rightarrow> [e] | None \<Rightarrow> [])"
  by (simp add: ue_messages_def events_clear_def events_add_from_msg_def events_add_def Let_def
      split: option.splits)

lemma ue_hardware_mem:
  "e \<notin> set [''lowBattery'', ''overheat'', ''outOfSpace'', ''lowMemory'']
     \<Longrightarrow> e \<in> set (events (ue_hardware E sm s)) \<longleftrightarrow> e \<in> set (events s)"
  by (simp add: ue_hardware_def Let_def when_add_mem)

lemma ue_fan_mem:
  "e \<noteq> ''fanMalfunction'' \<Longrightarrow> e \<in> set (events (ue_fan sm s)) \<longleftrightarrow> e \<in> set (events s)"
  by (simp add: ue_fan_def when_add_mem)

lemma ue_calibration_mem:
  "e \<notin> set [''calibrationIncomplete'', ''calibrationInvalid'']
     \<Longrightarrow> e \<in> set (events (ue_calibration sm s)) \<longleftrightarrow> e \<in> set (events s)"
  by (simp add: ue_calibration_def Let_def)

lemma ue_lane_change_mem:
  "e \<notin> set [''laneChangeBlocked'', ''preLaneChangeLeft'', ''preLaneChangeRight'', ''laneChange'']
     \<Longrightarrow> e \<in> set (events (ue_lane_change cs sm s)) \<longleftrightarrow> e \<in> set (events s)"
  by (simp add: ue_lane_change_def Let_def)

lemma ue_can_mem:
  "e \<noteq> ''canError'' \<Longrightarrow> e \<in> set (events (ue_can cs s)) \<longleftrightarrow> e \<in> set (events s)"
  by (simp add: ue_can_def when_add_mem)

lemma safety_mismatch_cong: "CP a = CP b \<Longrightarrow> safety_mismatch a i ps = safety_mismatch b i ps"
  by (simp add: safety_mismatch_def)

lemma ue_panda_mem:
  "e \<noteq> ''relayMalfunction''
     \<Longrightarrow> e \<in> set (events (ue_panda i ps s)) \<longleftrightarrow>
         (e = ''controlsMismatch'' \<and> (safety_mismatch s i ps \<or> 200 \<le> mismatch_counter s))
         \<or> e \<in> set (events s)"
  by (auto simp add: ue_panda_def Let_def when_add_mem)

lemma ue_pandas_mem:
  "e \<noteq> ''relayMalfunction''
     \<Longrightarrow> e \<in> set (events (ue_pandas i pss s)) \<longleftrightarrow>
         (e = ''controlsMismatch''
            \<and> (\<exists>j < length pss. safety_mismatch s (i + j) (pss ! j) \<or> 200 \<le> mismatch_counter s))
         \<or> e \<in> set (events s)"
proof (induction pss arbitrary: i s)
  case Nil
  then show ?case by simp
next
  case (Cons ps pss)
  let ?s1 = "ue_panda i ps s"
  let ?Q = "\<lambda>k q. safety_mismatch s k q \<or> 200 \<le> mismatch_counter s"
  have cp: "CP ?s1 = CP s" "mismatch_counter ?s1 = mismatch_counter s"
    using eng_fields(8,11) [OF ue_panda_eng [of i ps s]] by simp_all
  have sm: "safety_mismatch ?s1 k q = safety_mismatch s k q" for k q
    using cp(1) by (rule safety_mismatch_cong)
  have ex: "(\<exists>j < length (ps # pss). ?Q (i + j) ((ps # pss) ! j))
              \<longleftrightarrow> ?Q i ps \<or> (\<exists>j < length pss. ?Q (Suc i + j) (pss ! j))"
  proof
    assume "\<exists>j < length (ps # pss). ?Q (i + j) ((ps # pss) ! j)"
    then obtain j where j: "j < length (ps # pss)" "?Q (i + j) ((ps # pss) ! j)" by blast
    show "?Q i ps \<or> (\<exists>j < length pss. ?Q (Suc i + j) (pss ! j))"
    proof (cases j)
      case 0
      with j show ?thesis by simp
    next
      case (Suc k)
      with j have "k < length pss" "?Q (Suc i + k) (pss ! k)" by simp_all
      then show ?thesis by blast
    qed
  next
    assume "?Q i ps \<or> (\<exists>j < length pss. ?Q (Suc i + j) (pss ! j))"
    then show "\<exists>j < length (ps # pss). ?Q (i + j) ((ps # pss) ! j)"
    proof
      assume "?Q i ps"
      then have "0 < length (ps # pss) \<and> ?Q (i + 0) ((ps # pss) ! 0)" by simp
      then show ?thesis by blast
    next
      assume "\<exists>j < length pss. ?Q (Suc i + j) (pss ! j)"
      then obtain k where "k < length pss" "?Q (Suc i + k) (pss ! k)" by blast
      then have "Suc k < length (ps # pss) \<and> ?Q (i + Suc k) ((ps # pss) ! Suc k)" by simp
      then show ?thesis by blast
    qed
  qed
  have "e \<in> set (events (ue_pandas i (ps # pss) s)) \<longleftrightarrow>
          (e = ''controlsMismatch'' \<and> (\<exists>j < length pss. ?Q (Suc i + j) (pss ! j)))
          \<or> e \<in> set (events ?s1)"
    using Cons.IH [OF Cons.prems, of "Suc i" ?s1] by (simp only: ue_pandas.simps sm cp(2))
  also have "e \<in> set (events ?s1) \<longleftrightarrow> (e = ''controlsMismatch'' \<and> ?Q i ps) \<or> e \<in> set (events s)"
    using Cons.prems by (rule ue_panda_mem)
  finally show ?case
    unfolding ex by blast
qed

lemma ue_system_mem:
  "e \<notin> set [''radarFault'', ''usbError'', ''commIssue'']
     \<Longrightarrow> e \<in> set (events (ue_system sm s)) \<longleftrightarrow> e \<in> set (events s)"
  by (simp add: ue_system_def Let_def when_do_def)

lemma ue_system_commIssue:
  "radarErrors (radarState sm) = [] \<Longrightarrow> valid_pandaStates sm \<Longrightarrow> \<not> all_alive_and_valid sm
     \<Longrightarrow> ''commIssue'' \<in> set (events (ue_system sm s))"
  by (simp add: ue_system_def Let_def when_do_def)

lemma fold_relay_mem:
  "e \<noteq> x \<Longrightarrow> e \<in> set (events (fold (\<lambda>ps. when_do (fault_relayMalfunction ps) (events_add x)) pss s))
     \<longleftrightarrow> e \<in> set (events s)"
  by (induction pss arbitrary: s) (simp_all add: when_add_mem)

lemma ue_validity_mem:
  "e \<notin> set [''vehicleModelInvalid'', ''plannerError'', ''sensorDataInvalid'', ''posenetInvalid'',
              ''deviceFalling'', ''relayMalfunction'']
     \<Longrightarrow> e \<in> set (events (ue_validity E sm s)) \<longleftrightarrow> e \<in> set (events s)"
  by (simp add: ue_validity_def Let_def when_add_mem fold_relay_mem)

lemma ue_cruise_mismatch_mem:
  "e \<noteq> ''cruiseMismatch''
     \<Longrightarrow> e \<in> set (events (ue_cruise_mismatch E cs s)) \<longleftrightarrow> e \<in> set (events s)"
  by (simp add: ue_cruise_mismatch_def Let_def when_add_mem)

lemma ue_fcw_mem:
  "e \<noteq> ''fcw'' \<Longrightarrow> e \<in> set (events (ue_fcw cs sm s)) \<longleftrightarrow> e \<in> set (events s)"
  by (simp add: ue_fcw_def Let_def when_add_mem)

lemma ue_slowing_down_mem:
  "e \<notin> set [''slowingDownSpeedSound'', ''slowingDownSpeed'']
     \<Longrightarrow> e \<in> set (events (ue_slowing_down s)) \<longleftrightarrow> e \<in> set (events s)"
  by (simp add: ue_slowing_down_def)

lemma camera_event_names:
  "camera_event c = Some x \<Longrightarrow> x \<in> set [''roadCameraError'', ''wideRoadCameraError'', ''driverCameraError'']"
  by (auto simp add: camera_event_def split: if_splits)

lemma ue_android_inner_mem:
  "e \<notin> set [''roadCameraError'', ''wideRoadCameraError'', ''driverCameraError'']
     \<Longrightarrow> e \<in> set (events (fold (\<lambda>m s. if err \<notin> set (msg_errors m) then s
                else (case camera_event (msg_csid m) of Some evt \<Rightarrow> events_add evt s | None \<Rightarrow> s)) msgs s))
         \<longleftrightarrow> e \<in> set (events s)"
proof (induction msgs arbitrary: s)
  case Nil
  then show ?case by simp
next
  case (Cons m msgs)
  then show ?case
    using camera_event_names [of "msg_csid m"]
    by (auto split: option.splits)
qed

lemma ue_android_log_mem:
  "e \<notin> set [''roadCameraError'', ''wideRoadCameraError'', ''driverCameraError'']
     \<Longrightarrow> e \<in> set (events (ue_android_log E msgs s)) \<longleftrightarrow> e \<in> set (events s)"
  by (simp add: ue_android_log_def ue_android_inner_mem del: set_simps)

lemma ue_processes_mem:
  "e \<notin> set [''cameraMalfunction'', ''modeldLagging'', ''localizerMalfunction'', ''processNotRunning'']
     \<Longrightarrow> e \<in> set (events (ue_processes E sm s)) \<longleftrightarrow> e \<in> set (events s)"
  by (simp add: ue_processes_def Let_def when_add_mem)

lemma ue_tail_mem:
  assumes "e \<notin> set [''vehicleModelInvalid'', ''plannerError'', ''sensorDataInvalid'',
                     ''posenetInvalid'', ''deviceFalling'', ''relayMalfunction'',
                     ''cruiseMismatch'', ''fcw'', ''slowingDownSpeedSound'', ''slowingDownSpeed'',
                     ''roadCameraError'', ''wideRoadCameraError'', ''driverCameraError'',
                     ''cameraMalfunction'', ''modeldLagging'', ''localizerMalfunction'',
                     ''processNotRunning'']"
  shows "e \<in> set (events (ue_processes E sm (ue_android_log E msgs (ue_slowing_down
            (ue_fcw cs sm (ue_cruise_mismatch E cs (ue_validity E sm s)))))))
         \<longleftrightarrow> e \<in> set (events s)"
proof -
  have "e \<in> set (events (ue_validity E sm s)) \<longleftrightarrow> e \<in> set (events s)"
    using assms by (intro ue_validity_mem) simp
  moreover have "e \<in> set (events (ue_cruise_mismatch E cs x)) \<longleftrightarrow> e \<in> set (events x)" for x
    using assms by (intro ue_cruise_mismatch_mem) simp
  moreover have "e \<in> set (events (ue_fcw cs sm x)) \<longleftrightarrow> e \<in> set (events x)" for x
    using assms by (intro ue_fcw_mem) simp
  moreover have "e \<in> set (events (ue_slowing_down x)) \<longleftrightarrow> e \<in> set (events x)" for x
    using assms by (intro ue_slowing_down_mem) simp
  moreover have "e \<in> set (events (ue_android_log E msgs x)) \<longleftrightarrow> e \<in> set (events x)" for x
    using assms by (intro ue_android_log_mem) simp
  moreover have "e \<in> set (events (ue_processes E sm x)) \<longleftrightarrow> e \<in> set (events x)" for x
    using assms by (intro ue_processes_mem) simp
  ultimately show ?thesis by simp
qed

lemma ue_head_mem:
  assumes "e \<notin> set [''lowBattery'', ''overheat'', ''outOfSpace'', ''lowMemory'',
                     ''fanMalfunction'', ''calibrationIncomplete'', ''calibrationInvalid'',
                     ''laneChangeBlocked'', ''preLaneChangeLeft'', ''preLaneChangeRight'',
                     ''laneChange'', ''canError'']"
  shows "e \<in> set (events (ue_can cs (ue_lane_change cs sm (ue_calibration sm (ue_fan sm
            (ue_hardware E sm s))))))
         \<longleftrightarrow> e \<in> set (events s)"
proof -
  have "e \<in> set (events (ue_hardware E sm s)) \<longleftrightarrow> e \<in> set (events s)"
    using assms by (intro ue_hardware_mem) simp
  moreover have "e \<in> set (events (ue_fan sm x)) \<longleftrightarrow> e \<in> set (events x)" for x
    using assms by (intro ue_fan_mem) simp
  moreover have "e \<in> set (events (ue_calibration sm x)) \<longleftrightarrow> e \<in> set (events x)" for x
    using assms by (intro ue_calibration_mem) simp
  moreover have "e \<in> set (events (ue_lane_change cs sm x)) \<longleftrightarrow> e \<in> set (events x)" for x
    using assms by (intro ue_lane_change_mem) simp
  moreover have "e \<in> set (events (ue_can cs x)) \<longleftrightarrow> e \<in> set (events x)" for x
    using assms by (intro ue_can_mem) simp
  ultimately show ?thesis by simp
qed

lemma update_events_unfold:
  "update_events E t cs s =
     (if \<not> initialized s then events_add ''controlsInitializing'' (ue_messages cs (tick_sm t) s)
      else ue_processes E (tick_sm t) (ue_android_log E (tick_androidLog t) (ue_slowing_down
             (ue_fcw cs (tick_sm t) (ue_cruise_mismatch E cs (ue_validity E (tick_sm t)
               (ue_system (tick_sm t) (ue_pandas 0 (pandaStates (tick_sm t))
                 (ue_can cs (ue_lane_change cs (tick_sm t) (ue_calibration (tick_sm t)
                   (ue_fan (tick_sm t) (ue_hardware E (tick_sm t)
                     (ue_messages cs (tick_sm t) s))))))))))))))"
proof -
  have "initialized (ue_messages cs (tick_sm t) s) = initialized s"
    using eng_fields(5) [OF ue_messages_eng [of cs "tick_sm t" s]] by simp
  then show ?thesis
    by (simp add: update_events_def Let_def)
qed

lemma update_events_mem:
  assumes "e \<notin> set update_events_names"
  shows "e \<in> set (events (update_events E t cs s)) \<longleftrightarrow>
           e \<in> set (base_events cs (tick_sm t) s)
           \<or> (e = ''controlsMismatch'' \<and> initialized s
               \<and> (\<exists>j < length (pandaStates (tick_sm t)).
                     safety_mismatch s j (pandaStates (tick_sm t) ! j)
                     \<or> 200 \<le> mismatch_counter s))"
proof (cases "initialized s")
  case False
  have "e \<noteq> ''controlsInitializing''"
    using assms by (auto simp add: update_events_names_def)
  then show ?thesis
    using False by (simp add: update_events_unfold ue_messages_events base_events_def)
next
  case True
  let ?sm = "tick_sm t"
  let ?s0 = "ue_messages cs ?sm s"
  let ?s5 = "ue_can cs (ue_lane_change cs ?sm (ue_calibration ?sm (ue_fan ?sm (ue_hardware E ?sm ?s0))))"
  let ?s6 = "ue_pandas 0 (pandaStates ?sm) ?s5"
  let ?s7 = "ue_system ?sm ?s6"
  have e5: "eng ?s5 = eng (s\<lparr>startup_event := None\<rparr>)"
    by simp
  have cp: "CP ?s5 = CP s" "mismatch_counter ?s5 = mismatch_counter s"
    using eng_fields(8,11) [OF e5] by simp_all
  have sm: "safety_mismatch ?s5 k q = safety_mismatch s k q" for k q
    using cp(1) by (rule safety_mismatch_cong)
  have m0: "e \<in> set (events ?s0) \<longleftrightarrow> e \<in> set (base_events cs ?sm s)"
    by (simp add: ue_messages_events base_events_def)
  have m5: "e \<in> set (events ?s5) \<longleftrightarrow> e \<in> set (events ?s0)"
    using assms by (intro ue_head_mem) (simp add: update_events_names_def)
  have nr: "e \<noteq> ''relayMalfunction''"
    using assms by (auto simp add: update_events_names_def)
  have m6: "e \<in> set (events ?s6) \<longleftrightarrow>
       (e = ''controlsMismatch''
          \<and> (\<exists>j < length (pandaStates ?sm). safety_mismatch s j (pandaStates ?sm ! j)
                \<or> 200 \<le> mismatch_counter s))
       \<or> e \<in> set (events ?s5)"
    using ue_pandas_mem [OF nr, of 0 "pandaStates ?sm" ?s5] by (simp only: sm cp(2) add_0)
  have m7: "e \<in> set (events ?s7) \<longleftrightarrow> e \<in> set (events ?s6)"
    using assms by (intro ue_system_mem) (simp add: update_events_names_def)
  have m8: "e \<in> set (events (update_events E t cs s)) \<longleftrightarrow> e \<in> set (events ?s7)"
    unfolding update_events_unfold using True assms
    by (simp only: if_False not_True_eq_False, intro ue_tail_mem) (simp add: update_events_names_def)
  show ?thesis
    using True by (simp only: m8 m7 m6 m5 m0) blast
qed

lemma update_events_commIssue:
  assumes "initialized s" "radarErrors (radarState (tick_sm t)) = []"
    "valid_pandaStates (tick_sm t)" "\<not> all_alive_and_valid (tick_sm t)"
  shows "''commIssue'' \<in> set (events (update_events E t cs s))"
proof -
  have "''commIssue'' \<in> set (events (ue_system (tick_sm t) x))" for x
    using assms(2-4) by (rule ue_system_commIssue)
  then show ?thesis
    unfolding update_events_unfold using assms(1)
    by (simp only: if_False not_True_eq_False) (subst ue_tail_mem; simp)
qed

lemma step_gate:
  assumes "step E t s = Inr s'" "initialized s" "\<not> read_only s"
  shows "eng s' = eng (state_transition E (tick_CS t) (collected E t s))"
proof -
  have "initialized (collected E t s)"
    using assms(2) by (rule collected_initialized)
  moreover have "read_only (collected E t s) = read_only s"
    using eng_fields(6) [OF collected_eng [of E t s]] by simp
  ultimately show ?thesis
    using step_eng [OF assms(1)] assms(3) by (simp add: when_do_def)
qed

lemma collected_state:
  "state (collected E t s) = state s" "soft_disable_timer (collected E t s) = soft_disable_timer s"
  using eng_fields(1,4) [OF collected_eng [of E t s]] by simp_all

lemma step_enter_soft:
  assumes "step E t s = Inr s'" "initialized s" "\<not> read_only s"
    and "state s = State_enabled" "soft_disable_only E (collected E t s)"
  shows "state s' = State_softDisabling" "soft_disable_timer s' = 300"
    "initialized s'" "\<not> read_only s'"
proof -
  note g = step_gate [OF assms(1-3)]
  have c: "state (collected E t s) = State_enabled"
    using assms(4) by (simp add: collected_state)
  show "state s' = State_softDisabling"
    using eng_fields(1) [OF g] st_enter_soft(1) [OF c assms(5)] by simp
  show "soft_disable_timer s' = 300"
    using eng_fields(4) [OF g] st_enter_soft(2) [OF c assms(5)] by simp
  show "initialized s'"
    using eng_fields(5) [OF g] collected_initialized [OF assms(2)] by simp
  show "\<not> read_only s'"
    using eng_fields(6) [OF g] eng_fields(6) [OF collected_eng [of E t s]] assms(3) by simp
qed

lemma step_soft_count:
  assumes "step E t s = Inr s'" "initialized s" "\<not> read_only s"
    and "state s = State_softDisabling" "soft_disable_only E (collected E t s)"
  shows "state s' = (if 1 < soft_disable_timer s then State_softDisabling else State_disabled)"
    "soft_disable_timer s' = max 0 (soft_disable_timer s - 1)"
    "initialized s'" "\<not> read_only s'"
proof -
  note g = step_gate [OF assms(1-3)]
  have c: "state (collected E t s) = State_softDisabling"
    using assms(4) by (simp add: collected_state)
  show "state s' = (if 1 < soft_disable_timer s then State_softDisabling else State_disabled)"
    using eng_fields(1) [OF g] st_soft_count(1) [OF c assms(5)] by (simp add: collected_state)
  show "soft_disable_timer s' = max 0 (soft_disable_timer s - 1)"
    using eng_fields(4) [OF g] st_soft_count(2) [OF c assms(5)] by (simp add: collected_state)
  show "initialized s'"
    using eng_fields(5) [OF g] collected_initialized [OF assms(2)] by simp
  show "\<not> read_only s'"
    using eng_fields(6) [OF g] eng_fields(6) [OF collected_eng [of E t s]] assms(3) by simp
qed

lemma soft_countdown:
  assumes "soft_disable_ticks E ts s" "state s = State_softDisabling"
    and "initialized s" "\<not> read_only s"
    and "1 \<le> soft_disable_timer s" "int (length ts) \<le> soft_disable_timer s"
  shows "\<exists>s'. run_ticks E ts s = Inr s'
           \<and> state s' = (if int (length ts) < soft_disable_timer s
                          then State_softDisabling else State_disabled)"
  using assms
proof (induction ts arbitrary: s)
  case Nil
  then show ?case by simp
next
  case (Cons t ts)
  from Cons.prems(1) obtain s1 where
    s1: "step E t s = Inr s1" and only: "soft_disable_only E (collected E t s)"
    and rest: "soft_disable_ticks E ts s1"
    by (auto split: sum.splits)
  note cnt = step_soft_count [OF s1 Cons.prems(3,4,2) only]
  show ?case
  proof (cases "1 < soft_disable_timer s")
    case True
    have "\<exists>s'. run_ticks E ts s1 = Inr s'
           \<and> state s' = (if int (length ts) < soft_disable_timer s1
                          then State_softDisabling else State_disabled)"
      using Cons.prems(6) True cnt
      by (intro Cons.IH [OF rest]) simp_all
    then show ?thesis
      using s1 cnt(2) True by auto
  next
    case False
    with Cons.prems(5,6) have "ts = []" by auto
    then show ?thesis
      using s1 cnt(1) False Cons.prems(5) by auto
  qed
qed

lemma soft_countdown_entry:
  assumes "state s = State_enabled" "initialized s" "\<not> read_only s"
    and "soft_disable_ticks E (t # ts) s" "length ts \<le> 300"
  shows "\<exists>s'. run_ticks E (t # ts) s = Inr s'
           \<and> state s' = (if length ts < 300 then State_softDisabling else State_disabled)"
proof -
  from assms(4) obtain s1 where
    s1: "step E t s = Inr s1" and only: "soft_disable_only E (collected E t s)"
    and rest: "soft_disable_ticks E ts s1"
    by (auto split: sum.splits)
  note ent = step_enter_soft [OF s1 assms(2,3,1) only]
  have "\<exists>s'. run_ticks E ts s1 = Inr s'
           \<and> state s' = (if int (length ts) < soft_disable_timer s1
                          then State_softDisabling else State_disabled)"
    using assms(5) ent by (intro soft_countdown [OF rest]) simp_all
  then show ?thesis
    using s1 ent(2) by auto
qed

lemma example_Env_simps [simp]:
  "KPH_TO_MS example_Env = 5 / 18" "MS_TO_KPH example_Env = 18 / 5"
  "MS_TO_MPH example_Env = 3600000 / 1609344" "MPH_TO_MS example_Env = 1609344 / 3600000"
  "V_CRUISE_MIN example_Env = 8" "V_CRUISE_MAX example_Env = 135"
  "TRAJECTORY_SIZE example_Env = 33" "MIN_CURVE_SPEED example_Env = 20"
  "SLOW_ON_CURVES example_Env = True" "sccCurvatureFactor example_Env = 98 / 100"
  "ACTUATOR_FIELDS example_Env = [''gas'', ''brake'', ''steer'', ''steeringAngleDeg'', ''accel'', ''longControlState'']"
  "EON example_Env = False" "TICI example_Env = False" "REPLAY example_Env = False"
  "SIMULATION example_Env = False" "NOSENSOR example_Env = False"
  "EVENTS example_Env = example_EVENTS"
  "np_curv example_Env = numpy_curv"
  "np_mean_speed example_Env = numpy_mean_speed"
  "interp example_Env = example_interp"
  "update_v_cruise example_Env = (\<lambda>v bs tm en metric. v)"
  "update_v_cruise_regen example_Env = (\<lambda>v_ego v regen en. v)"
  "initialize_v_cruise example_Env = (\<lambda>v_ego bs v_last. max (v_ego * (18 / 5)) 40)"
  "get_startup_event example_Env = (\<lambda>recognized available fw. ''startup'')"
  "Desire_laneChangeLeft example_Env = 3" "Desire_laneChangeRight example_Env = 4"
  "IGNORE_PROCESSES example_Env = [''rtshield'', ''uploader'', ''deleter'', ''loggerd'',
                          ''logmessaged'', ''tombstoned'', ''logcatd'', ''proclogd'',
                          ''clocksd'', ''updated'', ''timezoned'', ''manage_athenad'']"
  by (simp_all add: example_Env_def)

lemma example_CS_simps [simp]:
  "vEgo example_CS = 20" "aEgo example_CS = 0" "adaptiveCruise example_CS = True"
  "regenPressed example_CS = False" "cruiseState_enabled example_CS = False"
  "canValid example_CS = True" "CS_events example_CS = []" "buttonEvents example_CS = []"
  "leftBlinker example_CS = False" "rightBlinker example_CS = False"
  "leftBlindspot example_CS = False" "rightBlindspot example_CS = False"
  "brakePressed example_CS = False" "steerWarning example_CS = False"
  "steerError example_CS = False" "steeringPressed example_CS = False"
  "steeringAngleDeg example_CS = 0"
  by (simp_all add: example_CS_def)

lemma example_sm_simps [simp]:
  "frame example_sm = 1" "all_alive_and_valid example_sm = True"
  "all_alive_cameras example_sm = True" "valid_pandaStates example_sm = True"
  "rcv_frame_managerState example_sm = 1" "rcv_frame_testJoystick example_sm = 0"
  "deviceState example_sm = \<lparr>batteryPercent = 80, chargingError = False,
                      thermalStatus = ThermalStatus_green, freeSpacePercent = 50,
                      memoryUsagePercent = 30, fanSpeedPercentDesired = 0\<rparr>"
  "peripheralState example_sm = \<lparr>pandaType = PandaType_uno, fanSpeedRpm = 1000\<rparr>"
  "pandaStates example_sm = [\<lparr>safetyModel = SafetyModel_other 4, safetyParam = 0,
                       controlsAllowed = True, fault_relayMalfunction = False\<rparr>]"
  "liveCalibration_calStatus example_sm = CALIBRATED"
  "lateralPlan example_sm = \<lparr>laneChangeState = LaneChangeState_off,
                      laneChangeDirection = LaneChangeDirection_none,
                      mpcSolutionValid = True, dPathPoints = [], rProb = 1, lProb = 1\<rparr>"
  "radarState example_sm = \<lparr>leadOne = \<lparr>status = False, dRel = 0, vRel = 0\<rparr>, radarErrors = []\<rparr>"
  "modelV2 example_sm = \<lparr>position_x = [], position_y = [], hardBrakePredicted = False,
                  desirePrediction = [], frameDropPerc = 0, laneLines_y = []\<rparr>"
  "longitudinalPlan example_sm = \<lparr>fcw = False, hasLead = False, speeds = []\<rparr>"
  "liveLocationKalman example_sm = \<lparr>sensorsOK = True, posenetOK = True, deviceStable = True,
                             excessiveResets = False, orientationNED_value = []\<rparr>"
  "liveParameters_valid example_sm = True" "driverMonitoringState_events example_sm = []"
  "managerState_not_running example_sm = []"
  "testJoystick example_sm = \<lparr>axes = [], buttons = []\<rparr>"
  by (simp_all add: example_sm_def)

lemma example_Tick_simps [simp]:
  "can_strs_received example_Tick = True" "tick_CS example_Tick = example_CS"
  "tick_sm example_Tick = example_sm" "tick_androidLog example_Tick = []"
  "tick_road_limit example_Tick = \<lparr>apply_limit_speed = 0, road_limit_speed = 0, left_dist = 0,
                          first_started = False, max_speed_log = []\<rparr>"
  "tick_controllers example_Tick = \<lparr>LoC_long_control_state = ''off'', LoC_accel = Fin 0,
                           LaC_steer = Fin 0, LaC_steeringAngleDeg = Fin 0,
                           LaC_log = \<lparr>lac_active = False, lac_steeringAngleDeg = 0,
                                      lac_output = Fin 0, lac_saturated = False\<rparr>\<rparr>"
  by (simp_all add: example_Tick_def)

lemma example_CP_simps [simp]:
  "carName example_CP = ''gm''" "dashcamOnly example_CP = False"
  "communityFeature example_CP = False" "fingerprintSource_can example_CP = False"
  "carFw_len example_CP = 1" "pcmCruise example_CP = True"
  "openpilotLongitudinalControl example_CP = False" "steerControlType_angle example_CP = False"
  "minSteerSpeed example_CP = 0"
  "safetyConfigs example_CP = [\<lparr>cfg_safetyModel = SafetyModel_other 4, cfg_safetyParam = 0\<rparr>]"
  by (simp_all add: example_CP_def)

lemma example_Boot_simps [simp]:
  "boot_CP example_Boot = example_CP" "CI_CC_present example_Boot = True"
  "JoystickDebugMode example_Boot = False" "IsMetric example_Boot = True"
  "IsLdwEnabled example_Boot = False" "CommunityFeaturesToggle example_Boot = True"
  "OpenpilotEnabledToggle example_Boot = True" "Passive example_Boot = False"
  by (simp_all add: example_Boot_def)

lemma example_Tick_enable_simps [simp]:
  "can_strs_received example_Tick_enable = True"
  "tick_CS example_Tick_enable = example_CS\<lparr>CS_events := [''buttonEnable'']\<rparr>"
  "tick_sm example_Tick_enable = example_sm" "tick_androidLog example_Tick_enable = []"
  "tick_road_limit example_Tick_enable = tick_road_limit example_Tick"
  "tick_controllers example_Tick_enable = tick_controllers example_Tick"
  by (simp_all add: example_Tick_enable_def)

lemmas model_defs = step_def data_sample_def update_events_def
  ue_messages_def ue_hardware_def ue_fan_def ue_calibration_def ue_lane_change_def ue_can_def
  ue_panda_def safety_mismatch_def ue_system_def ue_validity_def ue_cruise_mismatch_def ue_fcw_def
  ue_slowing_down_def ue_android_log_def ue_processes_def camera_event_def
  events_clear_def events_add_def events_add_from_msg_def events_any_def when_do_def
  state_transition_def st_cruise_def st_engagement_def append_alert_type_def
  state_control_def sc_actuate_def sc_saturation_def new_Actuators_def the_Float_def
  publish_logs_def pl_cancel_def pl_ldw_def new_CarControl_def py_get_def
  cal_max_speed_def cms_before_lead_def cal_curve_speed_def cal_curve_speed_608_def curve_candidate_def
  road_limit_clamp_def lead_clamp_def update_max_speed_def get_long_lead_safe_speed_def get_lead_def
  kph_to_clu_def py_int_def update_button_timers_def Controls_init_def
  DT_CTRL_def SOFT_DISABLE_TIME_def STEER_ANGLE_SATURATION_TIMEOUT_def STEER_ANGLE_SATURATION_THRESHOLD_def
  LDW_MIN_SPEED_def IGNORED_SAFETY_MODES_def f_gt_def f_ge_def py_max_def py_min_def
  example_EVENTS_def
  Let_def

lemma init_eng:
  "eng (Controls_init example_Env example_Boot) =
     (State_disabled, False, False, 0, False, False, False, example_CP, [], Some ''startup'', 0, False)"
  by (simp add: Controls_init_def eng_def Let_def kph_to_clu_def)

lemma two_ticks:
  "map_sum id eng (run_ticks example_Env [example_Tick, example_Tick_enable]
              (Controls_init example_Env example_Boot)) =
     Inr (State_enabled, True, True, 0, True, False, False, example_CP, [], None, 0, False)"
  by (simp add: eng_def model_defs)

lemma example_engaged_run:
  "run_ticks example_Env [example_Tick, example_Tick_enable]
     (Controls_init example_Env example_Boot) = Inr example_engaged"
  using two_ticks unfolding example_engaged_def
  by (cases "run_ticks example_Env [example_Tick, example_Tick_enable]
               (Controls_init example_Env example_Boot)") simp_all

lemma example_engaged_eng:
  "eng example_engaged =
     (State_enabled, True, True, 0, True, False, False, example_CP, [], None, 0, False)"
  using two_ticks unfolding example_engaged_run by simp

lemma example_engaged_fields:
  "state example_engaged = State_enabled" "enabled example_engaged" "active example_engaged"
  "initialized example_engaged" "\<not> read_only example_engaged"
  "\<not> joystick_mode example_engaged" "CP example_engaged = example_CP"
  "static_events example_engaged = []" "startup_event example_engaged = None"
  "mismatch_counter example_engaged = 0"
  using example_engaged_eng by (simp_all add: eng_def)

lemma example_Tick_commIssue_simps [simp]:
  "can_strs_received example_Tick_commIssue = True"
  "tick_CS example_Tick_commIssue = example_CS"
  "tick_sm example_Tick_commIssue = example_sm\<lparr>all_alive_and_valid := False\<rparr>"
  "tick_androidLog example_Tick_commIssue = []"
  "tick_road_limit example_Tick_commIssue = tick_road_limit example_Tick"
  "tick_controllers example_Tick_commIssue = tick_controllers example_Tick"
  by (simp_all add: example_Tick_commIssue_def)

lemma example_EVENTS_classes:
  "USER_DISABLE \<in> set (example_EVENTS e) \<longleftrightarrow> e = ''buttonCancel''"
  "IMMEDIATE_DISABLE \<in> set (example_EVENTS e) \<longleftrightarrow> e = ''controlsMismatch''"
  "SOFT_DISABLE \<in> set (example_EVENTS e) \<longleftrightarrow> e = ''commIssue''"
  "ENABLE \<in> set (example_EVENTS e) \<longleftrightarrow> e = ''buttonEnable''"
  by (simp_all add: example_EVENTS_def)

lemma state_control_no_joystick:
  "\<not> joystick_mode s \<Longrightarrow> \<exists>r s'. state_control E t cs s = Inr (r, s')"
  by (simp add: state_control_def sc_actuate_def Let_def when_do_def case_prod_beta)

lemma publish_logs_no_joystick:
  "\<not> joystick_mode s \<Longrightarrow> desirePrediction (modelV2 (tick_sm t)) = []
     \<Longrightarrow> \<exists>s'. publish_logs E t cs a l s = Inr s'"
  by (simp add: publish_logs_def pl_cancel_def pl_ldw_def Let_def case_prod_beta)

lemma step_no_error:
  assumes "\<not> joystick_mode s" "desirePrediction (modelV2 (tick_sm t)) = []"
  shows "\<exists>s'. step E t s = Inr s'"
proof -
  define c where "c = collected E t s"
  define g where "g = when_do (\<not> read_only c \<and> initialized c) (state_transition E (tick_CS t)) c"
  have c_eq: "update_events E t (tick_CS t) (snd (data_sample E t s)) = c"
    by (simp add: c_def collected_def case_prod_beta)
  have "joystick_mode c = joystick_mode s"
    unfolding c_def using eng_fields(7) [OF collected_eng [of E t s]] by simp
  then have jg: "\<not> joystick_mode g"
    using assms(1) by (simp add: g_def when_do_def)
  then obtain r s1 where sc: "state_control E t (tick_CS t) g = Inr (r, s1)"
    using state_control_no_joystick by blast
  have "\<not> joystick_mode s1"
    using eng_fields(7) [OF state_control_eng [OF sc]] jg by simp
  then obtain s2 where pl: "publish_logs E t (tick_CS t) (fst r) (snd r) s1 = Inr s2"
    using publish_logs_no_joystick [OF _ assms(2)] by blast
  show ?thesis
    unfolding step_def
    by (simp add: case_prod_beta Let_def c_eq g_def [symmetric] sc pl)
qed

lemma commIssue_tick_soft:
  assumes "initialized s" "static_events s = []" "startup_event s = None"
    "mismatch_counter s < 200" "CP s = example_CP"
  shows "soft_disable_only example_Env (collected example_Env example_Tick_commIssue s)"
    and "mismatch_counter (collected example_Env example_Tick_commIssue s) < 200"
proof -
  let ?t = "example_Tick_commIssue"
  let ?d = "snd (data_sample example_Env ?t s)"
  have c: "collected example_Env ?t s = update_events example_Env ?t example_CS ?d"
    by (simp add: collected_def case_prod_beta)
  note de = data_sample_eng [of example_Env ?t s]
  have d: "initialized ?d" "static_events ?d = []" "startup_event ?d = None" "CP ?d = example_CP"
    using eng_fields(9,10,8) [OF de] assms data_sample_initialized [of s example_Env ?t]
    by simp_all
  have mc: "mismatch_counter ?d < 200"
    using assms(4) by (simp add: data_sample_mismatch_counter)
  show "mismatch_counter (collected example_Env ?t s) < 200"
    using mc by (simp add: collected_mismatch_counter)
  have base: "base_events example_CS (example_sm\<lparr>all_alive_and_valid := False\<rparr>) ?d = []"
    by (simp add: base_events_def d)
  have nomis: "\<not> safety_mismatch ?d 0 (pandaStates example_sm ! 0)"
    by (simp add: safety_mismatch_def d)
  have soft: "''commIssue'' \<in> set (events (collected example_Env ?t s))"
    unfolding c by (rule update_events_commIssue) (simp_all add: d)
  have user: "''buttonCancel'' \<notin> set (events (collected example_Env ?t s))"
    unfolding c by (subst update_events_mem) (simp_all add: update_events_names_def base)
  have imm: "''controlsMismatch'' \<notin> set (events (collected example_Env ?t s))"
    unfolding c using mc nomis
    by (subst update_events_mem) (simp_all add: update_events_names_def base)
  show "soft_disable_only example_Env (collected example_Env ?t s)"
    using soft user imm
    by (auto simp add: soft_disable_only_def events_any_def example_EVENTS_classes)
qed

lemma commIssue_ticks:
  assumes "initialized s" "\<not> read_only s" "\<not> joystick_mode s" "static_events s = []"
    "startup_event s = None" "mismatch_counter s < 200" "CP s = example_CP"
  shows "soft_disable_ticks example_Env (replicate n example_Tick_commIssue) s"
  using assms
proof (induction n arbitrary: s)
  case 0
  then show ?case by simp
next
  case (Suc n)
  let ?t = "example_Tick_commIssue"
  let ?c = "collected example_Env ?t s"
  note soft = commIssue_tick_soft [OF Suc.prems(1,4,5,6,7)]
  obtain s' where s': "step example_Env ?t s = Inr s'"
    using step_no_error [OF Suc.prems(3), of ?t example_Env] by auto
  note g = step_gate [OF s' Suc.prems(1,2)]
  note ce = collected_eng [of example_Env ?t s]
  have "soft_disable_ticks example_Env (replicate n ?t) s'"
  proof (rule Suc.IH)
    show "initialized s'"
      using eng_fields(5) [OF g] collected_initialized [OF Suc.prems(1)] by simp
    show "\<not> read_only s'"
      using eng_fields(6) [OF g] eng_fields(6) [OF ce] Suc.prems(2) by simp
    show "\<not> joystick_mode s'"
      using eng_fields(7) [OF g] eng_fields(7) [OF ce] Suc.prems(3) by simp
    show "static_events s' = []"
      using eng_fields(9) [OF g] eng_fields(9) [OF ce] Suc.prems(4) by simp
    show "startup_event s' = None"
      using eng_fields(10) [OF g] eng_fields(10) [OF ce] by simp
    show "mismatch_counter s' < 200"
      using eng_fields(11) [OF g] soft(2) by simp
    show "CP s' = example_CP"
      using eng_fields(8) [OF g] eng_fields(8) [OF ce] Suc.prems(7) by simp
  qed
  then show ?case
    using soft(1) s' by simp
qed

lemma example_commIssue_ticks:
  "soft_disable_ticks example_Env (replicate n example_Tick_commIssue) example_engaged"
  by (rule commIssue_ticks) (simp_all add: example_engaged_fields)

lemma replicate_numeral: "replicate (Suc n) x = x # replicate n x"
  by simp

subsection \<open>Speed arbitration, actuators and the published message\<close>

text \<open>
  The value \<open>cal_curve_speed\<close> stores is always a finite float, whatever numpy returns:
  \<open>the_Fin\<close> is only ever applied to a \<open>Fin\<close>.
\<close>

lemma curve_speed_value_finite:
  "isfinite (let c = (if f_lt m (Fin v) then py_max m (Fin lo) else Fin 255)
             in if isnan c then Fin 255 else c)"
  by (cases m) (simp_all add: py_max_def f_gt_def Let_def)

lemma controlsMismatch_not_named: "''controlsMismatch'' \<notin> set update_events_names"
  by (simp add: update_events_names_def)

lemma step_phases:
  assumes "step E t s = Inr s'"
  obtains r s1 s2 where
    "state_control E t (tick_CS t)
       (when_do (\<not> read_only (collected E t s) \<and> initialized (collected E t s))
          (state_transition E (tick_CS t)) (collected E t s)) = Inr (r, s1)"
    "publish_logs E t (tick_CS t) (fst r) (snd r) s1 = Inr s2"
    "s' = update_button_timers (buttonEvents (tick_CS t)) s2"
proof -
  have c_eq: "update_events E t (tick_CS t) (snd (data_sample E t s)) = collected E t s"
    by (simp add: collected_def case_prod_beta)
  from assms obtain r s1 s2 where
    "state_control E t (tick_CS t)
       (when_do (\<not> read_only (collected E t s) \<and> initialized (collected E t s))
          (state_transition E (tick_CS t)) (collected E t s)) = Inr (r, s1)"
    "publish_logs E t (tick_CS t) (fst r) (snd r) s1 = Inr s2"
    "s' = update_button_timers (buttonEvents (tick_CS t)) s2"
    unfolding step_def
    by (auto simp add: case_prod_beta Let_def c_eq split: sum.splits)
  then show ?thesis by (rule that)
qed

lemma pl_cancel_value:
  assumes "pl_cancel cs sm s cc = Inr cc'"
  shows "cruiseControl_cancel cc' \<longleftrightarrow>
           (cruiseState_enabled cs \<and> (\<not> enabled s \<or> \<not> pcmCruise (CP s)))
           \<or> (joystick_mode s \<and> 0 < rcv_frame_testJoystick sm
               \<and> py_get (buttons (testJoystick sm)) 0 = Inr True)"
    and "CC_actuators cc' = CC_actuators cc"
  using assms
  by (auto simp add: pl_cancel_def Let_def split: if_splits sum.splits)

lemma pl_ldw_value: "pl_ldw E cs sm s cc = Inr cc' \<Longrightarrow> cc' = cc"
  by (auto simp add: pl_ldw_def Let_def split: if_splits sum.splits)

lemma publish_logs_CC:
  assumes "publish_logs E t cs a l s = Inr s'"
  shows "cruiseControl_cancel (CC s') \<longleftrightarrow>
           (cruiseState_enabled cs \<and> (\<not> enabled s \<or> \<not> pcmCruise (CP s)))
           \<or> (joystick_mode s \<and> 0 < rcv_frame_testJoystick (tick_sm t)
               \<and> py_get (buttons (testJoystick (tick_sm t))) 0 = Inr True)"
    and "CC_actuators (CC s') = a"
proof -
  let ?sm = "tick_sm t"
  let ?ned = "orientationNED_value (liveLocationKalman ?sm)"
  let ?cc0 = "new_CarControl\<lparr>CC_enabled := enabled s, CC_active := active s, CC_actuators := a\<rparr>"
  let ?cc1 = "if 2 < length ?ned then ?cc0\<lparr>CC_roll := ?ned ! 0, CC_pitch := ?ned ! 1\<rparr> else ?cc0"
  from assms obtain cc2 cc3 where
    c2: "pl_cancel cs ?sm s ?cc1 = Inr cc2" and
    c3: "pl_ldw E cs ?sm s (cc2\<lparr>hud_setSpeed := v_cruise_kph s * KPH_TO_MS E,
                                 hud_speedVisible := enabled s, hud_lanesVisible := enabled s,
                                 hud_leadVisible := hasLead (longitudinalPlan ?sm)\<rparr>) = Inr cc3" and
    s': "CC s' = cc3"
    unfolding publish_logs_def Let_def
    by (auto simp add: case_prod_beta split: sum.splits)
  have cc3: "cc3 = cc2\<lparr>hud_setSpeed := v_cruise_kph s * KPH_TO_MS E,
                        hud_speedVisible := enabled s, hud_lanesVisible := enabled s,
                        hud_leadVisible := hasLead (longitudinalPlan ?sm)\<rparr>"
    using c3 by (rule pl_ldw_value)
  show "cruiseControl_cancel (CC s') \<longleftrightarrow>
           (cruiseState_enabled cs \<and> (\<not> enabled s \<or> \<not> pcmCruise (CP s)))
           \<or> (joystick_mode s \<and> 0 < rcv_frame_testJoystick ?sm
               \<and> py_get (buttons (testJoystick ?sm)) 0 = Inr True)"
    using pl_cancel_value(1) [OF c2] by (simp add: s' cc3)
  show "CC_actuators (CC s') = a"
    using pl_cancel_value(2) [OF c2] by (simp add: s' cc3)
qed

lemma update_button_timers_CC [simp]: "CC (update_button_timers bs s) = CC s"
  by (simp add: update_button_timers_def Let_def)

lemma step_cancel:
  assumes "step E t s = Inr s'"
  shows "cruiseControl_cancel (CC s') \<longleftrightarrow>
           (cruiseState_enabled (tick_CS t) \<and> (\<not> enabled s' \<or> \<not> pcmCruise (CP s')))
           \<or> (joystick_mode s' \<and> 0 < rcv_frame_testJoystick (tick_sm t)
               \<and> py_get (buttons (testJoystick (tick_sm t))) 0 = Inr True)"
proof -
  from assms obtain r s1 s2 where
    pl: "publish_logs E t (tick_CS t) (fst r) (snd r) s1 = Inr s2" and
    s': "s' = update_button_timers (buttonEvents (tick_CS t)) s2"
    by (rule step_phases)
  have e: "eng s' = eng s1"
    using publish_logs_eng [OF pl] by (simp add: s')
  show ?thesis
    using publish_logs_CC(1) [OF pl] eng_fields(2,7,8) [OF e] by (simp add: s')
qed

lemma sc_finite_spec:
  "sc_finite ps (a, lg) = (a', lg') \<Longrightarrow>
     (\<forall>p. a' p = (if p \<in> set ps \<and> isinstance_Number (a p) \<and> \<not> isfinite (the_Float (a p))
                    then Float (Fin 0) else a p))
     \<and> (\<forall>p \<in> set ps. isinstance_Number (a p) \<and> \<not> isfinite (the_Float (a p))
            \<longrightarrow> not_finite_log p \<in> set lg')
     \<and> set lg \<subseteq> set lg'"
proof (induction ps arbitrary: a lg)
  case Nil
  then show ?case by simp
next
  case (Cons q ps)
  show ?case
  proof (cases "isinstance_Number (a q) \<and> \<not> isfinite (the_Float (a q))")
    case True
    let ?a2 = "a(q := Float (Fin 0))"
    let ?lg2 = "lg @ [''actuators.'' @ q @ '' not finite'']"
    from Cons.prems True have run: "sc_finite ps (?a2, ?lg2) = (a', lg')"
      by (simp add: Let_def)
    note ih = Cons.IH [OF run]
    have fin: "isfinite (the_Float (Float (Fin 0)))"
      by (simp add: the_Float_def)
    have q_log: "not_finite_log q \<in> set lg'"
      using ih by (auto simp add: not_finite_log_def)
    have vals: "a' p = (if p \<in> set (q # ps) \<and> isinstance_Number (a p)
                            \<and> \<not> isfinite (the_Float (a p))
                         then Float (Fin 0) else a p)" for p
    proof (cases "p = q")
      case True
      with ih fin \<open>isinstance_Number (a q) \<and> \<not> isfinite (the_Float (a q))\<close>
      show ?thesis by simp
    next
      case False
      with ih show ?thesis by simp
    qed
    have logs: "not_finite_log p \<in> set lg'"
      if "p \<in> set (q # ps)" "isinstance_Number (a p) \<and> \<not> isfinite (the_Float (a p))" for p
    proof (cases "p = q")
      case True
      with q_log show ?thesis by simp
    next
      case False
      with that have "p \<in> set ps" "isinstance_Number (?a2 p) \<and> \<not> isfinite (the_Float (?a2 p))"
        by simp_all
      with ih show ?thesis by blast
    qed
    have "set lg \<subseteq> set lg'"
      using ih by auto
    with vals logs show ?thesis by blast
  next
    case False
    from Cons.prems False have run: "sc_finite ps (a, lg) = (a', lg')"
      by (auto simp add: Let_def split: if_splits)
    note ih = Cons.IH [OF run]
    show ?thesis
      using ih False by auto
  qed
qed

lemma state_control_result:
  assumes "state_control E t cs s = Inr ((a, lac), s')"
  shows "\<exists>raw lg. sc_controllers t cs s = Inr (raw, lac)
           \<and> sc_finite (ACTUATOR_FIELDS E) (raw, lg) = (a, cloudlog s')"
  using assms
  unfolding state_control_def sc_controllers_def Let_def
  by (auto simp add: case_prod_beta split: sum.splits)

lemma sc_controllers_no_joystick:
  "\<not> joystick_mode s \<Longrightarrow>
     sc_controllers t cs s =
       Inr (new_Actuators
              (''longControlState'' := Enum (LoC_long_control_state (tick_controllers t)),
               ''accel'' := Float (LoC_accel (tick_controllers t)),
               ''steer'' := Float (LaC_steer (tick_controllers t)),
               ''steeringAngleDeg'' := Float (LaC_steeringAngleDeg (tick_controllers t))),
            LaC_log (tick_controllers t))"
  by (simp add: sc_controllers_def sc_actuate_def Let_def when_do_def)

lemma step_fixed:
  assumes "step E t s = Inr s'"
  shows "read_only s' = read_only s" "joystick_mode s' = joystick_mode s" "CP s' = CP s"
    "static_events s' = static_events s" "is_ldw_enabled s' = is_ldw_enabled s"
proof -
  let ?c = "collected E t s"
  let ?g = "when_do (\<not> read_only ?c \<and> initialized ?c) (state_transition E (tick_CS t)) ?c"
  note e = step_eng [OF assms]
  note ce = collected_eng [of E t s]
  have g: "read_only ?g = read_only ?c" "joystick_mode ?g = joystick_mode ?c" "CP ?g = CP ?c"
    "static_events ?g = static_events ?c" "is_ldw_enabled ?g = is_ldw_enabled ?c"
    by (simp_all add: when_do_def)
  show "read_only s' = read_only s"
    using eng_fields(6) [OF e] eng_fields(6) [OF ce] g by simp
  show "joystick_mode s' = joystick_mode s"
    using eng_fields(7) [OF e] eng_fields(7) [OF ce] g by simp
  show "CP s' = CP s"
    using eng_fields(8) [OF e] eng_fields(8) [OF ce] g by simp
  show "static_events s' = static_events s"
    using eng_fields(9) [OF e] eng_fields(9) [OF ce] g by simp
  show "is_ldw_enabled s' = is_ldw_enabled s"
    using eng_fields(12) [OF e] eng_fields(12) [OF ce] g by simp
qed

lemma state_control_completes:
  assumes "2 \<le> length (axes (testJoystick (tick_sm t)))"
  shows "\<exists>r s'. state_control E t cs s = Inr (r, s')"
proof -
  obtain x y zs where ax: "axes (testJoystick (tick_sm t)) = x # y # zs"
    using assms by (cases "axes (testJoystick (tick_sm t))"; cases "tl (axes (testJoystick (tick_sm t)))") auto
  show ?thesis
    by (simp add: state_control_def sc_actuate_def Let_def when_do_def case_prod_beta py_get_def ax)
qed

lemma publish_logs_completes:
  assumes "buttons (testJoystick (tick_sm t)) \<noteq> []" "desirePrediction (modelV2 (tick_sm t)) = []"
  shows "\<exists>s'. publish_logs E t cs a l s = Inr s'"
proof -
  obtain b bs where bt: "buttons (testJoystick (tick_sm t)) = b # bs"
    using assms(1) by (cases "buttons (testJoystick (tick_sm t))") auto
  show ?thesis
    using assms(2)
    by (simp add: publish_logs_def pl_cancel_def pl_ldw_def Let_def case_prod_beta py_get_def bt)
qed

lemma step_completes:
  assumes "2 \<le> length (axes (testJoystick (tick_sm t)))"
    "buttons (testJoystick (tick_sm t)) \<noteq> []" "desirePrediction (modelV2 (tick_sm t)) = []"
  shows "\<exists>s'. step E t s = Inr s'"
proof -
  define c where "c = collected E t s"
  define g where "g = when_do (\<not> read_only c \<and> initialized c) (state_transition E (tick_CS t)) c"
  have c_eq: "update_events E t (tick_CS t) (snd (data_sample E t s)) = c"
    by (simp add: c_def collected_def case_prod_beta)
  obtain r s1 where sc: "state_control E t (tick_CS t) g = Inr (r, s1)"
    using state_control_completes [OF assms(1)] by blast
  obtain s2 where pl: "publish_logs E t (tick_CS t) (fst r) (snd r) s1 = Inr s2"
    using publish_logs_completes [OF assms(2,3)] by blast
  show ?thesis
    unfolding step_def
    by (simp add: case_prod_beta Let_def c_eq g_def [symmetric] sc pl)
qed

lemma Controls_init_fixed:
  "joystick_mode (Controls_init E b) = JoystickDebugMode b"
  "pcmCruise (CP (Controls_init E b)) = pcmCruise (boot_CP b)"
  by (simp_all add: Controls_init_def Let_def)

lemma glss_cong:
  assumes "speed_conv_to_clu a = speed_conv_to_clu b" "min_set_speed_clu a = min_set_speed_clu b"
  shows "get_long_lead_safe_speed a v sm cs = get_long_lead_safe_speed b v sm cs"
  unfolding get_long_lead_safe_speed_def assms ..

lemma cms_before_lead_fields:
  "limited_lead (snd (cms_before_lead E rl f v sm s)) = limited_lead s"
  "min_set_speed_clu (snd (cms_before_lead E rl f v sm s)) = min_set_speed_clu s"
  "speed_conv_to_clu (snd (cms_before_lead E rl f v sm s)) = speed_conv_to_clu s"
  by (simp_all add: cms_before_lead_def road_limit_clamp_def cal_curve_speed_def
      cal_curve_speed_608_def Let_def)

lemma lead_clamp_result:
  "lead_clamp l v m s =
     (if real_of_int (min_set_speed_clu s) \<le> l \<and> l < m then l else m,
      if real_of_int (min_set_speed_clu s) \<le> l
      then (if l < m \<and> \<not> limited_lead s
            then s\<lparr>max_speed_clu := v + 3, limited_lead := True\<rparr> else s)
      else s\<lparr>limited_lead := False\<rparr>)"
  by (simp add: lead_clamp_def Let_def min_def)

lemma update_max_speed_limited_lead [simp]:
  "limited_lead (update_max_speed m cs s) = limited_lead s"
  by (simp add: update_max_speed_def Let_def)

lemma no_lead_speed:
  "\<not> adaptiveCruise cs \<or> \<not> status (leadOne (radarState sm))
     \<Longrightarrow> get_long_lead_safe_speed s v sm cs = 0"
  by (auto simp add: get_long_lead_safe_speed_def get_lead_def)

lemma cal_max_speed_lead:
  "(let (cand, s1) = cms_before_lead E rl f v sm s;
        lead_speed = get_long_lead_safe_speed s v sm cs;
        binding = (real_of_int (min_set_speed_clu s) \<le> lead_speed \<and> lead_speed < cand);
        s' = snd (cal_max_speed E rl f v sm cs s)
    in (limited_lead s' \<longleftrightarrow>
          (if real_of_int (min_set_speed_clu s) \<le> lead_speed
           then lead_speed < cand \<or> limited_lead s else False))
       \<and> max_speed_clu s' =
           max_speed_clu
             (update_max_speed (py_int ((if binding then lead_speed else cand) + 1 / 2)) cs
                (if binding \<and> \<not> limited_lead s then s1\<lparr>max_speed_clu := v + 3\<rparr> else s1))
       \<and> (0 < min_set_speed_clu s
            \<and> (\<not> adaptiveCruise cs \<or> \<not> status (leadOne (radarState sm)))
           \<longrightarrow> \<not> limited_lead s'))"
proof -
  obtain cand s1 where b: "cms_before_lead E rl f v sm s = (cand, s1)"
    by (cases "cms_before_lead E rl f v sm s")
  have f: "limited_lead s1 = limited_lead s" "min_set_speed_clu s1 = min_set_speed_clu s"
    "speed_conv_to_clu s1 = speed_conv_to_clu s"
    using cms_before_lead_fields [of E rl f v sm s] by (simp_all add: b)
  have l: "get_long_lead_safe_speed s1 v sm cs = get_long_lead_safe_speed s v sm cs"
    using f by (intro glss_cong) simp_all
  have ums: "max_speed_clu (update_max_speed m cs (x\<lparr>limited_lead := y\<rparr>))
               = max_speed_clu (update_max_speed m cs x)" for m x y
    by (simp add: update_max_speed_def Let_def)
  show ?thesis
    using no_lead_speed [of cs sm s v]
    by (auto simp add: cal_max_speed_def b l f lead_clamp_result Let_def ums)
qed

lemmas speed_defs = example_lead_tick_def cal_max_speed_def cms_before_lead_def cal_curve_speed_def
  cal_curve_speed_608_def curve_candidate_def road_limit_clamp_def lead_clamp_def
  update_max_speed_def get_long_lead_safe_speed_def get_lead_def kph_to_clu_def py_int_def
  Controls_init_def example_cruising_def example_sm_lead_def Let_def

text \<open>The doubles that the low-pass filter produces in the scenario, operation by operation.\<close>

lemma lowpass_eval:
  assumes "fl t = t" "fl (t - x) = d" "fl (1 / 100) = kpv" "fl (d * kpv) = e" "fl (x + e) = y"
  shows "fl (x + fl (fl (fl t - x) * fl (1 / 100))) = y"
  using assms by simp

lemma lowpass_A:
  "fl (25 + fl (fl (fl 22 - 25) * fl (1 / 100))) = 878553771058135 / 35184372088832"
proof (rule lowpass_eval [where d = "- 3" and kpv = "5764607523034235 / 2 ^ 59"
      and e = "- 1080863910568919 / 2 ^ 55"])
  show "fl 22 = 22" using fl_int [of 22] by simp
  show "fl (22 - 25) = - 3" using fl_int [of "- 3"] by simp
  show "fl (1 / 100) = 5764607523034235 / 2 ^ 59" by (rule kp_value)
  show "fl (- 3 * (5764607523034235 / 2 ^ 59)) = - 1080863910568919 / 2 ^ 55"
    by (subst fl_eval [of "- 6"]) (simp_all add: rhe_def)
  show "fl (25 + - 1080863910568919 / 2 ^ 55) = 878553771058135 / 35184372088832"
    by (subst fl_eval [of 4]) (simp_all add: rhe_def)
qed

lemma lowpass_B:
  "fl (878553771058135 / 35184372088832
       + fl (fl (fl 10 - 878553771058135 / 35184372088832) * fl (1 / 100)))
     = 6986293364451495 / 281474976710656"
proof (rule lowpass_eval [where d = "- 526710050169815 / 2 ^ 45"
      and kpv = "5764607523034235 / 2 ^ 59" and e = "- 2696755456869453 / 2 ^ 54"])
  show "fl 10 = 10" using fl_int [of 10] by simp
  show "fl (10 - 878553771058135 / 35184372088832) = - 526710050169815 / 2 ^ 45"
    by (subst fl_eval [of 3]) (simp_all add: rhe_def)
  show "fl (1 / 100) = 5764607523034235 / 2 ^ 59" by (rule kp_value)
  show "fl (- 526710050169815 / 2 ^ 45 * (5764607523034235 / 2 ^ 59))
          = - 2696755456869453 / 2 ^ 54"
    by (subst fl_eval [of "- 3"]) (simp_all add: rhe_def)
  show "fl (878553771058135 / 35184372088832 + - 2696755456869453 / 2 ^ 54)
          = 6986293364451495 / 281474976710656"
    by (subst fl_eval [of 4]) (simp_all add: rhe_def)
qed

lemma example_lead_scenario:
  "get_long_lead_safe_speed example_cruising 22 example_sm_lead example_CS = 1374919 / 62500"
  "limited_lead example_tick_A"
  "max_speed_clu example_tick_A = 878553771058135 / 35184372088832"
  "limited_lead example_tick_B"
  "max_speed_clu example_tick_B = 6986293364451495 / 281474976710656"
  "limited_lead example_tick_C"
  "max_speed_clu example_tick_C
     = fl (max_speed_clu example_tick_B
           + fl (fl (fl 22 - max_speed_clu example_tick_B) * fl (1 / 100)))"
  "min_set_speed_clu example_tick_C = 8"
  by (simp_all add: example_tick_A_def example_tick_B_def example_tick_C_def speed_defs
      lowpass_A lowpass_B)

text \<open>The message published on a tick carries the actuators \<open>state_control\<close> returned.\<close>

lemma step_actuators_finite:
  assumes "step E t s = Inr s'" "p \<in> set (ACTUATOR_FIELDS E)"
    "isinstance_Number (CC_actuators (CC s') p)"
  shows "isfinite (the_Float (CC_actuators (CC s') p))"
proof -
  from assms(1) obtain r s1 s2 where
    sc: "state_control E t (tick_CS t)
           (when_do (\<not> read_only (collected E t s) \<and> initialized (collected E t s))
              (state_transition E (tick_CS t)) (collected E t s)) = Inr (r, s1)" and
    pl: "publish_logs E t (tick_CS t) (fst r) (snd r) s1 = Inr s2" and
    s': "s' = update_button_timers (buttonEvents (tick_CS t)) s2"
    by (rule step_phases)
  have a: "CC_actuators (CC s') = fst r"
    using publish_logs_CC(2) [OF pl] by (simp add: s')
  have "state_control E t (tick_CS t)
          (when_do (\<not> read_only (collected E t s) \<and> initialized (collected E t s))
             (state_transition E (tick_CS t)) (collected E t s)) = Inr ((fst r, snd r), s1)"
    using sc by simp
  from state_control_result [OF this] obtain raw lg where
    fin: "sc_finite (ACTUATOR_FIELDS E) (raw, lg) = (fst r, cloudlog s1)"
    by blast
  have zero: "isfinite (the_Float (Float (Fin 0)))"
    by (simp add: the_Float_def)
  show ?thesis
    using sc_finite_spec [OF fin] assms(2,3) zero unfolding a
    by (auto split: if_splits)
qed

section \<open>The claims\<close>

subsection \<open>Lead-vehicle safe speed\<close>

text \<open>
  C7. \<open>get_long_lead_safe_speed\<close> returns \<open>max (vEgo + accel) min_set_speed_clu\<close> exactly
  when adaptiveCruise holds, the radar lead has status, \<open>vRel < -1\<close>,
  \<open>0 < dRel - 5 < -vRel * 24\<close> and \<open>accel < 0\<close>, where \<open>t = (dRel - 5) / vRel\<close> and
  \<open>accel = -(vRel / t) * speed_conv_to_clu * 0.001\<close>; in every other case it returns 0.
\<close>

theorem get_long_lead_safe_speed_cases:
  "get_long_lead_safe_speed s v sm cs =
     (let lead = leadOne (radarState sm);
          d = dRel lead - 5;
          t = d / vRel lead;
          accel = - (vRel lead / t) * speed_conv_to_clu s * (1 / 1000)
      in if adaptiveCruise cs \<and> status lead \<and> vRel lead < - 1 \<and> 0 < d \<and> d < - vRel lead * 24
             \<and> accel < 0
         then max (v + accel) (real_of_int (min_set_speed_clu s))
         else 0)"
proof -
  have twelve: "- vRel (leadOne (radarState sm)) * (9 + 3) * 2 = - vRel (leadOne (radarState sm)) * 24"
    by simp
  show ?thesis
    unfolding get_long_lead_safe_speed_def get_lead_def Let_def twelve
    by (cases "adaptiveCruise cs"; cases "status (leadOne (radarState sm))") simp_all
qed

subsection \<open>The engagement flags\<close>

text \<open>
  C2. In every state the supervisor reaches from its initial state (disabled, with
  \<open>enabled\<close> and \<open>active\<close> false) by any sequence of completed ticks, \<open>enabled\<close> is true
  exactly when the engagement state is preEnabled, enabled or softDisabling, and \<open>active\<close>
  exactly when it is enabled or softDisabling.
\<close>

theorem engagement_flags_invariant:
  assumes "run_ticks E ts (Controls_init E b) = Inr s"
  shows "(enabled s \<longleftrightarrow> state s \<in> {State_preEnabled, State_enabled, State_softDisabling})
       \<and> (active s \<longleftrightarrow> state s \<in> {State_enabled, State_softDisabling})"
  using run_ticks_flags [OF assms Controls_init_flags] by (simp add: flags_ok_def)

theorem engagement_flags_invariant_witness:
  "run_ticks example_Env [example_Tick, example_Tick_enable]
     (Controls_init example_Env example_Boot) = Inr example_engaged
   \<and> state example_engaged = State_enabled
   \<and> (enabled example_engaged
        \<longleftrightarrow> state example_engaged \<in> {State_preEnabled, State_enabled, State_softDisabling})
   \<and> (active example_engaged
        \<longleftrightarrow> state example_engaged \<in> {State_enabled, State_softDisabling})"
  using engagement_flags_invariant [OF example_engaged_run] example_engaged_run
    example_engaged_fields(1)
  by simp

subsection \<open>The soft-disable timeout\<close>

text \<open>
  C3, as amended. If on some tick the state goes from enabled to softDisabling, and that
  tick and every later one collects a SOFT_DISABLE event and no USER_DISABLE or
  IMMEDIATE_DISABLE event, then after each of the first 299 ticks that follow the entry
  tick the state is still softDisabling, and after the 300th it is disabled.  Here \<open>t\<close>
  is the entry tick and \<open>ts\<close> are the ticks that follow it.
\<close>

theorem soft_disable_timeout:
  assumes "state s = State_enabled" "initialized s" "\<not> read_only s"
    and "soft_disable_ticks E (t # ts) s" "length ts \<le> 300"
  shows "\<exists>s'. run_ticks E (t # ts) s = Inr s'
           \<and> state s' = (if length ts < 300 then State_softDisabling else State_disabled)"
  using assms by (rule soft_countdown_entry)

theorem soft_disable_timeout_witness:
  "state example_engaged = State_enabled \<and> initialized example_engaged
   \<and> \<not> read_only example_engaged
   \<and> soft_disable_ticks example_Env
        (example_Tick_commIssue # replicate 299 example_Tick_commIssue) example_engaged
   \<and> length (replicate 299 example_Tick_commIssue) \<le> 300
   \<and> map_sum id state
        (run_ticks example_Env (example_Tick_commIssue # replicate 299 example_Tick_commIssue)
           example_engaged) = Inr State_softDisabling"
proof -
  have ticks: "soft_disable_ticks example_Env
        (example_Tick_commIssue # replicate 299 example_Tick_commIssue) example_engaged"
    using example_commIssue_ticks [of "Suc 299"] by (simp only: replicate_numeral)
  have len: "length (replicate 299 example_Tick_commIssue) \<le> 300"
    by simp
  from soft_disable_timeout [OF example_engaged_fields(1,4,5) ticks len]
  show ?thesis
    using ticks example_engaged_fields by auto
qed

text \<open>
  The claim as stated puts the first disabled state on the 301st tick after entry.  On
  the example, with a stale subscription on every tick, the state is already disabled
  after the 300th tick that follows the entry tick.
\<close>

theorem soft_disable_first_disabled_on_tick_300:
  "state example_engaged = State_enabled
   \<and> soft_disable_ticks example_Env
        (example_Tick_commIssue # replicate 300 example_Tick_commIssue) example_engaged
   \<and> map_sum id state
        (run_ticks example_Env (example_Tick_commIssue # replicate 300 example_Tick_commIssue)
           example_engaged) = Inr State_disabled"
proof -
  have ticks: "soft_disable_ticks example_Env
        (example_Tick_commIssue # replicate 300 example_Tick_commIssue) example_engaged"
    using example_commIssue_ticks [of "Suc 300"] by (simp only: replicate_numeral)
  have len: "length (replicate 300 example_Tick_commIssue) \<le> 300"
    by simp
  from soft_countdown_entry [OF example_engaged_fields(1,4,5) ticks len]
  show ?thesis
    using ticks example_engaged_fields by auto
qed

subsection \<open>Recovery from soft disabling\<close>

text \<open>
  C8, as amended. On a tick on which the state is softDisabling and the collected events
  carry no SOFT_DISABLE, no USER_DISABLE and no IMMEDIATE_DISABLE alert type, the state
  after \<open>state_transition\<close> is enabled.
\<close>

theorem soft_disabling_recovers:
  assumes "state s = State_softDisabling"
    and "\<not> events_any E s SOFT_DISABLE"
    and "\<not> events_any E s USER_DISABLE"
    and "\<not> events_any E s IMMEDIATE_DISABLE"
  shows "state (state_transition E cs s) = State_enabled"
  using assms
  by (simp add: state_transition_state st_engagement_def events_any_def)

theorem soft_disabling_recovers_witness:
  "state (example_engaged\<lparr>state := State_softDisabling, events := []\<rparr>) = State_softDisabling
   \<and> \<not> events_any example_Env (example_engaged\<lparr>state := State_softDisabling, events := []\<rparr>) SOFT_DISABLE
   \<and> \<not> events_any example_Env (example_engaged\<lparr>state := State_softDisabling, events := []\<rparr>) USER_DISABLE
   \<and> \<not> events_any example_Env (example_engaged\<lparr>state := State_softDisabling, events := []\<rparr>) IMMEDIATE_DISABLE
   \<and> state (state_transition example_Env example_CS
               (example_engaged\<lparr>state := State_softDisabling, events := []\<rparr>)) = State_enabled"
  using soft_disabling_recovers [of "example_engaged\<lparr>state := State_softDisabling, events := []\<rparr>"
      example_Env example_CS]
  by (simp add: events_any_def)

text \<open>
  The claim as stated asks only for the absence of SOFT_DISABLE.  With the cancel button
  (a USER_DISABLE event) and no SOFT_DISABLE event, the state after the transition is
  disabled.
\<close>

theorem soft_disabling_user_disable:
  "state (example_engaged\<lparr>state := State_softDisabling, events := [''buttonCancel'']\<rparr>)
     = State_softDisabling
   \<and> \<not> events_any example_Env
         (example_engaged\<lparr>state := State_softDisabling, events := [''buttonCancel'']\<rparr>)
         SOFT_DISABLE
   \<and> state (state_transition example_Env example_CS
               (example_engaged\<lparr>state := State_softDisabling, events := [''buttonCancel'']\<rparr>))
       = State_disabled"
  by (simp add: state_transition_state st_engagement_def events_any_def example_EVENTS_classes)

subsection \<open>The controlsMismatch event\<close>

text \<open>
  C9, as amended. After \<open>update_events\<close> the event set contains \<open>controlsMismatch\<close>
  exactly when the event is already among the events the collection starts from, or the
  controller is initialized and some panda either deviates from the configured
  \<open>safetyConfigs\<close> entry at its index (a panda beyond the list deviating unless its safety
  model is silent or noOutput) or is present while the mismatch counter is at least 200.
\<close>

theorem update_events_controlsMismatch:
  "''controlsMismatch'' \<in> set (events (update_events E t cs s)) \<longleftrightarrow>
     ''controlsMismatch'' \<in> set (base_events cs (tick_sm t) s)
     \<or> (initialized s
         \<and> (\<exists>j < length (pandaStates (tick_sm t)).
               safety_mismatch s j (pandaStates (tick_sm t) ! j) \<or> 200 \<le> mismatch_counter s))"
  using update_events_mem [OF controlsMismatch_not_named, of E t cs s] by simp

theorem update_events_controlsMismatch_witness:
  "initialized example_engaged
   \<and> safety_mismatch example_engaged 0 (pandaStates (tick_sm example_Tick_wrong_safety) ! 0)
   \<and> ''controlsMismatch''
       \<in> set (events (update_events example_Env example_Tick_wrong_safety example_CS
                        example_engaged))"
proof -
  have dev: "safety_mismatch example_engaged 0
               (pandaStates (tick_sm example_Tick_wrong_safety) ! 0)"
    by (simp add: safety_mismatch_def example_engaged_fields example_Tick_wrong_safety_def)
  have len: "0 < length (pandaStates (tick_sm example_Tick_wrong_safety))"
    by (simp add: example_Tick_wrong_safety_def)
  from update_events_controlsMismatch [of example_Env example_Tick_wrong_safety example_CS
      example_engaged] dev len example_engaged_fields(4)
  have "''controlsMismatch''
          \<in> set (events (update_events example_Env example_Tick_wrong_safety example_CS
                           example_engaged))"
    by blast
  then show ?thesis
    using dev example_engaged_fields(4) by simp
qed

text \<open>
  The claim as stated fails in three ways: with the counter at exactly 200 and a
  matching panda the event is added; before initialization a deviating panda adds
  nothing; and without any panda a counter of 201 adds nothing.
\<close>

theorem controlsMismatch_counterexample:
  "''controlsMismatch''
     \<in> set (events (update_events example_Env example_Tick example_CS
                      (example_engaged\<lparr>mismatch_counter := 200\<rparr>)))
   \<and> \<not> safety_mismatch (example_engaged\<lparr>mismatch_counter := 200\<rparr>) 0
         (pandaStates (tick_sm example_Tick) ! 0)
   \<and> length (pandaStates (tick_sm example_Tick)) = 1
   \<and> \<not> 200 < mismatch_counter (example_engaged\<lparr>mismatch_counter := 200\<rparr>)
   \<and> ''controlsMismatch''
       \<notin> set (events (update_events example_Env example_Tick_wrong_safety example_CS
                        (Controls_init example_Env example_Boot)))
   \<and> safety_mismatch (Controls_init example_Env example_Boot) 0
       (pandaStates (tick_sm example_Tick_wrong_safety) ! 0)
   \<and> ''controlsMismatch''
       \<notin> set (events (update_events example_Env example_Tick_no_panda example_CS
                        (example_engaged\<lparr>mismatch_counter := 201\<rparr>)))
   \<and> 200 < mismatch_counter (example_engaged\<lparr>mismatch_counter := 201\<rparr>)"
proof -
  have cm: "''controlsMismatch'' \<notin> set update_events_names"
    by (simp add: update_events_names_def)
  have init: "initialized (Controls_init example_Env example_Boot) = False"
    "static_events (Controls_init example_Env example_Boot) = []"
    "startup_event (Controls_init example_Env example_Boot) = Some ''startup''"
    "CP (Controls_init example_Env example_Boot) = example_CP"
    using init_eng by (simp_all add: eng_def)
  show ?thesis
    by (simp add: update_events_mem [OF cm] base_events_def safety_mismatch_def
        example_engaged_fields init example_Tick_wrong_safety_def example_Tick_no_panda_def)
qed

subsection \<open>The low-pass filter on the maximum speed\<close>

text \<open>
  C6, as amended. Let \<open>max_speed_clu\<close> hold a double and the target be an int of at most
  \<open>2^53\<close> in absolute value.  When adaptiveCruise holds and \<open>max_speed_clu > 0\<close>,
  \<open>update_max_speed\<close> replaces \<open>max_speed_clu\<close> by
  \<open>max_speed_clu + 0.01 * (target - max_speed_clu)\<close> evaluated in double arithmetic, each
  operation rounded: the new value is again a double, it lies between the old value and
  the target (no overshoot), and the distance to the target does not grow.  When
  adaptiveCruise is false or \<open>max_speed_clu <= 0\<close>, \<open>max_speed_clu\<close> becomes the target.
\<close>

theorem update_max_speed_lowpass:
  assumes "is_double (max_speed_clu s)" "\<bar>t\<bar> \<le> 2 ^ 53"
  shows
  "(adaptiveCruise cs \<and> 0 < max_speed_clu s \<longrightarrow>
      max_speed_clu (update_max_speed t cs s)
        = fl (max_speed_clu s + fl (fl (real_of_int t - max_speed_clu s) * fl (1 / 100)))
      \<and> is_double (max_speed_clu (update_max_speed t cs s))
      \<and> min (max_speed_clu s) (real_of_int t) \<le> max_speed_clu (update_max_speed t cs s)
      \<and> max_speed_clu (update_max_speed t cs s) \<le> max (max_speed_clu s) (real_of_int t)
      \<and> \<bar>real_of_int t - max_speed_clu (update_max_speed t cs s)\<bar>
          \<le> \<bar>real_of_int t - max_speed_clu s\<bar>)
   \<and> (\<not> adaptiveCruise cs \<or> max_speed_clu s \<le> 0 \<longrightarrow>
      max_speed_clu (update_max_speed t cs s) = real_of_int t)"
proof -
  have x: "fl (max_speed_clu s) = max_speed_clu s" and xb: "\<bar>max_speed_clu s\<bar> < 2 ^ 1024"
    using assms(1) by (simp_all add: is_double_def)
  have t: "fl (real_of_int t) = real_of_int t" using assms(2) by (rule fl_int)
  have "real_of_int \<bar>t\<bar> \<le> real_of_int (2 ^ 53)" using assms(2) by (simp only: of_int_le_iff)
  then have tb: "\<bar>real_of_int t\<bar> < 2 ^ 1024" by simp
  note btw = update_max_speed_between [OF x assms(2), of cs]
  have dbl: "is_double (max_speed_clu (update_max_speed t cs s))"
    using update_max_speed_double [OF x assms(2), of cs] btw xb tb
    by (simp add: is_double_def min_def max_def abs_if split: if_splits)
  have dist: "\<bar>real_of_int t - max_speed_clu (update_max_speed t cs s)\<bar>
                \<le> \<bar>real_of_int t - max_speed_clu s\<bar>"
    using btw by (simp add: min_def max_def abs_if split: if_splits)
  have val: "max_speed_clu (update_max_speed t cs s)
               = fl (max_speed_clu s + fl (fl (real_of_int t - max_speed_clu s) * fl (1 / 100)))"
    if "adaptiveCruise cs" "0 < max_speed_clu s"
    using update_max_speed_value [OF that, of t] by (simp only: t)
  have snap: "max_speed_clu (update_max_speed t cs s) = real_of_int t"
    if "\<not> adaptiveCruise cs \<or> max_speed_clu s \<le> 0"
    using that by (rule update_max_speed_snap)
  from val snap dbl btw dist show ?thesis by blast
qed

theorem update_max_speed_lowpass_witness:
  "is_double (max_speed_clu (example_engaged\<lparr>max_speed_clu := 50\<rparr>))
   \<and> \<bar>100 :: int\<bar> \<le> 2 ^ 53
   \<and> adaptiveCruise example_CS \<and> 0 < max_speed_clu (example_engaged\<lparr>max_speed_clu := 50\<rparr>)
   \<and> max_speed_clu (update_max_speed 100 example_CS (example_engaged\<lparr>max_speed_clu := 50\<rparr>))
       = 101 / 2
   \<and> is_double (max_speed_clu
        (update_max_speed 100 example_CS (example_engaged\<lparr>max_speed_clu := 50\<rparr>)))
   \<and> max_speed_clu (update_max_speed 100 (example_CS\<lparr>adaptiveCruise := False\<rparr>)
                       (example_engaged\<lparr>max_speed_clu := 50\<rparr>)) = 100"
proof -
  have d50: "is_double (max_speed_clu (example_engaged\<lparr>max_speed_clu := 50\<rparr>))"
    using fl_int [of 50] by (simp add: is_double_def)
  have t: "\<bar>100 :: int\<bar> \<le> 2 ^ 53" by simp
  have "fl (50 + fl (fl (fl 100 - 50) * fl (1 / 100))) = 101 / 2"
  proof (rule lowpass_eval [where d = 50 and kpv = "5764607523034235 / 2 ^ 59"
        and e = "1 / 2"])
    show "fl 100 = 100" using fl_int [of 100] by simp
    show "fl (100 - 50) = 50" using fl_int [of 50] by simp
    show "fl (1 / 100) = 5764607523034235 / 2 ^ 59" by (rule kp_value)
    show "fl (50 * (5764607523034235 / 2 ^ 59)) = 1 / 2"
      by (subst fl_eval [of "- 1"]) (simp_all add: rhe_def)
    show "fl (50 + 1 / 2) = 101 / 2"
      by (subst fl_eval [of 5]) (simp_all add: rhe_def)
  qed
  moreover have "fl 100 = 100" using fl_int [of 100] by simp
  ultimately have v: "fl (50 + fl (fl 50 * fl (1 / 100))) = 101 / 2"
    by simp
  show ?thesis
    using update_max_speed_lowpass [OF d50 t, of example_CS]
      update_max_speed_lowpass [OF d50 t, of "example_CS\<lparr>adaptiveCruise := False\<rparr>"]
      d50 v
    by simp
qed

text \<open>
  Against the exact update of the unamended claim: just below the target, at
  \<open>100 - 2^-46\<close> (the double written \<open>99.99999999999999\<close>), the correction
  \<open>0.01 * 2^-46\<close> is less than half a unit in the last place and the sum rounds back to
  the old value, so the distance is not multiplied by 0.99 and the target is not reached.
\<close>

theorem update_max_speed_stalls:
  "is_double (100 - 1 / 2 ^ 46)
   \<and> adaptiveCruise example_CS
   \<and> max_speed_clu (update_max_speed 100 example_CS
        (example_engaged\<lparr>max_speed_clu := 100 - 1 / 2 ^ 46\<rparr>)) = 100 - 1 / 2 ^ 46
   \<and> max_speed_clu (update_max_speed 100 example_CS
        (example_engaged\<lparr>max_speed_clu := 100 - 1 / 2 ^ 46\<rparr>))
       \<noteq> (100 - 1 / 2 ^ 46) + (1 / 100) * (real_of_int 100 - (100 - 1 / 2 ^ 46))
   \<and> \<bar>real_of_int 100 - max_speed_clu (update_max_speed 100 example_CS
        (example_engaged\<lparr>max_speed_clu := 100 - 1 / 2 ^ 46\<rparr>))\<bar>
       \<noteq> (99 / 100) * \<bar>real_of_int 100 - (100 - 1 / 2 ^ 46)\<bar>"
proof -
  have x: "fl (100 - 1 / 2 ^ 46) = 100 - 1 / 2 ^ 46"
    using fl_fixed [of "- 46" 7036874417766399] by simp
  have r: "fl (100 - 1 / 2 ^ 46 + fl (fl (fl 100 - (100 - 1 / 2 ^ 46)) * fl (1 / 100)))
             = 100 - 1 / 2 ^ 46"
  proof (rule lowpass_eval [where d = "1 / 2 ^ 46" and kpv = "5764607523034235 / 2 ^ 59"
        and e = "5764607523034235 / 2 ^ 105"])
    show "fl 100 = 100" using fl_int [of 100] by simp
    show "fl (100 - (100 - 1 / 2 ^ 46)) = 1 / 2 ^ 46"
      by (subst fl_eval [of "- 46"]) (simp_all add: rhe_def)
    show "fl (1 / 100) = 5764607523034235 / 2 ^ 59" by (rule kp_value)
    show "fl (1 / 2 ^ 46 * (5764607523034235 / 2 ^ 59)) = 5764607523034235 / 2 ^ 105"
      by (subst fl_eval [of "- 53"]) (simp_all add: rhe_def)
    show "fl (100 - 1 / 2 ^ 46 + 5764607523034235 / 2 ^ 105) = 100 - 1 / 2 ^ 46"
      by (subst fl_eval [of 6]) (simp_all add: rhe_def)
  qed
  have pos: "0 < max_speed_clu (example_engaged\<lparr>max_speed_clu := 100 - 1 / 2 ^ 46\<rparr>)"
    by simp
  have ac: "adaptiveCruise example_CS" by simp
  have v: "max_speed_clu (update_max_speed 100 example_CS
             (example_engaged\<lparr>max_speed_clu := 100 - 1 / 2 ^ 46\<rparr>)) = 100 - 1 / 2 ^ 46"
    unfolding update_max_speed_value [OF ac pos] using r by simp
  show ?thesis
    unfolding v using x by (simp add: is_double_def)
qed

subsection \<open>The request to cancel the car's cruise control\<close>

text \<open>
  C5, as amended. On every tick that completes, the published
  \<open>CarControl.cruiseControl.cancel\<close> is true exactly when \<open>CarState.cruiseState.enabled\<close>
  holds and the supervisor's \<open>enabled\<close> flag is false or \<open>CarParams.pcmCruise\<close> is false,
  or when the controller is in joystick debug mode, a \<open>testJoystick\<close> message has been
  received and its first button is pressed.
\<close>

theorem cancel_request:
  assumes "step E t s = Inr s'"
  shows "cruiseControl_cancel (CC s') \<longleftrightarrow>
           (cruiseState_enabled (tick_CS t) \<and> (\<not> enabled s' \<or> \<not> pcmCruise (CP s')))
           \<or> (joystick_mode s' \<and> 0 < rcv_frame_testJoystick (tick_sm t)
               \<and> py_get (buttons (testJoystick (tick_sm t))) 0 = Inr True)"
  using assms by (rule step_cancel)

theorem cancel_request_witness:
  "step example_Env example_Tick_cruise (Controls_init example_Env example_Boot_no_pcm)
     = Inr (projr (step example_Env example_Tick_cruise
                     (Controls_init example_Env example_Boot_no_pcm)))
   \<and> cruiseState_enabled (tick_CS example_Tick_cruise)
   \<and> \<not> pcmCruise (CP (projr (step example_Env example_Tick_cruise
                                 (Controls_init example_Env example_Boot_no_pcm))))
   \<and> cruiseControl_cancel
       (CC (projr (step example_Env example_Tick_cruise
                     (Controls_init example_Env example_Boot_no_pcm))))"
proof -
  let ?s0 = "Controls_init example_Env example_Boot_no_pcm"
  have "\<not> joystick_mode ?s0"
    by (simp add: Controls_init_fixed example_Boot_no_pcm_def)
  moreover have "desirePrediction (modelV2 (tick_sm example_Tick_cruise)) = []"
    by (simp add: example_Tick_cruise_def)
  ultimately obtain s' where run: "step example_Env example_Tick_cruise ?s0 = Inr s'"
    using step_no_error by blast
  have pcm: "\<not> pcmCruise (CP s')"
    using step_fixed(3) [OF run] by (simp add: Controls_init_fixed example_Boot_no_pcm_def)
  have cs: "cruiseState_enabled (tick_CS example_Tick_cruise)"
    by (simp add: example_Tick_cruise_def)
  from cancel_request [OF run] pcm cs have "cruiseControl_cancel (CC s')"
    by simp
  then show ?thesis
    using run pcm cs by simp
qed

text \<open>
  The claim as stated has no joystick case.  In joystick debug mode, with the first
  joystick button pressed and the car's cruise control off, the published flag is true.
\<close>

theorem cancel_request_joystick:
  "map_sum id (\<lambda>s. cruiseControl_cancel (CC s))
     (step example_Env example_Tick_joystick
        (Controls_init example_Env example_Boot_joystick)) = Inr True
   \<and> \<not> cruiseState_enabled (tick_CS example_Tick_joystick)"
proof -
  let ?s0 = "Controls_init example_Env example_Boot_joystick"
  obtain s' where run: "step example_Env example_Tick_joystick ?s0 = Inr s'"
    using step_completes [of example_Tick_joystick example_Env ?s0]
    by (auto simp add: example_Tick_joystick_def)
  have j: "joystick_mode s'"
    using step_fixed(2) [OF run] by (simp add: Controls_init_fixed example_Boot_joystick_def)
  have b: "0 < rcv_frame_testJoystick (tick_sm example_Tick_joystick)"
    "py_get (buttons (testJoystick (tick_sm example_Tick_joystick))) 0 = Inr True"
    by (simp_all add: example_Tick_joystick_def py_get_def)
  have c: "cruiseControl_cancel (CC s')"
    using step_cancel [OF run] j b by simp
  have "\<not> cruiseState_enabled (tick_CS example_Tick_joystick)"
    by (simp add: example_Tick_joystick_def)
  then show ?thesis
    using c by (simp add: run)
qed

subsection \<open>Finite actuators\<close>

text \<open>
  C4. Every numeric field of the \<open>Actuators\<close> message returned by \<open>state_control\<close> is
  finite: a field whose value from the controllers is not finite is 0.0 in the returned
  message and has a line in the error log, every other field keeps its value, and the
  engagement state and its two flags are the same after the call as before it.
\<close>

theorem actuators_finite:
  assumes "state_control E t cs s = Inr ((a, lac), s')"
  shows "\<exists>raw. sc_controllers t cs s = Inr (raw, lac)
           \<and> (\<forall>p \<in> set (ACTUATOR_FIELDS E).
                 (isinstance_Number (a p) \<longrightarrow> isfinite (the_Float (a p)))
                 \<and> (if isinstance_Number (raw p) \<and> \<not> isfinite (the_Float (raw p))
                    then a p = Float (Fin 0) \<and> not_finite_log p \<in> set (cloudlog s')
                    else a p = raw p))
           \<and> state s' = state s \<and> enabled s' = enabled s \<and> active s' = active s"
proof -
  from state_control_result [OF assms] obtain raw lg where
    raw: "sc_controllers t cs s = Inr (raw, lac)" and
    fin: "sc_finite (ACTUATOR_FIELDS E) (raw, lg) = (a, cloudlog s')"
    by blast
  note spec = sc_finite_spec [OF fin]
  have zero: "isfinite (the_Float (Float (Fin 0)))"
    by (simp add: the_Float_def)
  have fields: "\<forall>p \<in> set (ACTUATOR_FIELDS E).
                 (isinstance_Number (a p) \<longrightarrow> isfinite (the_Float (a p)))
                 \<and> (if isinstance_Number (raw p) \<and> \<not> isfinite (the_Float (raw p))
                    then a p = Float (Fin 0) \<and> not_finite_log p \<in> set (cloudlog s')
                    else a p = raw p)"
    using spec zero by auto
  note e = state_control_eng [OF assms]
  show ?thesis
    using raw fields eng_fields(1-3) [OF e] by blast
qed

theorem actuators_finite_witness:
  "state_control example_Env example_Tick_nan example_CS example_engaged
     = Inr (projr (state_control example_Env example_Tick_nan example_CS example_engaged))
   \<and> map_sum id (\<lambda>r. fst r ''steer'')
        (sc_controllers example_Tick_nan example_CS example_engaged) = Inr (Float NaN)
   \<and> fst (fst (projr (state_control example_Env example_Tick_nan example_CS example_engaged)))
        ''steer'' = Float (Fin 0)
   \<and> not_finite_log ''steer''
       \<in> set (cloudlog (snd (projr (state_control example_Env example_Tick_nan example_CS
                                       example_engaged))))
   \<and> state (snd (projr (state_control example_Env example_Tick_nan example_CS example_engaged)))
       = State_enabled"
proof -
  obtain a lac s' where
    run: "state_control example_Env example_Tick_nan example_CS example_engaged
            = Inr ((a, lac), s')"
    using state_control_no_joystick [OF example_engaged_fields(6)] by fastforce
  have steer: "LaC_steer (tick_controllers example_Tick_nan) = NaN"
    by (simp add: example_Tick_nan_def)
  have raw: "map_sum id (\<lambda>r. fst r ''steer'')
        (sc_controllers example_Tick_nan example_CS example_engaged) = Inr (Float NaN)"
    by (simp add: sc_controllers_no_joystick [OF example_engaged_fields(6)] steer)
  from actuators_finite [OF run] obtain raw' where
    r1: "sc_controllers example_Tick_nan example_CS example_engaged = Inr (raw', lac)" and
    r2: "\<forall>p \<in> set (ACTUATOR_FIELDS example_Env).
           (isinstance_Number (a p) \<longrightarrow> isfinite (the_Float (a p)))
           \<and> (if isinstance_Number (raw' p) \<and> \<not> isfinite (the_Float (raw' p))
              then a p = Float (Fin 0) \<and> not_finite_log p \<in> set (cloudlog s')
              else a p = raw' p)" and
    r3: "state s' = state example_engaged"
    by blast
  have "raw' ''steer'' = Float NaN"
    using raw by (simp add: r1)
  moreover have "''steer'' \<in> set (ACTUATOR_FIELDS example_Env)"
    by simp
  ultimately have "a ''steer'' = Float (Fin 0) \<and> not_finite_log ''steer'' \<in> set (cloudlog s')"
    using r2 by (auto simp add: the_Float_def)
  then show ?thesis
    using run raw r3 by (simp add: example_engaged_fields)
qed

subsection \<open>The lead clamp flag\<close>

text \<open>
  C10. In \<open>cal_max_speed\<close>, \<open>limited_lead\<close> is set to False exactly when the lead-safe speed
  is below \<open>min_set_speed_clu\<close> (so, when \<open>min_set_speed_clu\<close> is positive, whenever there
  is no lead or adaptiveCruise is false); when the lead-safe speed is at least
  \<open>min_set_speed_clu\<close> but not below the candidate, \<open>limited_lead\<close> keeps its value; and
  \<open>max_speed_clu\<close> is re-seeded to \<open>vEgo + 3\<close> before the low-pass step only when the clamp
  is binding and \<open>limited_lead\<close> was false before.  Here \<open>cand\<close> is the candidate maximum
  speed just before the lead clamp.
\<close>

theorem cal_max_speed_limited_lead:
  "(let (cand, s1) = cms_before_lead E rl f v sm s;
        lead_speed = get_long_lead_safe_speed s v sm cs;
        binding = (real_of_int (min_set_speed_clu s) \<le> lead_speed \<and> lead_speed < cand);
        s' = snd (cal_max_speed E rl f v sm cs s)
    in (limited_lead s' \<longleftrightarrow>
          (if real_of_int (min_set_speed_clu s) \<le> lead_speed
           then lead_speed < cand \<or> limited_lead s else False))
       \<and> max_speed_clu s' =
           max_speed_clu
             (update_max_speed (py_int ((if binding then lead_speed else cand) + 1 / 2)) cs
                (if binding \<and> \<not> limited_lead s then s1\<lparr>max_speed_clu := v + 3\<rparr> else s1))
       \<and> (0 < min_set_speed_clu s
            \<and> (\<not> adaptiveCruise cs \<or> \<not> status (leadOne (radarState sm)))
           \<longrightarrow> \<not> limited_lead s'))"
  by (rule cal_max_speed_lead)

theorem cal_max_speed_limited_lead_witness:
  "limited_lead example_tick_A
   \<and> max_speed_clu example_tick_A = 878553771058135 / 35184372088832
   \<and> limited_lead example_tick_B
   \<and> limited_lead example_tick_C
   \<and> max_speed_clu example_tick_C
       = fl (max_speed_clu example_tick_B
             + fl (fl (fl 22 - max_speed_clu example_tick_B) * fl (1 / 100)))
   \<and> 0 < min_set_speed_clu example_tick_C
   \<and> \<not> status (leadOne (radarState example_sm))
   \<and> \<not> limited_lead example_tick_D"
proof -
  have "0 < min_set_speed_clu example_tick_C
          \<and> (\<not> adaptiveCruise example_CS \<or> \<not> status (leadOne (radarState example_sm)))
        \<longrightarrow> \<not> limited_lead (snd (cal_max_speed example_Env (tick_road_limit example_Tick) 1 22
                                      example_sm example_CS example_tick_C))"
    using cal_max_speed_limited_lead [of example_Env "tick_road_limit example_Tick" 1 22
        example_sm example_tick_C example_CS]
    unfolding Let_def case_prod_beta by blast
  then have "\<not> limited_lead example_tick_D"
    by (simp add: example_tick_D_def example_lead_tick_def example_lead_scenario(8))
  then show ?thesis
    using example_lead_scenario by simp
qed

subsection \<open>The curve speed\<close>

text \<open>
  C1. The method that runs as \<open>cal_curve_speed\<close> is the definition of line 608, not the
  one of line 278 that the claim describes.  On every frame \<open>20 * k + 10\<close> the definition
  of line 278 leaves the state alone, while the running method does what it does on
  frame 0: it recomputes.  Whatever the values of \<open>sccCurvatureFactor\<close> and
  \<open>MIN_CURVE_SPEED\<close>, the running method returns the same state.  On frame 10, with no
  model path yet and \<open>curve_speed_ms = 0\<close>, it sets \<open>curve_speed_ms\<close> to 255 where the
  definition of line 278 leaves 0.
\<close>

theorem cal_curve_speed_rebound:
  "cal_curve_speed_278 E sm v (20 * k + 10) s = s
   \<and> cal_curve_speed E sm v (20 * k + 10) s = cal_curve_speed E sm v 0 s
   \<and> cal_curve_speed (E\<lparr>sccCurvatureFactor := c, MIN_CURVE_SPEED := m\<rparr>) sm v f s
       = cal_curve_speed E sm v f s
   \<and> curve_speed_ms example_cruising = 0
   \<and> curve_speed_ms (cal_curve_speed example_Env example_sm 20 10 example_cruising) = 255
   \<and> curve_speed_ms (cal_curve_speed_278 example_Env example_sm 20 10 example_cruising) = 0"
proof -
  have m20: "(20 * k + 10) mod 20 \<noteq> 0" and m10: "(20 * k + 10) mod 10 = 0"
    by presburger+
  have a: "cal_curve_speed_278 E sm v (20 * k + 10) s = s"
    using m20 by (simp add: cal_curve_speed_278_def)
  have b: "cal_curve_speed E sm v (20 * k + 10) s = cal_curve_speed E sm v 0 s"
    using m10 by (simp add: cal_curve_speed_def cal_curve_speed_608_def)
  have c: "cal_curve_speed (E\<lparr>sccCurvatureFactor := c, MIN_CURVE_SPEED := m\<rparr>) sm v f s
             = cal_curve_speed E sm v f s"
    by (simp add: cal_curve_speed_def cal_curve_speed_608_def Let_def)
  have d: "curve_speed_ms example_cruising = 0
     \<and> curve_speed_ms (cal_curve_speed example_Env example_sm 20 10 example_cruising) = 255
     \<and> curve_speed_ms (cal_curve_speed_278 example_Env example_sm 20 10 example_cruising) = 0"
    by (simp add: cal_curve_speed_def cal_curve_speed_608_def cal_curve_speed_278_def
        example_cruising_def Controls_init_def Let_def)
  from a b c d show ?thesis by blast
qed

end
